theory Spec2Isabelle
  imports Complex_Main "HOL-Library.Sublist" "HOL-Library.Multiset"
begin

section \<open>Exceptions and results\<close>

text \<open>
  The TypeScript sources signal failure by throwing. A thrown value is modelled as a
  value of type \<open>exn\<close>; an \<open>async\<close> function that resolves to a value of type
  \<open>'a\<close> or rejects is a function into \<open>exn + 'a\<close>, with \<open>Inl\<close> for the rejection.
  \<open>Error msg\<close> is \<^verbatim>\<open>new Error(msg)\<close>, \<open>TypeError\<close> the error of reading a property of
  \<^verbatim>\<open>undefined\<close> or \<^verbatim>\<open>null\<close>, \<open>SyntaxError\<close> the error of \<^verbatim>\<open>JSON.parse\<close>, and \<open>FsError\<close>,
  \<open>DockerError\<close>, \<open>GitError\<close>, \<open>ProxyError\<close> the rejections of the libraries \<^verbatim>\<open>fs\<close>,
  \<^verbatim>\<open>dockerode\<close>, \<^verbatim>\<open>simple-git\<close> and of the start of a proxy. \<open>ErrorWithMessageOf s e\<close> is
  \<^verbatim>\<open>new Error(s + e.message)\<close>, an error that quotes the message of the error \<open>e\<close> it was made
  from.
\<close>

datatype exn =
    Error string
  | ErrorWithMessageOf string exn
  | TypeError
  | SyntaxError
  | FsError
  | DockerError
  | GitError
  | ProxyError

section \<open>The port allocator (src/lib/mcp-proxy.ts, class MCPProxy)\<close>

text \<open>
  \<^verbatim>\<open>
  private activePorts: Set<number> = new Set();
  private portRange = { min: 50000, max: 60000 };
  \<close>
  The map \<^verbatim>\<open>proxies\<close> of the class is not read or written by the allocator and is
  left out of the record. Ports are integers.
\<close>

record MCPProxy =
  activePorts :: "int set"
  portRange_min :: int
  portRange_max :: int

definition new_MCPProxy :: MCPProxy where
  "new_MCPProxy = \<lparr>activePorts = {}, portRange_min = 50000, portRange_max = 60000\<rparr>"

text \<open>
  The loop of \<^verbatim>\<open>allocatePort\<close>:
  \<^verbatim>\<open>
  for (let port = this.portRange.min; port <= this.portRange.max; port++) {
    if (!this.activePorts.has(port)) { this.activePorts.add(port); return port; }
  }
  throw new Error('No available ports in range');
  \<close>
  \<open>scanPorts held port hi\<close> is the loop from the current value of \<^verbatim>\<open>port\<close> on; it
  yields the port found, or \<open>None\<close> when the loop runs off the end of the range.
\<close>

function scanPorts :: "int set \<Rightarrow> int \<Rightarrow> int \<Rightarrow> int option" where
  "scanPorts held port hi =
     (if port \<le> hi
      then (if port \<notin> held then Some port else scanPorts held (port + 1) hi)
      else None)"
  by pat_completeness auto
termination
  by (relation "measure (\<lambda>(held, port, hi). nat (hi + 1 - port))") auto

declare scanPorts.simps [simp del]

definition allocatePort :: "MCPProxy \<Rightarrow> exn + (int \<times> MCPProxy)" where
  "allocatePort s =
     (case scanPorts (activePorts s) (portRange_min s) (portRange_max s) of
        Some port \<Rightarrow> Inr (port, s\<lparr>activePorts := insert port (activePorts s)\<rparr>)
      | None \<Rightarrow> Inl (Error ''No available ports in range''))"

definition releasePort :: "MCPProxy \<Rightarrow> int \<Rightarrow> MCPProxy" where
  "releasePort s port = s\<lparr>activePorts := activePorts s - {port}\<rparr>"

section \<open>Memory strings (SandboxManager.parseMemory)\<close>

text \<open>
  \<^verbatim>\<open>
  private parseMemory(memoryStr: string): number {
    const match = memoryStr.match(/^(\d+)([KMGT]?)$/i);
    if (!match) throw new Error(`Invalid memory format: ${memoryStr}`);
    const value = parseInt(match[1]);
    const unit = match[2].toUpperCase();
    switch (unit) {
      case 'K': return value * 1024;
      case 'M': return value * 1024 * 1024;
      case 'G': return value * 1024 * 1024 * 1024;
      case 'T': return value * 1024 * 1024 * 1024 * 1024;
      default: return value;
    }
  }
  \<close>
  A string is a list of characters. \<^verbatim>\<open>\d\<close> matches the ten ASCII digits only, and under the
  flag \<^verbatim>\<open>i\<close> the class \<^verbatim>\<open>[KMGT]\<close> matches the four letters in either case. The pattern is
  anchored at both ends, so the first group is the longest run of digits at the start of
  the string and the second group is all that follows it: \<open>memory_match\<close> returns the two
  groups, or \<open>None\<close> when the pattern does not match.

  A JavaScript number is a double: the natural number of the model is the number the
  code computes whenever it is below \<open>2 ^ 53\<close>.
\<close>

definition is_digit :: "char \<Rightarrow> bool" where
  "is_digit c = (c \<in> set ''0123456789'')"

definition is_unit :: "char \<Rightarrow> bool" where
  "is_unit c = (c \<in> set ''KMGTkmgt'')"

definition memory_match :: "string \<Rightarrow> (string \<times> string) option" where
  "memory_match memoryStr =
     (let digits = takeWhile is_digit memoryStr; rest = dropWhile is_digit memoryStr
      in if digits = [] then None
         else (case rest of
                 [] \<Rightarrow> Some (digits, [])
               | [u] \<Rightarrow> if is_unit u then Some (digits, [u]) else None
               | _ \<Rightarrow> None))"

definition digit_value :: "char \<Rightarrow> nat" where
  "digit_value c = of_char c - 48"

definition parseInt :: "string \<Rightarrow> nat" where
  "parseInt digits = foldl (\<lambda>n c. 10 * n + digit_value c) 0 digits"

definition toUpperCase_char :: "char \<Rightarrow> char" where
  "toUpperCase_char c =
     (case map_of (zip ''abcdefghijklmnopqrstuvwxyz'' ''ABCDEFGHIJKLMNOPQRSTUVWXYZ'') c of
        Some u \<Rightarrow> u
      | None \<Rightarrow> c)"

definition toUpperCase :: "string \<Rightarrow> string" where
  "toUpperCase s = map toUpperCase_char s"

definition parseMemory :: "string \<Rightarrow> exn + nat" where
  "parseMemory memoryStr =
     (case memory_match memoryStr of
        None \<Rightarrow> Inl (Error (''Invalid memory format: '' @ memoryStr))
      | Some (m1, m2) \<Rightarrow>
          (let value = parseInt m1; unit = toUpperCase m2
           in if unit = ''K'' then Inr (value * 1024)
              else if unit = ''M'' then Inr (value * 1024 * 1024)
              else if unit = ''G'' then Inr (value * 1024 * 1024 * 1024)
              else if unit = ''T'' then Inr (value * 1024 * 1024 * 1024 * 1024)
              else Inr value))"

section \<open>Sandbox records (types.ts)\<close>

text \<open>
  The interfaces \<^verbatim>\<open>SandboxConfig\<close>, \<^verbatim>\<open>GitConfig\<close>, \<^verbatim>\<open>MCPConfig\<close>, \<^verbatim>\<open>MCPServer\<close>, \<^verbatim>\<open>ResourceConfig\<close>
  and \<^verbatim>\<open>Template\<close>. An optional property (\<^verbatim>\<open>containerId?: string\<close>) is an \<open>option\<close>, with
  \<open>None\<close> for \<^verbatim>\<open>undefined\<close>. The property \<^verbatim>\<open>id\<close> is the field \<open>sid\<close>, and the \<^verbatim>\<open>name\<close> and
  \<^verbatim>\<open>enabled\<close> of a server and the \<^verbatim>\<open>name\<close> of a template carry a prefix, since a field name
  is a constant of the theory. A \<^verbatim>\<open>Date\<close> is its time value in milliseconds, \<open>None\<close> for an
  invalid date. Numbers that need not be whole are rationals.
\<close>

datatype SandboxStatus = status_creating | status_running | status_stopped | status_error

record GitConfig =
  url :: string
  branch :: string
  clonePath :: "string option"

record MCPServer =
  server_name :: string
  command :: string
  args :: "string list"
  env :: "(string \<times> string) list option"
  server_enabled :: bool

record MCPConfig =
  enabled :: bool
  servers :: "MCPServer list"
  proxyPort :: "int option"

record ResourceConfig =
  memory :: string
  cpu :: rat
  disk :: string
  timeout :: rat

record SandboxConfig =
  sid :: string
  name :: string
  status :: SandboxStatus
  created :: "int option"
  template :: string
  git :: "GitConfig option"
  mcp :: MCPConfig
  resources :: ResourceConfig
  containerId :: "string option"
  mcpPort :: "int option"

record Template =
  template_name :: string
  baseImage :: string
  features :: "string list"
  mcpServers :: "MCPServer list"
  postCreate :: "string list option"
  environment :: "(string \<times> string) list option"
  ports :: "int list option"

text \<open>
  Truthiness, as the conditions \<^verbatim>\<open>!config.containerId\<close> and \<^verbatim>\<open>if (config.mcpPort)\<close> test it:
  an absent property, the empty string and the number 0 are falsy.
\<close>

definition truthy_string :: "string option \<Rightarrow> bool" where
  "truthy_string v = (case v of None \<Rightarrow> False | Some s \<Rightarrow> s \<noteq> [])"

definition truthy_number :: "int option \<Rightarrow> bool" where
  "truthy_number v = (case v of None \<Rightarrow> False | Some n \<Rightarrow> n \<noteq> 0)"

section \<open>Paths\<close>

text \<open>\<^verbatim>\<open>path.join\<close> on segments that need no normalisation.\<close>

definition path_join :: "string \<Rightarrow> string \<Rightarrow> string" where
  "path_join a b = a @ ''/'' @ b"

section \<open>JavaScript numbers\<close>

text \<open>
  A confidence is a JavaScript number, an IEEE 754 double. A finite double is a rational,
  and a number is written here as the rational it stands for, so that \<open><\<close> and \<open>=\<close> on
  rationals are the comparisons of the code. \<open>double_of x\<close> is the double nearest to \<open>x\<close>,
  a tie going to the even significand: 53 bits of significand, and an exponent of at
  least -1022 (below it the doubles are 2 to the -1074 apart). It is the value of a decimal
  literal, and the result of \<^verbatim>\<open>+\<close> and \<^verbatim>\<open>-\<close> on the exact sum and difference. The overflow to
  \<^verbatim>\<open>Infinity\<close> is left out: the numbers of the detector are sums of at most eight constants
  below 1.
\<close>

function bit_length :: "int \<Rightarrow> int" where
  "bit_length n = (if n \<le> 0 then 0 else 1 + bit_length (n div 2))"
  by pat_completeness auto

termination
  by (relation "measure nat") auto

declare bit_length.simps [simp del]

definition pow2 :: "int \<Rightarrow> rat" where
  "pow2 e = (if 0 \<le> e then 2 ^ nat e else 1 / 2 ^ nat (- e))"

text \<open>The exponent \<open>e\<close> of a number that is not 0: 2 to the \<open>e\<close> is at most its magnitude.\<close>

definition binary_exponent :: "rat \<Rightarrow> int" where
  "binary_exponent x =
     (let (p, q) = quotient_of \<bar>x\<bar>;
          e = bit_length p - bit_length q
      in if pow2 e \<le> \<bar>x\<bar> then e else e - 1)"

definition round_half_even :: "rat \<Rightarrow> int" where
  "round_half_even m =
     (let f = \<lfloor>m\<rfloor>; r = m - of_int f
      in if r < 1 / 2 then f else if 1 / 2 < r then f + 1 else if even f then f else f + 1)"

definition double_of :: "rat \<Rightarrow> rat" where
  "double_of x =
     (if x = 0 then 0
      else let ulp = pow2 (max (binary_exponent x) (- 1022) - 52)
           in of_int (round_half_even (x / ulp)) * ulp)"

text \<open>
  \<^verbatim>\<open>if (found) confidence += points\<close>, and a detector's run of such statements from
  \<^verbatim>\<open>let confidence = 0\<close>, in the order of the source. \<^verbatim>\<open>confidence -= 0.2\<close> is the step with the
  points -0.2: the negation of a double is exact.
\<close>

definition add_points :: "rat \<Rightarrow> bool \<times> rat \<Rightarrow> rat" where
  "add_points c step = (if fst step then double_of (c + double_of (snd step)) else c)"

definition accumulate :: "(bool \<times> rat) list \<Rightarrow> rat" where
  "accumulate steps = foldl add_points 0 steps"

section \<open>The project detector (src/lib/project-detector.ts)\<close>

text \<open>
  The directory that the detector inspects is a tree of entries: files, directories that
  \<^verbatim>\<open>fs.readdir\<close> can list, directories that it cannot, and entries of other kinds. The root is
  \<open>None\<close> when the project path itself cannot be listed. What \<^verbatim>\<open>detectNodeJS\<close> reads from the
  \<^verbatim>\<open>package.json\<close> of the root is either nothing usable (the file cannot be read, is not
  valid JSON, or is \<^verbatim>\<open>null\<close>: each makes the \<^verbatim>\<open>try\<close> block throw) or the names whose value in
  \<^verbatim>\<open>{ ...packageJson.dependencies, ...packageJson.devDependencies }\<close> is truthy.

  A confidence is a JavaScript number: the constants are added one by one, in the order of
  the source, each sum rounded to a double.
\<close>

datatype entry = File string | Dir string "entry list" | UnreadableDir string | Other string

datatype PackageJson = PackageUnusable | PackageDeps "string list"

record Project =
  tree :: "entry list option"
  packageJson :: PackageJson

record ProjectDetection =
  language :: string
  framework :: "string option"
  packageManager :: "string option"
  det_template :: string
  confidence :: rat

text \<open>
  \<^verbatim>\<open>
  private async getFileList(projectPath: string): Promise<string[]> {
    try {
      const entries = await fs.readdir(projectPath, { withFileTypes: true });
      const files: string[] = [];
      for (const entry of entries) {
        if (entry.isFile()) {
          files.push(entry.name);
        } else if (entry.isDirectory() && !entry.name.startsWith('.')
                   && entry.name !== 'node_modules') {
          try {
            const subFiles = await this.getFileList(path.join(projectPath, entry.name));
            files.push(...subFiles.map(f => path.join(entry.name, f)));
          } catch (error) { }
        }
      }
      return files;
    } catch (error) { return []; }
  }
  \<close>
\<close>

fun fileList_entry :: "entry \<Rightarrow> string list" where
  "fileList_entry (File n) = [n]"
| "fileList_entry (Dir n entries) =
     (if \<not> prefix ''.'' n \<and> n \<noteq> ''node_modules''
      then map (path_join n) (concat (map fileList_entry entries))
      else [])"
| "fileList_entry (UnreadableDir n) = []"
| "fileList_entry (Other n) = []"

definition getFileList :: "entry list option \<Rightarrow> string list" where
  "getFileList listing =
     (case listing of None \<Rightarrow> [] | Some entries \<Rightarrow> concat (map fileList_entry entries))"

text \<open>\<^verbatim>\<open>files.includes(n)\<close>, \<^verbatim>\<open>f.endsWith(s)\<close> and \<^verbatim>\<open>f.includes(s)\<close>.\<close>

definition list_includes :: "string list \<Rightarrow> string \<Rightarrow> bool" where
  "list_includes files n = (n \<in> set files)"

definition some_endsWith :: "string list \<Rightarrow> string \<Rightarrow> bool" where
  "some_endsWith files s = list_ex (\<lambda>f. suffix s f) files"

definition some_includes :: "string list \<Rightarrow> string \<Rightarrow> bool" where
  "some_includes files s = list_ex (\<lambda>f. sublist s f) files"

text \<open>
  \<open>detectNodeJS\<close>. The framework is the first of the chain of \<^verbatim>\<open>else if\<close> whose dependency
  is present; a \<^verbatim>\<open>package.json\<close> that makes the \<^verbatim>\<open>try\<close> block throw costs 0.2.
\<close>

definition nodejs_framework :: "string list \<Rightarrow> string option" where
  "nodejs_framework deps =
     (if list_includes deps ''react'' \<or> list_includes deps ''@types/react'' then Some ''react''
      else if list_includes deps ''vue'' \<or> list_includes deps ''@vue/cli'' then Some ''vue''
      else if list_includes deps ''next'' then Some ''nextjs''
      else if list_includes deps ''nuxt'' then Some ''nuxt''
      else if list_includes deps ''express'' then Some ''express''
      else if list_includes deps ''nestjs'' \<or> list_includes deps ''@nestjs/core'' then Some ''nestjs''
      else None)"

definition detectNodeJS :: "Project \<Rightarrow> ProjectDetection" where
  "detectNodeJS p =
     (let files = getFileList (tree p);
          fw = (if list_includes files ''package.json''
                then (case packageJson p of
                        PackageUnusable \<Rightarrow> None
                      | PackageDeps deps \<Rightarrow> nodejs_framework deps)
                else None);
          pm = (if list_includes files ''package-lock.json'' then Some ''npm''
                else if list_includes files ''yarn.lock'' then Some ''yarn''
                else if list_includes files ''pnpm-lock.yaml'' then Some ''pnpm''
                else None)
      in \<lparr>language = ''javascript'',
          framework = fw,
          packageManager = pm,
          det_template = (if fw = Some ''react'' then ''react'' else ''node''),
          confidence =
            accumulate
              [(list_includes files ''package.json'', 8 / 10),
               (list_includes files ''package.json'' \<and> fw \<noteq> None, 1 / 10),
               (list_includes files ''package.json'' \<and> packageJson p = PackageUnusable,
                  - (2 / 10)),
               (pm \<noteq> None, 5 / 100),
               (some_endsWith files ''.js'' \<or> some_endsWith files ''.jsx'', 1 / 10),
               (some_endsWith files ''.ts'' \<or> some_endsWith files ''.tsx'', 1 / 10),
               (list_includes files ''tsconfig.json'', 5 / 100),
               (list_includes files ''.eslintrc.js'' \<or> list_includes files ''.eslintrc.json'',
                  5 / 100)]\<rparr>)"

definition detectPython :: "Project \<Rightarrow> ProjectDetection" where
  "detectPython p =
     (let files = getFileList (tree p);
          pm = (if list_includes files ''poetry.lock'' then Some ''poetry''
                else if list_includes files ''Pipfile'' then Some ''pipenv''
                else if list_includes files ''requirements.txt'' then Some ''pip''
                else None);
          fw = (if list_includes files ''manage.py'' then Some ''django''
                else if some_includes files ''flask'' \<or> some_includes files ''app.py''
                  then Some ''flask''
                else if list_includes files ''main.py'' \<and> some_includes files ''fastapi''
                  then Some ''fastapi''
                else None)
      in \<lparr>language = ''python'',
          framework = fw,
          packageManager = pm,
          det_template = (if fw = Some ''django'' then ''django'' else ''python''),
          confidence =
            accumulate
              [(some_endsWith files ''.py'', 6 / 10),
               (list_includes files ''requirements.txt'', 2 / 10),
               (list_includes files ''setup.py'', 15 / 100),
               (list_includes files ''pyproject.toml'', 1 / 10),
               (list_includes files ''Pipfile'', 1 / 10),
               (list_includes files ''poetry.lock'', 1 / 10),
               (fw = Some ''django'', 15 / 100),
               (fw \<noteq> None \<and> fw \<noteq> Some ''django'', 1 / 10)]\<rparr>)"

definition detectGo :: "Project \<Rightarrow> ProjectDetection" where
  "detectGo p =
     (let files = getFileList (tree p)
      in \<lparr>language = ''go'',
          framework = None,
          packageManager = Some ''go-modules'',
          det_template = ''go'',
          confidence =
            accumulate
              [(some_endsWith files ''.go'', 7 / 10),
               (list_includes files ''go.mod'', 2 / 10),
               (list_includes files ''go.sum'', 1 / 10)]\<rparr>)"

definition detectRust :: "Project \<Rightarrow> ProjectDetection" where
  "detectRust p =
     (let files = getFileList (tree p)
      in \<lparr>language = ''rust'',
          framework = None,
          packageManager = Some ''cargo'',
          det_template = ''rust'',
          confidence =
            accumulate
              [(some_endsWith files ''.rs'', 7 / 10),
               (list_includes files ''Cargo.toml'', 25 / 100),
               (list_includes files ''Cargo.lock'', 1 / 10)]\<rparr>)"

definition detectJava :: "Project \<Rightarrow> ProjectDetection" where
  "detectJava p =
     (let files = getFileList (tree p);
          gradle = (list_includes files ''build.gradle'' \<or> list_includes files ''build.gradle.kts'')
      in \<lparr>language = ''java'',
          framework = (if some_includes files ''Application.java'' then Some ''spring-boot''
                       else None),
          packageManager = (if gradle then Some ''gradle''
                            else if list_includes files ''pom.xml'' then Some ''maven'' else None),
          det_template = ''java'',
          confidence =
            accumulate
              [(some_endsWith files ''.java'', 7 / 10),
               (list_includes files ''pom.xml'', 2 / 10),
               (gradle, 2 / 10),
               (some_includes files ''Application.java'', 1 / 10)]\<rparr>)"

definition detectRuby :: "Project \<Rightarrow> ProjectDetection" where
  "detectRuby p =
     (let files = getFileList (tree p)
      in \<lparr>language = ''ruby'',
          framework = (if list_includes files ''config.ru'' then Some ''rails'' else None),
          packageManager = Some ''bundler'',
          det_template = ''ruby'',
          confidence =
            accumulate
              [(some_endsWith files ''.rb'', 7 / 10),
               (list_includes files ''Gemfile'', 2 / 10),
               (list_includes files ''Gemfile.lock'', 1 / 10),
               (list_includes files ''config.ru'', 1 / 10)]\<rparr>)"

definition detectPHP :: "Project \<Rightarrow> ProjectDetection" where
  "detectPHP p =
     (let files = getFileList (tree p);
          fw = (if list_includes files ''artisan'' then Some ''laravel''
                else if list_includes files ''index.php'' \<and> some_includes files ''symfony''
                  then Some ''symfony''
                else None)
      in \<lparr>language = ''php'',
          framework = fw,
          packageManager = Some ''composer'',
          det_template = ''php'',
          confidence =
            accumulate
              [(some_endsWith files ''.php'', 7 / 10),
               (list_includes files ''composer.json'', 2 / 10),
               (list_includes files ''composer.lock'', 1 / 10),
               (fw \<noteq> None, 1 / 10)]\<rparr>)"

definition detectDotNet :: "Project \<Rightarrow> ProjectDetection" where
  "detectDotNet p =
     (let files = getFileList (tree p)
      in \<lparr>language = ''csharp'',
          framework = None,
          packageManager = Some ''nuget'',
          det_template = ''dotnet'',
          confidence =
            accumulate
              [(some_endsWith files ''.cs'' \<or> some_endsWith files ''.csproj''
                  \<or> some_endsWith files ''.sln'', 7 / 10),
               (some_endsWith files ''.csproj'', 2 / 10),
               (some_endsWith files ''.sln'', 1 / 10)]\<rparr>)"

text \<open>
  \<^verbatim>\<open>
  const results: ProjectDetection[] = [];
  for (const detector of detectors) {
    const result = await detector(projectPath);
    if (result.confidence > 0) { results.push(result); }
  }
  if (results.length === 0) {
    return { language: 'unknown', template: 'base', confidence: 0 };
  }
  return results.reduce((best, current) =>
    current.confidence > best.confidence ? current : best);
  \<close>
  \<^verbatim>\<open>reduce\<close> without an initial value starts from the first element.
\<close>

definition detectors :: "(Project \<Rightarrow> ProjectDetection) list" where
  "detectors = [detectNodeJS, detectPython, detectGo, detectRust, detectJava, detectRuby,
                detectPHP, detectDotNet]"

definition better :: "ProjectDetection \<Rightarrow> ProjectDetection \<Rightarrow> ProjectDetection" where
  "better best current = (if confidence current > confidence best then current else best)"

definition detection_results :: "Project \<Rightarrow> ProjectDetection list" where
  "detection_results p = filter (\<lambda>result. confidence result > 0) (map (\<lambda>detector. detector p) detectors)"

definition detectProject :: "Project \<Rightarrow> ProjectDetection" where
  "detectProject p =
     (case detection_results p of
        [] \<Rightarrow> \<lparr>language = ''unknown'', framework = None, packageManager = None,
               det_template = ''base'', confidence = 0\<rparr>
      | first # others \<Rightarrow> foldl better first others)"

text \<open>Projects to run the detector on.\<close>

definition react_project :: Project where
  "react_project =
     \<lparr>tree = Some [File ''package.json'', File ''package-lock.json'', File ''index.js''],
      packageJson = PackageDeps [''react'']\<rparr>"

definition go_rust_project :: Project where
  "go_rust_project =
     \<lparr>tree = Some [File ''main.go'', Dir ''src'' [File ''lib.rs'']],
      packageJson = PackageUnusable\<rparr>"

text \<open>
  A project whose \<^verbatim>\<open>package.json\<close> cannot be parsed, with one \<^verbatim>\<open>.js\<close> file; and a project
  with a \<^verbatim>\<open>.js\<close> file, a \<^verbatim>\<open>.ts\<close> file, the two configuration files of javascript, and the
  two module files of go.
\<close>

definition broken_package_project :: Project where
  "broken_package_project =
     \<lparr>tree = Some [File ''package.json'', File ''index.js''], packageJson = PackageUnusable\<rparr>"

definition js_go_project :: Project where
  "js_go_project =
     \<lparr>tree = Some [File ''a.js'', File ''b.ts'', File ''tsconfig.json'', File ''.eslintrc.json'',
                   File ''go.mod'', File ''go.sum''],
      packageJson = PackageUnusable\<rparr>"

definition unknown_detection :: ProjectDetection where
  "unknown_detection =
     \<lparr>language = ''unknown'', framework = None, packageManager = None,
      det_template = ''base'', confidence = 0\<rparr>"

section \<open>The world outside the process\<close>

text \<open>
  What the code reads from a \<^verbatim>\<open>config.json\<close> depends on the file only through what
  \<^verbatim>\<open>JSON.parse\<close> makes of its text, so a file's content is one of: text that \<^verbatim>\<open>JSON.parse\<close>
  rejects; the JSON text of \<^verbatim>\<open>null\<close>, a number, a string or a boolean; the JSON text of an
  object, given by the record the code reads from it under the interface \<^verbatim>\<open>SandboxConfig\<close>
  (its \<open>created\<close> is what \<^verbatim>\<open>new Date(config.created)\<close> yields). The code does not validate
  what it parses; objects that do not have the shape of the interface are outside the
  model.
\<close>

datatype FileContent = Unparsable | JsonPrimitive | JsonRecord SandboxConfig

datatype FileState = Missing | Unreadable | Content FileContent

text \<open>
  The calls the code makes that act on the file system, the container runtime, git and
  the proxy; a run of the code leaves the list of its calls, in order, in the field
  \<open>trace\<close> of the world. \<open>FsWriteFile\<close> is \<^verbatim>\<open>fs.writeFile\<close> with the path and what is written:
  the Dockerfile or the devcontainer descriptor generated from a template, or
  \<^verbatim>\<open>JSON.stringify(config, null, 2)\<close> of a record. \<open>FsCopyDirectory\<close> stands for the whole
  recursive \<^verbatim>\<open>copyDirectory\<close>. \<open>FsRename\<close> is \<^verbatim>\<open>fs.rename\<close>, which is part of the interface of
  the file system and which no function of the sources calls.
\<close>

datatype WrittenData = DockerfileText Template | DevcontainerJson Template | ConfigJson SandboxConfig

datatype effect =
    FsMkdir string
  | FsRm string
  | FsWriteFile string WrittenData
  | FsRename string string
  | FsCopyDirectory string string
  | GitClone string string string
  | DockerBuildImage string string
  | DockerCreateContainer string string nat rat
  | DockerStart string
  | DockerStop string
  | DockerExec string string
  | ProxyStart string int "MCPServer list"

text \<open>
  The world: the \<^verbatim>\<open>config.json\<close> of each directory under the sandboxes directory (by
  directory name); the names \<^verbatim>\<open>fs.readdir\<close> lists there (\<open>None\<close> when the directory cannot be
  read); the home directory; the port allocator of the \<^verbatim>\<open>SandboxManager\<close>; the trace; which
  calls the outside rejects, given the calls made so far; the id the runtime gives to a
  container it creates; what \<^verbatim>\<open>nanoid(8)\<close>, \<^verbatim>\<open>Date.now()\<close> and \<^verbatim>\<open>new Date()\<close> return; the
  templates that \<^verbatim>\<open>loadTemplate\<close> finds in the custom and in the built-in directory (\<open>None\<close>
  for a file that is missing, unreadable or not a valid template); the project that a
  clone of the repository holds; and whether the \<^verbatim>\<open>.git\<close> directory of the clone can be
  accessed after \<^verbatim>\<open>git clone\<close>.
\<close>

record World =
  configJson :: "string \<Rightarrow> FileState"
  sandboxesDirEntries :: "string list option"
  homedir :: string
  mcpProxy :: MCPProxy
  trace :: "effect list"
  rejects :: "effect list \<Rightarrow> effect \<Rightarrow> bool"
  newContainerId :: string
  nanoid8 :: string
  dateNow :: nat
  newDate :: int
  customTemplates :: "string \<Rightarrow> Template option"
  builtinTemplates :: "string \<Rightarrow> Template option"
  clonedProject :: Project
  gitDirAccessible :: bool

text \<open>
  An \<^verbatim>\<open>async\<close> function is a function from the world to its outcome and the world it
  leaves: a rejection keeps what was changed before it.
\<close>

type_synonym 'a io = "World \<Rightarrow> (exn + 'a) \<times> World"

definition io_return :: "'a \<Rightarrow> 'a io" where
  "io_return x w = (Inr x, w)"

definition io_throw :: "exn \<Rightarrow> 'a io" where
  "io_throw e w = (Inl e, w)"

definition io_bind :: "'a io \<Rightarrow> ('a \<Rightarrow> 'b io) \<Rightarrow> 'b io" where
  "io_bind m f w = (case m w of (Inl e, w') \<Rightarrow> (Inl e, w') | (Inr x, w') \<Rightarrow> f x w')"

definition io_catch :: "'a io \<Rightarrow> (exn \<Rightarrow> 'a io) \<Rightarrow> 'a io" where
  "io_catch m h w = (case m w of (Inl e, w') \<Rightarrow> h e w' | (Inr x, w') \<Rightarrow> (Inr x, w'))"

definition call :: "effect \<Rightarrow> exn \<Rightarrow> unit io" where
  "call e x w =
     (if rejects w (trace w) e then (Inl x, w\<lparr>trace := trace w @ [e]\<rparr>)
      else (Inr (), w\<lparr>trace := trace w @ [e]\<rparr>))"

text \<open>The paths of the \<^verbatim>\<open>SandboxManager\<close>.\<close>

definition sandboxesDir :: "World \<Rightarrow> string" where
  "sandboxesDir w = path_join (path_join (homedir w) ''.dcsandbox'') ''sandboxes''"

definition configPath :: "World \<Rightarrow> string \<Rightarrow> string" where
  "configPath w i = path_join (path_join (sandboxesDir w) i) ''config.json''"

text \<open>Reading the field \<^verbatim>\<open>this.sandboxesDir\<close>.\<close>

definition this_sandboxesDir :: "string io" where
  "this_sandboxesDir w = (Inr (sandboxesDir w), w)"

section \<open>The sandbox manager (class SandboxManager)\<close>

text \<open>
  \<^verbatim>\<open>
  private async saveSandboxConfig(config: SandboxConfig): Promise<void> {
    const configPath = path.join(this.sandboxesDir, config.id, 'config.json');
    await fs.writeFile(configPath, JSON.stringify(config, null, 2));
  }
  \<close>
  The file written is the one of the directory \<^verbatim>\<open>config.id\<close>. \<^verbatim>\<open>JSON.stringify\<close> writes an
  invalid date as \<^verbatim>\<open>null\<close>, which \<^verbatim>\<open>new Date\<close> reads back as time 0; every other field is
  read back as written: \<open>store_config\<close> is what the write does to the file when the file
  system accepts it. A rejected write is modelled as leaving the file as it was.
\<close>

definition json_roundtrip :: "SandboxConfig \<Rightarrow> SandboxConfig" where
  "json_roundtrip c = c\<lparr>created := (case created c of None \<Rightarrow> Some 0 | Some t \<Rightarrow> Some t)\<rparr>"

definition store_config :: "SandboxConfig \<Rightarrow> unit io" where
  "store_config config w =
     (Inr (), w\<lparr>configJson :=
        (configJson w)(sid config := Content (JsonRecord (json_roundtrip config)))\<rparr>)"

definition saveSandboxConfig :: "SandboxConfig \<Rightarrow> unit io" where
  "saveSandboxConfig config =
     io_bind this_sandboxesDir (\<lambda>dir.
     io_bind (call (FsWriteFile (path_join (path_join dir (sid config)) ''config.json'')
                (ConfigJson config)) FsError) (\<lambda>_.
     store_config config))"

text \<open>
  \<^verbatim>\<open>
  async getSandbox(sandboxId: string): Promise<SandboxConfig | null> {
    try {
      const configPath = path.join(this.sandboxesDir, sandboxId, 'config.json');
      const configData = await fs.readFile(configPath, 'utf8');
      const config = JSON.parse(configData);
      config.created = new Date(config.created);
      return config;
    } catch (error) {
      return null;
    }
  }
  \<close>
  \<open>readSandbox\<close> is the body of the \<^verbatim>\<open>try\<close>: \<^verbatim>\<open>fs.readFile\<close> rejects for a file that is
  missing or unreadable, \<^verbatim>\<open>JSON.parse\<close> throws a \<^verbatim>\<open>SyntaxError\<close>, and the assignment to
  \<^verbatim>\<open>config.created\<close> throws a \<^verbatim>\<open>TypeError\<close> when \<^verbatim>\<open>config\<close> is \<^verbatim>\<open>null\<close> or a primitive value
  (the code of a module is strict).
\<close>

definition readSandbox :: "string \<Rightarrow> SandboxConfig io" where
  "readSandbox sandboxId w =
     (case configJson w sandboxId of
        Missing \<Rightarrow> io_throw FsError w
      | Unreadable \<Rightarrow> io_throw FsError w
      | Content Unparsable \<Rightarrow> io_throw SyntaxError w
      | Content JsonPrimitive \<Rightarrow> io_throw TypeError w
      | Content (JsonRecord config) \<Rightarrow> io_return config w)"

definition getSandbox :: "string \<Rightarrow> SandboxConfig option io" where
  "getSandbox sandboxId =
     io_catch (io_bind (readSandbox sandboxId) (\<lambda>config. io_return (Some config)))
       (\<lambda>error. io_return None)"

text \<open>
  \<^verbatim>\<open>this.mcpProxy.allocatePort()\<close> and \<^verbatim>\<open>this.mcpProxy.releasePort(port)\<close> on the allocator
  that the manager holds.
\<close>

definition mcpProxy_allocatePort :: "int io" where
  "mcpProxy_allocatePort w =
     (case allocatePort (mcpProxy w) of
        Inl e \<Rightarrow> (Inl e, w)
      | Inr (port, s) \<Rightarrow> (Inr port, w\<lparr>mcpProxy := s\<rparr>))"

definition mcpProxy_releasePort :: "int \<Rightarrow> unit io" where
  "mcpProxy_releasePort port w = (Inr (), w\<lparr>mcpProxy := releasePort (mcpProxy w) port\<rparr>)"

text \<open>
  \<^verbatim>\<open>createSandbox(config, template)\<close>: the calls of the function in their order. The
  argument of \<^verbatim>\<open>docker.createContainer\<close> is built before the call, so a memory string that
  \<open>parseMemory\<close> rejects ends the function after the image build and before the container
  is created. The function ends with
  \<^verbatim>\<open>
  const updatedConfig = { ...config, containerId: container.id, status: 'stopped' as const };
  await this.saveSandboxConfig(updatedConfig);
  return updatedConfig;
  \<close>
\<close>

definition git_clonePath :: "SandboxConfig \<Rightarrow> string option" where
  "git_clonePath config = (case git config of None \<Rightarrow> None | Some g \<Rightarrow> clonePath g)"

definition setupWorkspace :: "SandboxConfig \<Rightarrow> string \<Rightarrow> unit io" where
  "setupWorkspace config workspaceDir =
     (case git_clonePath config of
        None \<Rightarrow> call (FsMkdir (path_join workspaceDir ''workspace'')) FsError
      | Some p \<Rightarrow>
          if p \<noteq> [] then call (FsCopyDirectory p (path_join workspaceDir ''workspace'')) FsError
          else call (FsMkdir (path_join workspaceDir ''workspace'')) FsError)"

definition imageTag :: "SandboxConfig \<Rightarrow> string" where
  "imageTag config = ''dcsandbox:'' @ sid config"

definition containerName :: "SandboxConfig \<Rightarrow> string" where
  "containerName config = ''dcsandbox-'' @ sid config"

definition container_id :: "string io" where
  "container_id w = (Inr (newContainerId w), w)"

definition createContainer :: "SandboxConfig \<Rightarrow> string io" where
  "createContainer config =
     (case parseMemory (memory (resources config)) of
        Inl e \<Rightarrow> io_throw e
      | Inr bytes \<Rightarrow>
          io_bind (call (DockerCreateContainer (imageTag config) (containerName config) bytes
                     (cpu (resources config) * 1000000000)) DockerError) (\<lambda>_.
          container_id))"

definition createSandbox :: "SandboxConfig \<Rightarrow> Template \<Rightarrow> SandboxConfig io" where
  "createSandbox config tmpl =
     io_bind this_sandboxesDir (\<lambda>dir.
     io_bind (call (FsMkdir dir) FsError) (\<lambda>_.
     io_bind (call (FsMkdir (path_join dir (sid config))) FsError) (\<lambda>_.
     io_bind (setupWorkspace config (path_join dir (sid config))) (\<lambda>_.
     io_bind (call (FsWriteFile (path_join (path_join dir (sid config)) ''Dockerfile'')
                (DockerfileText tmpl)) FsError) (\<lambda>_.
     io_bind (call (FsMkdir (path_join (path_join dir (sid config)) ''.devcontainer''))
                FsError) (\<lambda>_.
     io_bind (call (FsWriteFile
                (path_join (path_join (path_join dir (sid config)) ''.devcontainer'')
                   ''devcontainer.json'')
                (DevcontainerJson tmpl)) FsError) (\<lambda>_.
     io_bind (call (DockerBuildImage (path_join dir (sid config)) (imageTag config))
                DockerError) (\<lambda>_.
     io_bind (createContainer config) (\<lambda>container.
     io_bind (saveSandboxConfig
                (config\<lparr>containerId := Some container, status := status_stopped\<rparr>)) (\<lambda>_.
     io_return (config\<lparr>containerId := Some container, status := status_stopped\<rparr>)))))))))))"

text \<open>
  \<^verbatim>\<open>
  async startSandbox(sandboxId: string): Promise<void> {
    const config = await this.getSandbox(sandboxId);
    if (!config || !config.containerId) {
      throw new Error(`Sandbox ${sandboxId} not found or has no container`);
    }
    const container = this.docker.getContainer(config.containerId);
    await container.start();
    const mcpPort = await this.mcpProxy.allocatePort();
    const updatedConfig = { ...config, status: 'running' as const, mcpPort };
    await this.saveSandboxConfig(updatedConfig);
  }
  \<close>
\<close>

definition startSandbox :: "string \<Rightarrow> unit io" where
  "startSandbox sandboxId =
     io_bind (getSandbox sandboxId) (\<lambda>found.
       case found of
         None \<Rightarrow> io_throw (Error (''Sandbox '' @ sandboxId @ '' not found or has no container''))
       | Some config \<Rightarrow>
           (case containerId config of
              None \<Rightarrow>
                io_throw (Error (''Sandbox '' @ sandboxId @ '' not found or has no container''))
            | Some cid \<Rightarrow>
                if cid = [] then
                  io_throw (Error (''Sandbox '' @ sandboxId @ '' not found or has no container''))
                else
                  io_bind (call (DockerStart cid) DockerError) (\<lambda>_.
                  io_bind mcpProxy_allocatePort (\<lambda>port.
                  saveSandboxConfig (config\<lparr>status := status_running, mcpPort := Some port\<rparr>)))))"

text \<open>
  \<^verbatim>\<open>
  async stopSandbox(sandboxId: string): Promise<void> {
    const config = await this.getSandbox(sandboxId);
    if (!config || !config.containerId) {
      throw new Error(`Sandbox ${sandboxId} not found or has no container`);
    }
    const container = this.docker.getContainer(config.containerId);
    await container.stop();
    if (config.mcpPort) {
      await this.mcpProxy.releasePort(config.mcpPort);
    }
    const updatedConfig = { ...config, status: 'stopped' as const, mcpPort: undefined };
    await this.saveSandboxConfig(updatedConfig);
  }
  \<close>
\<close>

definition releaseIfHeld :: "int option \<Rightarrow> unit io" where
  "releaseIfHeld port =
     (case port of
        None \<Rightarrow> io_return ()
      | Some p \<Rightarrow> if p \<noteq> 0 then mcpProxy_releasePort p else io_return ())"

definition stopSandbox :: "string \<Rightarrow> unit io" where
  "stopSandbox sandboxId =
     io_bind (getSandbox sandboxId) (\<lambda>found.
       case found of
         None \<Rightarrow> io_throw (Error (''Sandbox '' @ sandboxId @ '' not found or has no container''))
       | Some config \<Rightarrow>
           (case containerId config of
              None \<Rightarrow>
                io_throw (Error (''Sandbox '' @ sandboxId @ '' not found or has no container''))
            | Some cid \<Rightarrow>
                if cid = [] then
                  io_throw (Error (''Sandbox '' @ sandboxId @ '' not found or has no container''))
                else
                  io_bind (call (DockerStop cid) DockerError) (\<lambda>_.
                  io_bind (releaseIfHeld (mcpPort config)) (\<lambda>_.
                  saveSandboxConfig (config\<lparr>status := status_stopped, mcpPort := None\<rparr>)))))"

text \<open>
  \<^verbatim>\<open>
  async listSandboxes(): Promise<SandboxConfig[]> {
    try {
      await fs.mkdir(this.sandboxesDir, { recursive: true });
      const entries = await fs.readdir(this.sandboxesDir);
      const sandboxes: SandboxConfig[] = [];
      for (const entry of entries) {
        const sandbox = await this.getSandbox(entry);
        if (sandbox) { sandboxes.push(sandbox); }
      }
      return sandboxes.sort((a, b) => b.created.getTime() - a.created.getTime());
    } catch (error) {
      return [];
    }
  }
  \<close>
  The comparison function yields \<^verbatim>\<open>NaN\<close> when a date is invalid (\<open>None\<close> here), which
  \<^verbatim>\<open>Array.prototype.sort\<close> takes as 0. The sort is stable; it is modelled as an insertion
  sort, which is the sort of the language whenever the comparison function is consistent
  (with invalid dates the language leaves the order to the implementation).
\<close>

definition readdir_sandboxesDir :: "string list io" where
  "readdir_sandboxesDir w =
     (case sandboxesDirEntries w of None \<Rightarrow> io_throw FsError w | Some entries \<Rightarrow> io_return entries w)"

fun collectSandboxes :: "string list \<Rightarrow> SandboxConfig list \<Rightarrow> SandboxConfig list io" where
  "collectSandboxes [] sandboxes = io_return sandboxes"
| "collectSandboxes (entry # entries) sandboxes =
     io_bind (getSandbox entry) (\<lambda>sandbox.
       collectSandboxes entries
         (case sandbox of None \<Rightarrow> sandboxes | Some config \<Rightarrow> sandboxes @ [config]))"

definition compare_created :: "SandboxConfig \<Rightarrow> SandboxConfig \<Rightarrow> int option" where
  "compare_created a b =
     (case (created b, created a) of
        (Some tb, Some ta) \<Rightarrow> Some (tb - ta)
      | _ \<Rightarrow> None)"

definition comes_after :: "('a \<Rightarrow> 'a \<Rightarrow> int option) \<Rightarrow> 'a \<Rightarrow> 'a \<Rightarrow> bool" where
  "comes_after cmp a b = (case cmp a b of None \<Rightarrow> False | Some d \<Rightarrow> d > 0)"

fun insert_sorted :: "('a \<Rightarrow> 'a \<Rightarrow> int option) \<Rightarrow> 'a \<Rightarrow> 'a list \<Rightarrow> 'a list" where
  "insert_sorted cmp x [] = [x]"
| "insert_sorted cmp x (y # ys) =
     (if comes_after cmp y x then x # y # ys else y # insert_sorted cmp x ys)"

definition js_sort :: "('a \<Rightarrow> 'a \<Rightarrow> int option) \<Rightarrow> 'a list \<Rightarrow> 'a list" where
  "js_sort cmp xs = foldl (\<lambda>sorted x. insert_sorted cmp x sorted) [] xs"

definition listSandboxes :: "SandboxConfig list io" where
  "listSandboxes =
     io_catch
       (io_bind this_sandboxesDir (\<lambda>dir.
        io_bind (call (FsMkdir dir) FsError) (\<lambda>_.
        io_bind readdir_sandboxesDir (\<lambda>entries.
        io_bind (collectSandboxes entries []) (\<lambda>sandboxes.
        io_return (js_sort compare_created sandboxes))))))
       (\<lambda>error. io_return [])"

text \<open>
  For the statements about \<open>getSandbox\<close> and \<open>listSandboxes\<close>: the record that the
  \<^verbatim>\<open>config.json\<close> of a directory holds, if it holds one; and a world to run examples in, with
  a given content of the sandboxes directory, in which no call is rejected.
\<close>

definition stored_record :: "World \<Rightarrow> string \<Rightarrow> SandboxConfig option" where
  "stored_record w entry =
     (case configJson w entry of Content (JsonRecord config) \<Rightarrow> Some config | _ \<Rightarrow> None)"

definition example_config :: SandboxConfig where
  "example_config =
     \<lparr>sid = ''sandbox-Ab3dE6gh'', name = ''demo'', status = status_creating,
      created = Some 1700000000000, template = ''node'', git = None,
      mcp = \<lparr>enabled = True, servers = [], proxyPort = None\<rparr>,
      resources = \<lparr>memory = ''2G'', cpu = 2, disk = ''10G'', timeout = 120\<rparr>,
      containerId = None, mcpPort = None\<rparr>"

definition example_template :: Template where
  "example_template =
     \<lparr>template_name = ''node'', baseImage = ''node:20'', features = [], mcpServers = [],
      postCreate = None, environment = None, ports = Some [3000]\<rparr>"

definition go_project :: Project where
  "go_project = \<lparr>tree = Some [File ''main.go''], packageJson = PackageUnusable\<rparr>"

definition example_world :: "(string \<Rightarrow> FileState) \<Rightarrow> string list option \<Rightarrow> World" where
  "example_world files entries =
     \<lparr>configJson = files, sandboxesDirEntries = entries, homedir = ''/home/u'',
      mcpProxy = new_MCPProxy, trace = [], rejects = (\<lambda>done e. False),
      newContainerId = ''c0ffee'', nanoid8 = ''Ab3dE6gh'', dateNow = 1700000000000,
      newDate = 1700000000000, customTemplates = (\<lambda>n. None),
      builtinTemplates =
        (\<lambda>n. if n = ''base'' \<or> n = ''go'' then Some example_template else None),
      clonedProject = go_project, gitDirAccessible = True\<rparr>"

section \<open>The calls of a run\<close>

text \<open>
  \<open>new_calls m w\<close> is the list of the calls that \<open>m\<close> makes when it runs from the world
  \<open>w\<close>. \<open>emits m w full Q\<close> says how a run of \<open>m\<close> from \<open>w\<close> goes: it makes the calls of
  \<open>full\<close> in their order, all of them when it returns, in which case \<open>Q\<close> holds of what it
  returns and of the world it leaves, and some first part of them when it throws.
\<close>

definition new_calls :: "'a io \<Rightarrow> World \<Rightarrow> effect list" where
  "new_calls m w = drop (length (trace w)) (trace (snd (m w)))"

definition emits :: "'a io \<Rightarrow> World \<Rightarrow> effect list \<Rightarrow> ('a \<Rightarrow> World \<Rightarrow> bool) \<Rightarrow> bool" where
  "emits m w full Q =
     (\<exists>r w' t. m w = (r, w') \<and> trace w' = trace w @ t \<and> prefix t full \<and>
        (case r of Inl e \<Rightarrow> True | Inr x \<Rightarrow> t = full \<and> Q x w'))"

text \<open>The calls of \<open>createSandbox\<close>, in the order of the function.\<close>

definition setupWorkspace_call :: "SandboxConfig \<Rightarrow> string \<Rightarrow> effect" where
  "setupWorkspace_call config workspaceDir =
     (case git_clonePath config of
        None \<Rightarrow> FsMkdir (path_join workspaceDir ''workspace'')
      | Some p \<Rightarrow>
          if p \<noteq> [] then FsCopyDirectory p (path_join workspaceDir ''workspace'')
          else FsMkdir (path_join workspaceDir ''workspace''))"

definition createSandbox_calls :: "SandboxConfig \<Rightarrow> Template \<Rightarrow> World \<Rightarrow> effect list" where
  "createSandbox_calls config tmpl w =
     (let workspaceDir = path_join (sandboxesDir w) (sid config);
          devcontainerDir = path_join workspaceDir ''.devcontainer''
      in [FsMkdir (sandboxesDir w),
          FsMkdir workspaceDir,
          setupWorkspace_call config workspaceDir,
          FsWriteFile (path_join workspaceDir ''Dockerfile'') (DockerfileText tmpl),
          FsMkdir devcontainerDir,
          FsWriteFile (path_join devcontainerDir ''devcontainer.json'') (DevcontainerJson tmpl),
          DockerBuildImage workspaceDir (imageTag config)] @
         (case parseMemory (memory (resources config)) of
            Inl e \<Rightarrow> []
          | Inr bytes \<Rightarrow>
              [DockerCreateContainer (imageTag config) (containerName config) bytes
                 (cpu (resources config) * 1000000000),
               FsWriteFile (configPath w (sid config))
                 (ConfigJson (config\<lparr>containerId := Some (newContainerId w),
                    status := status_stopped\<rparr>))]))"

text \<open>The calls of \<open>startSandbox\<close> and of \<open>stopSandbox\<close>.\<close>

definition startSandbox_calls :: "string \<Rightarrow> World \<Rightarrow> effect list" where
  "startSandbox_calls sandboxId w =
     (case stored_record w sandboxId of
        None \<Rightarrow> []
      | Some config \<Rightarrow>
          (case containerId config of
             None \<Rightarrow> []
           | Some cid \<Rightarrow>
               if cid = [] then []
               else DockerStart cid #
                 (case allocatePort (mcpProxy w) of
                    Inl e \<Rightarrow> []
                  | Inr (port, s) \<Rightarrow>
                      [FsWriteFile (configPath w (sid config))
                         (ConfigJson (config\<lparr>status := status_running, mcpPort := Some port\<rparr>))])))"

definition stopSandbox_calls :: "string \<Rightarrow> World \<Rightarrow> effect list" where
  "stopSandbox_calls sandboxId w =
     (case stored_record w sandboxId of
        None \<Rightarrow> []
      | Some config \<Rightarrow>
          (case containerId config of
             None \<Rightarrow> []
           | Some cid \<Rightarrow>
               if cid = [] then []
               else [DockerStop cid,
                     FsWriteFile (configPath w (sid config))
                       (ConfigJson (config\<lparr>status := status_stopped, mcpPort := None\<rparr>))]))"

text \<open>
  The status invariants of a record, and the records that a list of calls writes to a
  \<^verbatim>\<open>config.json\<close>.
\<close>

definition status_invariant :: "SandboxConfig \<Rightarrow> bool" where
  "status_invariant c =
     ((status c = status_running \<longrightarrow> truthy_string (containerId c) \<and> mcpPort c \<noteq> None) \<and>
      (status c = status_stopped \<longrightarrow> mcpPort c = None))"

fun written_record :: "effect \<Rightarrow> SandboxConfig option" where
  "written_record (FsWriteFile p (ConfigJson c)) = Some c"
| "written_record _ = None"

definition persisted :: "effect list \<Rightarrow> SandboxConfig list" where
  "persisted t = List.map_filter written_record t"

text \<open>
  For the statements about how a record file is written: whether a call renames a file,
  and whether the calls of one write are a write of the content to a temporary file
  followed by the renaming of that file over the target (the words of the specification).
\<close>

fun is_rename :: "effect \<Rightarrow> bool" where
  "is_rename (FsRename a b) = True"
| "is_rename _ = False"

fun write_temp_then_rename :: "effect list \<Rightarrow> string \<Rightarrow> bool" where
  "write_temp_then_rename [FsWriteFile tmp d, FsRename a b] target =
     (tmp \<noteq> target \<and> a = tmp \<and> b = target)"
| "write_temp_then_rename _ target = False"

section \<open>The git manager (class GitManager)\<close>

text \<open>
  \<^verbatim>\<open>
  async cloneRepository(gitUrl: string, branch: string, sandboxId: string): Promise<string> {
    await fs.mkdir(this.cacheDir, { recursive: true });
    const cloneDir = path.join(this.cacheDir, sandboxId);
    try {
      await fs.rm(cloneDir, { recursive: true, force: true });
      const git: SimpleGit = simpleGit();
      await git.clone(gitUrl, cloneDir, ['--branch', branch, '--single-branch', '--depth', '1']);
      const gitDir = path.join(cloneDir, '.git');
      try { await fs.access(gitDir); }
      catch { throw new Error('Git clone appears to have failed - no .git directory found'); }
      return cloneDir;
    } catch (error) {
      try { await fs.rm(cloneDir, { recursive: true, force: true }); }
      catch (cleanupError) { console.warn(...); }
      throw new Error(`Failed to clone repository: ${error.message}`);
    }
  }
  \<close>
\<close>

definition this_cacheDir :: "string io" where
  "this_cacheDir w = (Inr (path_join (path_join (homedir w) ''.dcsandbox'') ''git-cache''), w)"

definition access_gitDir :: "unit io" where
  "access_gitDir w = (if gitDirAccessible w then (Inr (), w) else (Inl FsError, w))"

definition cloneRepository :: "string \<Rightarrow> string \<Rightarrow> string \<Rightarrow> string io" where
  "cloneRepository gitUrl branchName sandboxId =
     io_bind this_cacheDir (\<lambda>cacheDir.
     io_bind (call (FsMkdir cacheDir) FsError) (\<lambda>_.
     io_catch
       (io_bind (call (FsRm (path_join cacheDir sandboxId)) FsError) (\<lambda>_.
        io_bind (call (GitClone gitUrl (path_join cacheDir sandboxId) branchName) GitError) (\<lambda>_.
        io_bind (io_catch access_gitDir (\<lambda>e. io_throw
                   (Error ''Git clone appears to have failed - no .git directory found''))) (\<lambda>_.
        io_return (path_join cacheDir sandboxId)))))
       (\<lambda>error.
        io_bind (io_catch (call (FsRm (path_join cacheDir sandboxId)) FsError)
                   (\<lambda>cleanupError. io_return ())) (\<lambda>_.
        io_throw (ErrorWithMessageOf ''Failed to clone repository: '' error)))))"

section \<open>The template manager (TemplateManager.getTemplate)\<close>

text \<open>
  \<^verbatim>\<open>
  async getTemplate(name: string): Promise<Template | null> {
    const customTemplate = await this.loadTemplate(this.templatesDir, name);
    if (customTemplate) { return customTemplate; }
    const builtinTemplate = await this.loadTemplate(this.builtinTemplatesDir, name);
    if (builtinTemplate) { return builtinTemplate; }
    return null;
  }
  \<close>
\<close>

definition getTemplate :: "string \<Rightarrow> Template option io" where
  "getTemplate n w =
     (case customTemplates w n of
        Some customTemplate \<Rightarrow> (Inr (Some customTemplate), w)
      | None \<Rightarrow> (Inr (builtinTemplates w n), w))"

section \<open>The rest of the sandbox manager\<close>

text \<open>
  \<^verbatim>\<open>
  async setupMCP(sandboxId: string): Promise<void> {
    const config = await this.getSandbox(sandboxId);
    if (!config || !config.mcpPort) {
      throw new Error(`Sandbox ${sandboxId} not ready for MCP setup`);
    }
    await this.mcpProxy.startProxy(sandboxId, config.mcpPort, config.mcp.servers);
  }
  \<close>
  The start of the proxy (the child processes of the servers and the WebSocket server)
  is one call to the outside.
\<close>

definition setupMCP :: "string \<Rightarrow> unit io" where
  "setupMCP sandboxId =
     io_bind (getSandbox sandboxId) (\<lambda>found.
       case found of
         None \<Rightarrow> io_throw (Error (''Sandbox '' @ sandboxId @ '' not ready for MCP setup''))
       | Some config \<Rightarrow>
           (case mcpPort config of
              None \<Rightarrow> io_throw (Error (''Sandbox '' @ sandboxId @ '' not ready for MCP setup''))
            | Some port \<Rightarrow>
                if port = 0 then
                  io_throw (Error (''Sandbox '' @ sandboxId @ '' not ready for MCP setup''))
                else call (ProxyStart sandboxId port (servers (mcp config))) ProxyError))"

text \<open>
  \<^verbatim>\<open>
  async runPostCreateCommands(sandboxId: string, commands: string[]): Promise<void> {
    const config = await this.getSandbox(sandboxId);
    if (!config || !config.containerId) {
      throw new Error(`Sandbox ${sandboxId} not found or has no container`);
    }
    const container = this.docker.getContainer(config.containerId);
    for (const command of commands) { ... container.exec ... exec.start ... }
  }
  \<close>
\<close>

fun execCommands :: "string \<Rightarrow> string list \<Rightarrow> unit io" where
  "execCommands cid [] = io_return ()"
| "execCommands cid (c # commands) =
     io_bind (call (DockerExec cid c) DockerError) (\<lambda>_. execCommands cid commands)"

definition runPostCreateCommands :: "string \<Rightarrow> string list \<Rightarrow> unit io" where
  "runPostCreateCommands sandboxId commands =
     io_bind (getSandbox sandboxId) (\<lambda>found.
       case found of
         None \<Rightarrow> io_throw (Error (''Sandbox '' @ sandboxId @ '' not found or has no container''))
       | Some config \<Rightarrow>
           (case containerId config of
              None \<Rightarrow>
                io_throw (Error (''Sandbox '' @ sandboxId @ '' not found or has no container''))
            | Some cid \<Rightarrow>
                if cid = [] then
                  io_throw (Error (''Sandbox '' @ sandboxId @ '' not found or has no container''))
                else execCommands cid commands))"

text \<open>
  \<^verbatim>\<open>getSandboxInfo\<close> returns \<^verbatim>\<open>null\<close> when \<open>getSandbox\<close> does and an object otherwise; the
  inspection of the container is inside a \<^verbatim>\<open>try\<close> and changes nothing. Only whether the
  result is \<^verbatim>\<open>null\<close> is used by \<^verbatim>\<open>createCommand\<close>.
\<close>

definition getSandboxInfo :: "string \<Rightarrow> SandboxConfig option io" where
  "getSandboxInfo sandboxId = getSandbox sandboxId"

section \<open>The create command (src/commands/create.ts)\<close>

text \<open>
  The options of the command; an absent option is \<open>None\<close>. \<^verbatim>\<open>a || b\<close> on an optional string
  or number takes \<^verbatim>\<open>b\<close> when \<^verbatim>\<open>a\<close> is absent, empty or 0.
\<close>

record CreateOptions =
  opt_name :: "string option"
  opt_git :: "string option"
  opt_branch :: "string option"
  opt_template :: "string option"
  opt_memory :: "string option"
  opt_cpu :: "rat option"
  opt_timeout :: "rat option"
  opt_persist :: "bool option"
  opt_autoDetect :: "bool option"

definition string_or :: "string option \<Rightarrow> string \<Rightarrow> string" where
  "string_or v d = (case v of None \<Rightarrow> d | Some s \<Rightarrow> if s \<noteq> [] then s else d)"

definition number_or :: "rat option \<Rightarrow> rat \<Rightarrow> rat" where
  "number_or v d = (case v of None \<Rightarrow> d | Some n \<Rightarrow> if n \<noteq> 0 then n else d)"

text \<open>
  \<^verbatim>\<open>
  function extractRepoName(gitUrl: string): string {
    const match = gitUrl.match(/\/([^\/]+?)(?:\.git)?$/);
    return match ? match[1] : 'repo';
  }
  \<close>
  The pattern matches when something follows the last slash of the URL; the group is
  what follows it, without one final \<^verbatim>\<open>.git\<close> unless nothing would be left.
\<close>

definition extractRepoName :: "string \<Rightarrow> string" where
  "extractRepoName gitUrl =
     (let rest = rev (takeWhile (\<lambda>c. c \<noteq> CHR ''/'') (rev gitUrl))
      in if CHR ''/'' \<notin> set gitUrl \<or> rest = [] then ''repo''
         else if suffix ''.git'' rest \<and> length rest > 4 then take (length rest - 4) rest
         else rest)"

text \<open>The decimal digits of a number, as the template literal writes \<^verbatim>\<open>Date.now()\<close>.\<close>

fun decimal :: "nat \<Rightarrow> string" where
  "decimal n =
     (if n < 10 then [''0123456789'' ! n]
      else decimal (n div 10) @ [''0123456789'' ! (n mod 10)])"

declare decimal.simps [simp del]

text \<open>
  Lines 19 to 43 of \<^verbatim>\<open>createCommand\<close>: the id, the name, and the template name. With a git
  URL the repository is cloned, and
  \<^verbatim>\<open>
  if (options.autoDetect || !options.template) {
    const detection = await projectDetector.detectProject(clonePath);
    if (detection.confidence > 0.7) { template = detection.template; }
    else { spinner.warn('Could not reliably detect project type, using base template'); }
  }
  \<close>
  where \<^verbatim>\<open>template\<close> was set to \<^verbatim>\<open>options.template || 'base'\<close> before.
\<close>

definition detectProject_at :: "string \<Rightarrow> ProjectDetection io" where
  "detectProject_at projectPath w = (Inr (detectProject (clonedProject w)), w)"

definition wants_detection :: "CreateOptions \<Rightarrow> bool" where
  "wants_detection options = (opt_autoDetect options = Some True \<or> \<not> truthy_string (opt_template options))"

definition pick_template :: "CreateOptions \<Rightarrow> ProjectDetection \<Rightarrow> string" where
  "pick_template options detection =
     (if confidence detection > double_of (7 / 10) then det_template detection
      else string_or (opt_template options) ''base'')"

definition cloneAndDetect :: "CreateOptions \<Rightarrow> string \<Rightarrow> (string option \<times> string) io" where
  "cloneAndDetect options sandboxId =
     (case opt_git options of
        None \<Rightarrow> io_return (None, string_or (opt_template options) ''base'')
      | Some gitUrl \<Rightarrow>
          if gitUrl = [] then io_return (None, string_or (opt_template options) ''base'')
          else
            io_bind (cloneRepository gitUrl (string_or (opt_branch options) ''main'') sandboxId)
              (\<lambda>cloneDir.
                if wants_detection options then
                  io_bind (detectProject_at cloneDir) (\<lambda>detection.
                  io_return (Some cloneDir, pick_template options detection))
                else io_return (Some cloneDir, string_or (opt_template options) ''base'')))"

text \<open>
  Lines 19 to 75: the record that \<^verbatim>\<open>createCommand\<close> hands to \<open>createSandbox\<close>, with the status
  \<open>creating\<close>, and the template it was resolved to.
\<close>

definition sandboxName :: "CreateOptions \<Rightarrow> World \<Rightarrow> string" where
  "sandboxName options w =
     (case opt_name options of
        Some n \<Rightarrow> if n \<noteq> [] then n else
          (if truthy_string (opt_git options) then extractRepoName (string_or (opt_git options) [])
           else ''sandbox-'' @ decimal (dateNow w))
      | None \<Rightarrow>
          (if truthy_string (opt_git options) then extractRepoName (string_or (opt_git options) [])
           else ''sandbox-'' @ decimal (dateNow w)))"

definition sandboxConfig_of ::
    "CreateOptions \<Rightarrow> World \<Rightarrow> string option \<Rightarrow> string \<Rightarrow> Template \<Rightarrow> SandboxConfig" where
  "sandboxConfig_of options w clone templateName templateConfig =
     \<lparr>sid = ''sandbox-'' @ nanoid8 w,
      name = sandboxName options w,
      status = status_creating,
      created = Some (newDate w),
      template = templateName,
      git = (if truthy_string (opt_git options)
             then Some \<lparr>url = string_or (opt_git options) [],
                        branch = string_or (opt_branch options) ''main'',
                        clonePath = clone\<rparr>
             else None),
      mcp = \<lparr>enabled = True, servers = mcpServers templateConfig, proxyPort = None\<rparr>,
      resources = \<lparr>memory = string_or (opt_memory options) ''2G'',
                   cpu = number_or (opt_cpu options) 2,
                   disk = ''10G'',
                   timeout = number_or (opt_timeout options) 120\<rparr>,
      containerId = None,
      mcpPort = None\<rparr>"

definition this_world :: "World io" where
  "this_world w = (Inr w, w)"

definition prepareSandbox :: "CreateOptions \<Rightarrow> (SandboxConfig \<times> Template) io" where
  "prepareSandbox options =
     io_bind this_world (\<lambda>w0.
     io_bind (cloneAndDetect options (''sandbox-'' @ nanoid8 w0)) (\<lambda>(clone, templateName).
     io_bind (getTemplate templateName) (\<lambda>found.
       case found of
         None \<Rightarrow> io_throw (Error (''Template '' @ [CHR 0x27] @ templateName @ [CHR 0x27]
                    @ '' not found''))
       | Some templateConfig \<Rightarrow>
           io_return (sandboxConfig_of options w0 clone templateName templateConfig,
                      templateConfig))))"

text \<open>
  \<^verbatim>\<open>
  const sandbox = await sandboxManager.createSandbox(sandboxConfig, templateConfig);
  await sandboxManager.startSandbox(sandbox.id);
  await sandboxManager.setupMCP(sandbox.id);
  if (templateConfig.postCreate && templateConfig.postCreate.length > 0) {
    await sandboxManager.runPostCreateCommands(sandbox.id, templateConfig.postCreate);
  }
  const sandboxInfo = await sandboxManager.getSandboxInfo(sandbox.id);
  if (!sandboxInfo) { throw new Error('Failed to get sandbox information after creation'); }
  \<close>
  The body of the \<^verbatim>\<open>try\<close> of \<^verbatim>\<open>createCommand\<close>; when it throws, the \<^verbatim>\<open>catch\<close> reports the error
  and the process exits with the code 1. What the command prints is left out.
\<close>

definition postCreateCommands :: "string \<Rightarrow> Template \<Rightarrow> unit io" where
  "postCreateCommands sandboxId templateConfig =
     (case postCreate templateConfig of
        None \<Rightarrow> io_return ()
      | Some commands \<Rightarrow>
          if commands \<noteq> [] then runPostCreateCommands sandboxId commands else io_return ())"

definition createCommand :: "CreateOptions \<Rightarrow> unit io" where
  "createCommand options =
     io_bind (prepareSandbox options) (\<lambda>(sandboxConfig, templateConfig).
     io_bind (createSandbox sandboxConfig templateConfig) (\<lambda>sandbox.
     io_bind (startSandbox (sid sandbox)) (\<lambda>_.
     io_bind (setupMCP (sid sandbox)) (\<lambda>_.
     io_bind (postCreateCommands (sid sandbox) templateConfig) (\<lambda>_.
     io_bind (getSandboxInfo (sid sandbox)) (\<lambda>sandboxInfo.
       case sandboxInfo of
         None \<Rightarrow> io_throw (Error ''Failed to get sandbox information after creation'')
       | Some info \<Rightarrow> io_return ()))))))"

text \<open>
  For the statements about the order of the calls of \<open>createCommand\<close>: the kinds of call,
  the calls made before the first write of a record, and the template that the command
  resolves (lines 23 to 43).
\<close>

fun is_clone :: "effect \<Rightarrow> bool" where
  "is_clone (GitClone u d b) = True"
| "is_clone _ = False"

fun is_build :: "effect \<Rightarrow> bool" where
  "is_build (DockerBuildImage d t) = True"
| "is_build _ = False"

fun is_createContainer :: "effect \<Rightarrow> bool" where
  "is_createContainer (DockerCreateContainer i n m c) = True"
| "is_createContainer _ = False"


definition resolved_template :: "CreateOptions \<Rightarrow> World \<Rightarrow> string" where
  "resolved_template options w =
     (if truthy_string (opt_git options) \<and> wants_detection options
      then pick_template options (detectProject (clonedProject w))
      else string_or (opt_template options) ''base'')"

definition example_options :: CreateOptions where
  "example_options =
     \<lparr>opt_name = None, opt_git = Some ''https://example.org/u/app.git'', opt_branch = None,
      opt_template = None, opt_memory = None, opt_cpu = None, opt_timeout = None,
      opt_persist = None, opt_autoDetect = Some True\<rparr>"

text \<open>
  Two properties of an operation, for every world it runs from: \<open>grows m\<close>, it only adds
  calls to the trace; \<open>only_calls P m\<close>, it changes nothing of the world but the trace, and
  each call it adds satisfies \<open>P\<close>.
\<close>

definition grows :: "'a io \<Rightarrow> bool" where
  "grows m = (\<forall>w. \<exists>t. trace (snd (m w)) = trace w @ t)"

definition only_calls :: "(effect \<Rightarrow> bool) \<Rightarrow> 'a io \<Rightarrow> bool" where
  "only_calls P m = (\<forall>w. \<exists>t. snd (m w) = w\<lparr>trace := trace w @ t\<rparr> \<and> list_all P t)"

definition no_record :: "effect \<Rightarrow> bool" where
  "no_record e = (written_record e = None)"

definition before_first_write :: "effect list \<Rightarrow> effect list" where
  "before_first_write t = takeWhile no_record t"

text \<open>The calls of \<open>createSandbox\<close> before it writes the record.\<close>

definition createSandbox_setup_calls :: "SandboxConfig \<Rightarrow> Template \<Rightarrow> World \<Rightarrow> effect list" where
  "createSandbox_setup_calls config tmpl w =
     (let workspaceDir = path_join (sandboxesDir w) (sid config);
          devcontainerDir = path_join workspaceDir ''.devcontainer''
      in [FsMkdir (sandboxesDir w),
          FsMkdir workspaceDir,
          setupWorkspace_call config workspaceDir,
          FsWriteFile (path_join workspaceDir ''Dockerfile'') (DockerfileText tmpl),
          FsMkdir devcontainerDir,
          FsWriteFile (path_join devcontainerDir ''devcontainer.json'') (DevcontainerJson tmpl),
          DockerBuildImage workspaceDir (imageTag config)] @
         (case parseMemory (memory (resources config)) of
            Inl e \<Rightarrow> []
          | Inr bytes \<Rightarrow>
              [DockerCreateContainer (imageTag config) (containerName config) bytes
                 (cpu (resources config) * 1000000000)]))"

text \<open>
  The part of \<^verbatim>\<open>createCommand\<close> that follows \<open>startSandbox\<close>, and the part that follows
  \<open>createSandbox\<close>, as operations of their own.
\<close>

definition afterStart :: "Template \<Rightarrow> SandboxConfig \<Rightarrow> unit io" where
  "afterStart templateConfig sandbox =
     io_bind (setupMCP (sid sandbox)) (\<lambda>_.
     io_bind (postCreateCommands (sid sandbox) templateConfig) (\<lambda>_.
     io_bind (getSandboxInfo (sid sandbox)) (\<lambda>sandboxInfo.
       case sandboxInfo of
         None \<Rightarrow> io_throw (Error ''Failed to get sandbox information after creation'')
       | Some info \<Rightarrow> io_return ())))"

definition afterCreate :: "Template \<Rightarrow> SandboxConfig \<Rightarrow> unit io" where
  "afterCreate templateConfig sandbox =
     io_bind (startSandbox (sid sandbox)) (\<lambda>_. afterStart templateConfig sandbox)"

text \<open>
  For the statements about the order of a run of \<^verbatim>\<open>createCommand\<close>: the calls that act
  outside the sandbox directory, and the order the specification asks for, that before the
  first such call a record has been written and the first record written has the status
  \<open>creating\<close>.
\<close>

definition side_effect :: "effect \<Rightarrow> bool" where
  "side_effect e = (is_clone e \<or> is_build e \<or> is_createContainer e)"

definition creating_persisted_first :: "effect list \<Rightarrow> bool" where
  "creating_persisted_first t =
     (case persisted (takeWhile (\<lambda>e. \<not> side_effect e) t) of
        [] \<Rightarrow> False
      | c # cs \<Rightarrow> status c = status_creating)"

text \<open>
  A world whose cloned repository is the project with the \<^verbatim>\<open>package.json\<close> that cannot be
  parsed, and that has the template \<open>node\<close>.
\<close>

definition broken_package_world :: World where
  "broken_package_world =
     (example_world (\<lambda>i. Missing) (Some []))
       \<lparr>builtinTemplates := (\<lambda>n. if n = ''node'' then Some example_template else None),
        clonedProject := broken_package_project\<rparr>"


section \<open>The MCP proxy: messages of a connection\<close>

text \<open>
  \<^verbatim>\<open>src/lib/mcp-proxy.ts\<close>, class \<^verbatim>\<open>MCPProxyInstance\<close>. A value that \<^verbatim>\<open>JSON.parse\<close> returns is a
  \<open>json\<close>; a number is kept as the text that JavaScript prints for it, and an object as the
  list of its own properties (each key once). A JavaScript value in the handler is such a
  value or \<^verbatim>\<open>undefined\<close>, which is \<open>None\<close>.
\<close>

datatype json =
    JNull
  | JBool bool
  | JNum string
  | JStr string
  | JArr "json list"
  | JObj "(string \<times> json) list"

type_synonym jsvalue = "json option"

text \<open>
  The data of a message event, by what \<^verbatim>\<open>JSON.parse(data.toString())\<close> makes of it: a
  \<^verbatim>\<open>SyntaxError\<close>, or a value.
\<close>

datatype frame = Malformed | Parsed json

text \<open>
  What \<^verbatim>\<open>ws.send(JSON.stringify(...))\<close> is given: a response with a result or an error and the
  \<^verbatim>\<open>id\<close> property (\<^verbatim>\<open>JSON.stringify\<close> leaves the key out when it is \<^verbatim>\<open>undefined\<close>), or the
  notification that opens a connection. A send appends to the frames the socket has sent;
  nothing in the class closes a socket.
\<close>

datatype body = Result json | RpcError int string

datatype sent_frame = Response body jsvalue | Notification string json

record WebSocket =
  sent :: "sent_frame list"
  ws_closed :: bool

definition ws_send :: "sent_frame \<Rightarrow> WebSocket \<Rightarrow> (exn + unit) \<times> WebSocket" where
  "ws_send f ws = (Inr (), ws\<lparr>sent := sent ws @ [f]\<rparr>)"

text \<open>
  The property access \<^verbatim>\<open>v.key\<close>, for the keys that the handler reads (\<^verbatim>\<open>method\<close>, \<^verbatim>\<open>params\<close>,
  \<^verbatim>\<open>id\<close>, \<^verbatim>\<open>name\<close>, \<^verbatim>\<open>arguments\<close>, \<^verbatim>\<open>path\<close>, \<^verbatim>\<open>content\<close>, \<^verbatim>\<open>command\<close>, \<^verbatim>\<open>uri\<close>): a \<^verbatim>\<open>TypeError\<close> on
  \<^verbatim>\<open>undefined\<close> and \<^verbatim>\<open>null\<close>, the property of an object, and \<^verbatim>\<open>undefined\<close> on every other
  value, none of these keys being a property of a string, a number, a boolean or an array.
\<close>

fun get_prop :: "jsvalue \<Rightarrow> string \<Rightarrow> exn + jsvalue" where
  "get_prop None k = Inl TypeError"
| "get_prop (Some JNull) k = Inl TypeError"
| "get_prop (Some (JObj kvs)) k = Inr (map_of kvs k)"
| "get_prop (Some (JBool b)) k = Inr None"
| "get_prop (Some (JNum n)) k = Inr None"
| "get_prop (Some (JStr s)) k = Inr None"
| "get_prop (Some (JArr xs)) k = Inr None"

text \<open>
  The text of a value inside a template literal. An object prints as \<^verbatim>\<open>[object Object]\<close>,
  unless it has a property \<^verbatim>\<open>toString\<close> of its own: that one is no function, the inherited
  \<^verbatim>\<open>valueOf\<close> returns the object, and the conversion throws a \<^verbatim>\<open>TypeError\<close> (\<open>None\<close>). An array
  prints its elements joined by commas, \<^verbatim>\<open>null\<close> as the empty text.
\<close>

fun join :: "string \<Rightarrow> string list \<Rightarrow> string" where
  "join sep [] = []"
| "join sep [x] = x"
| "join sep (x # y # ys) = x @ sep @ join sep (y # ys)"

fun to_string :: "json \<Rightarrow> string option" where
  "to_string JNull = Some ''null''"
| "to_string (JBool b) = Some (if b then ''true'' else ''false'')"
| "to_string (JNum n) = Some n"
| "to_string (JStr s) = Some s"
| "to_string (JArr xs) =
     map_option (join '','')
       (those (map (\<lambda>x. if x = JNull then Some [] else to_string x) xs))"
| "to_string (JObj kvs) =
     (if ''toString'' \<in> set (map fst kvs) then None else Some ''[object Object]'')"

definition template_value :: "jsvalue \<Rightarrow> exn + string" where
  "template_value v =
     (case v of
        None \<Rightarrow> Inr ''undefined''
      | Some j \<Rightarrow> (case to_string j of None \<Rightarrow> Inl TypeError | Some s \<Rightarrow> Inr s))"

text \<open>Lines 312 to 352: the three tools, each returning a placeholder text.\<close>

definition tool_result :: "string \<Rightarrow> json" where
  "tool_result text =
     JObj [(''isError'', JBool False),
           (''content'', JArr [JObj [(''type'', JStr ''text''), (''text'', JStr text)]])]"

definition handleFilesystemRead :: "string \<Rightarrow> jsvalue \<Rightarrow> exn + json" where
  "handleFilesystemRead sandboxId path =
     (case template_value path of
        Inl e \<Rightarrow> Inl e
      | Inr p \<Rightarrow> Inr (tool_result (''Content of '' @ p @ '' from sandbox '' @ sandboxId)))"

definition handleFilesystemWrite :: "string \<Rightarrow> jsvalue \<Rightarrow> jsvalue \<Rightarrow> exn + json" where
  "handleFilesystemWrite sandboxId path content =
     (case template_value path of
        Inl e \<Rightarrow> Inl e
      | Inr p \<Rightarrow>
          Inr (tool_result (''Successfully wrote to '' @ p @ '' in sandbox '' @ sandboxId)))"

definition handleShellExecute :: "string \<Rightarrow> jsvalue \<Rightarrow> exn + json" where
  "handleShellExecute sandboxId cmd =
     (case template_value cmd of
        Inl e \<Rightarrow> Inl e
      | Inr c \<Rightarrow>
          Inr (tool_result (''Executed: '' @ c @ [CHR 0x0A] @
                 ''Output: Command executed successfully in sandbox '' @ sandboxId)))"

text \<open>Lines 286 to 300.\<close>

definition callTool :: "string \<Rightarrow> jsvalue \<Rightarrow> jsvalue \<Rightarrow> exn + json" where
  "callTool sandboxId toolName toolArgs =
     (if toolName = Some (JStr ''filesystem_read'') then
        (case get_prop toolArgs ''path'' of
           Inl e \<Rightarrow> Inl e
         | Inr path \<Rightarrow> handleFilesystemRead sandboxId path)
      else if toolName = Some (JStr ''filesystem_write'') then
        (case get_prop toolArgs ''path'' of
           Inl e \<Rightarrow> Inl e
         | Inr path \<Rightarrow>
             (case get_prop toolArgs ''content'' of
                Inl e \<Rightarrow> Inl e
              | Inr content \<Rightarrow> handleFilesystemWrite sandboxId path content))
      else if toolName = Some (JStr ''shell_execute'') then
        (case get_prop toolArgs ''command'' of
           Inl e \<Rightarrow> Inl e
         | Inr cmd \<Rightarrow> handleShellExecute sandboxId cmd)
      else
        (case template_value toolName of
           Inl e \<Rightarrow> Inl e
         | Inr n \<Rightarrow> Inl (Error (''Unknown tool: '' @ n))))"

text \<open>
  Lines 302 to 310. \<^verbatim>\<open>uri.startsWith\<close> is a function only when \<^verbatim>\<open>uri\<close> is a string; the call
  throws a \<^verbatim>\<open>TypeError\<close> on every other value. \<^verbatim>\<open>replace\<close> removes the first \<^verbatim>\<open>file://\<close>, which
  is the prefix.
\<close>

definition readResource :: "string \<Rightarrow> jsvalue \<Rightarrow> exn + json" where
  "readResource sandboxId uri =
     (case uri of
        Some (JStr u) \<Rightarrow>
          if take 7 u = ''file://''
          then handleFilesystemRead sandboxId (Some (JStr (drop 7 u)))
          else Inl (Error (''Unsupported resource URI: '' @ u))
      | _ \<Rightarrow> Inl TypeError)"

text \<open>Lines 223 to 284 and the result of \<^verbatim>\<open>initialize\<close>.\<close>

definition string_property :: "string \<Rightarrow> string \<Rightarrow> string \<times> json" where
  "string_property k description =
     (k, JObj [(''type'', JStr ''string''), (''description'', JStr description)])"

definition tool :: "string \<Rightarrow> string \<Rightarrow> (string \<times> json) list \<Rightarrow> string list \<Rightarrow> json" where
  "tool n description properties required =
     JObj [(''name'', JStr n), (''description'', JStr description),
           (''inputSchema'',
              JObj [(''type'', JStr ''object''), (''properties'', JObj properties),
                    (''required'', JArr (map JStr required))])]"

definition getAvailableTools :: json where
  "getAvailableTools =
     JArr [tool ''filesystem_read'' ''Read file contents from the sandbox''
             [string_property ''path'' ''File path relative to workspace'']
             [''path''],
           tool ''filesystem_write'' ''Write content to a file in the sandbox''
             [string_property ''path'' ''File path relative to workspace'',
              string_property ''content'' ''File content'']
             [''path'', ''content''],
           tool ''shell_execute'' ''Execute shell command in the sandbox''
             [string_property ''command'' ''Shell command to execute'']
             [''command'']]"

definition getAvailableResources :: json where
  "getAvailableResources =
     JArr [JObj [(''uri'', JStr ''file:///workspace''), (''name'', JStr ''Workspace''),
                 (''description'', JStr ''Sandbox workspace directory''),
                 (''mimeType'', JStr ''inode/directory'')]]"

definition capabilities :: json where
  "capabilities =
     JObj [(''protocolVersion'', JStr ''2024-11-05''),
           (''capabilities'',
              JObj [(''tools'', JObj []), (''resources'', JObj []), (''prompts'', JObj [])]),
           (''serverInfo'',
              JObj [(''name'', JStr ''dcsandbox-proxy''), (''version'', JStr ''1.0.0'')])]"

text \<open>Lines 354 to 366.\<close>

definition forwardToMCPServer :: "jsvalue \<Rightarrow> WebSocket \<Rightarrow> (exn + unit) \<times> WebSocket" where
  "forwardToMCPServer message_id ws =
     ws_send (Response (RpcError (- 32601) ''Method not found'') message_id) ws"

text \<open>
  Lines 154 to 221. The destructuring of the message throws a \<^verbatim>\<open>TypeError\<close> when the message
  is \<^verbatim>\<open>null\<close>; the \<^verbatim>\<open>switch\<close> compares \<^verbatim>\<open>method\<close> with \<^verbatim>\<open>===\<close>.
\<close>

definition handleMCPMessage :: "string \<Rightarrow> json \<Rightarrow> WebSocket \<Rightarrow> (exn + unit) \<times> WebSocket" where
  "handleMCPMessage sandboxId message ws =
     (case (get_prop (Some message) ''method'', get_prop (Some message) ''params'',
            get_prop (Some message) ''id'') of
        (Inr method, Inr params, Inr msgId) \<Rightarrow>
          if method = Some (JStr ''initialize'') then
            ws_send (Response (Result capabilities) msgId) ws
          else if method = Some (JStr ''tools/list'') then
            ws_send (Response (Result (JObj [(''tools'', getAvailableTools)])) msgId) ws
          else if method = Some (JStr ''tools/call'') then
            (case get_prop params ''name'' of
               Inl e \<Rightarrow> (Inl e, ws)
             | Inr toolName \<Rightarrow>
                 (case get_prop params ''arguments'' of
                    Inl e \<Rightarrow> (Inl e, ws)
                  | Inr toolArgs \<Rightarrow>
                      (case callTool sandboxId toolName toolArgs of
                         Inl e \<Rightarrow> (Inl e, ws)
                       | Inr result \<Rightarrow> ws_send (Response (Result result) msgId) ws)))
          else if method = Some (JStr ''resources/list'') then
            ws_send (Response (Result (JObj [(''resources'', getAvailableResources)])) msgId) ws
          else if method = Some (JStr ''resources/read'') then
            (case get_prop params ''uri'' of
               Inl e \<Rightarrow> (Inl e, ws)
             | Inr uri \<Rightarrow>
                 (case readResource sandboxId uri of
                    Inl e \<Rightarrow> (Inl e, ws)
                  | Inr resource \<Rightarrow>
                      ws_send (Response (Result (JObj [(''contents'', JArr [resource])])) msgId) ws))
          else forwardToMCPServer msgId ws
      | _ \<Rightarrow> (Inl TypeError, ws))"

text \<open>
  Lines 109 to 124, the handler of a message event: \<^verbatim>\<open>JSON.parse\<close> and \<^verbatim>\<open>handleMCPMessage\<close>
  stand in one \<^verbatim>\<open>try\<close>, and the \<^verbatim>\<open>catch\<close> sends the parse error. Lines 135 to 151 are the
  notification sent when the connection opens.
\<close>

definition parse_error_response :: sent_frame where
  "parse_error_response = Response (RpcError (- 32700) ''Parse error'') (Some JNull)"

definition on_message :: "string \<Rightarrow> frame \<Rightarrow> WebSocket \<Rightarrow> WebSocket" where
  "on_message sandboxId data ws =
     (case (case data of
              Malformed \<Rightarrow> (Inl SyntaxError, ws)
            | Parsed message \<Rightarrow> handleMCPMessage sandboxId message ws) of
        (Inr u, ws') \<Rightarrow> ws'
      | (Inl e, ws') \<Rightarrow> snd (ws_send parse_error_response ws'))"

definition handleConnection :: "WebSocket \<Rightarrow> WebSocket" where
  "handleConnection ws = snd (ws_send (Notification ''initialized'' capabilities) ws)"

text \<open>
  For the statements: the \<^verbatim>\<open>id\<close> of a parsed message, whether \<^verbatim>\<open>handleMCPMessage\<close> throws on
  it, and two requests.
\<close>

definition request_id :: "json \<Rightarrow> jsvalue" where
  "request_id message = (case message of JObj kvs \<Rightarrow> map_of kvs ''id'' | _ \<Rightarrow> None)"

definition handler_throws :: "string \<Rightarrow> json \<Rightarrow> bool" where
  "handler_throws sandboxId message =
     isl (fst (handleMCPMessage sandboxId message \<lparr>sent = [], ws_closed = False\<rparr>))"

definition request :: "string \<Rightarrow> string \<Rightarrow> (string \<times> json) list \<Rightarrow> json" where
  "request i method params =
     JObj [(''jsonrpc'', JStr ''2.0''), (''id'', JNum i), (''method'', JStr method),
           (''params'', JObj params)]"

definition unknown_tool_request :: json where
  "unknown_tool_request = request ''1'' ''tools/call'' [(''name'', JStr ''foo'')]"

definition unsupported_uri_request :: json where
  "unsupported_uri_request =
     request ''7'' ''resources/read'' [(''uri'', JStr ''http://example.org/'')]"


section \<open>Properties of the port allocator\<close>

lemma scanPorts_Some:
  "scanPorts held port hi = Some p \<Longrightarrow>
     port \<le> p \<and> p \<le> hi \<and> p \<notin> held \<and> (\<forall>q. port \<le> q \<and> q < p \<longrightarrow> q \<in> held)"
proof (induction held port hi rule: scanPorts.induct)
  case (1 held port hi)
  show ?case
  proof (cases "port \<le> hi \<and> port \<in> held")
    case True
    with "1.prems" have rec: "scanPorts held (port + 1) hi = Some p"
      by (simp add: scanPorts.simps [of held port hi])
    from True have c1: "port \<le> hi" and c2: "\<not> port \<notin> held" by simp_all
    from "1.IH" [OF c1 c2 rec]
    have ih: "port + 1 \<le> p \<and> p \<le> hi \<and> p \<notin> held \<and> (\<forall>q. port + 1 \<le> q \<and> q < p \<longrightarrow> q \<in> held)" .
    have "\<forall>q. port \<le> q \<and> q < p \<longrightarrow> q \<in> held"
    proof (intro allI impI)
      fix q assume q: "port \<le> q \<and> q < p"
      show "q \<in> held"
      proof (cases "q = port")
        case True
        with c2 show ?thesis by simp
      next
        case False
        with q have "port + 1 \<le> q \<and> q < p" by arith
        with ih show ?thesis by blast
      qed
    qed
    with ih show ?thesis by simp
  next
    case False
    with "1.prems" show ?thesis
      by (auto simp: scanPorts.simps [of held port hi] split: if_splits)
  qed
qed

lemma scanPorts_None:
  "scanPorts held port hi = None \<longleftrightarrow> (\<forall>q. port \<le> q \<and> q \<le> hi \<longrightarrow> q \<in> held)"
proof (induction held port hi rule: scanPorts.induct)
  case (1 held port hi)
  show ?case
  proof (cases "port \<le> hi")
    case False
    then show ?thesis by (auto simp: scanPorts.simps [of held port hi])
  next
    case le: True
    show ?thesis
    proof (cases "port \<in> held")
      case False
      with le show ?thesis
        by (auto simp: scanPorts.simps [of held port hi])
    next
      case True
      with le have c2: "\<not> port \<notin> held" by simp
      from le True have unf: "scanPorts held port hi = scanPorts held (port + 1) hi"
        by (simp add: scanPorts.simps [of held port hi])
      have "(\<forall>q. port + 1 \<le> q \<and> q \<le> hi \<longrightarrow> q \<in> held) \<longleftrightarrow> (\<forall>q. port \<le> q \<and> q \<le> hi \<longrightarrow> q \<in> held)"
      proof
        assume a: "\<forall>q. port + 1 \<le> q \<and> q \<le> hi \<longrightarrow> q \<in> held"
        show "\<forall>q. port \<le> q \<and> q \<le> hi \<longrightarrow> q \<in> held"
        proof (intro allI impI)
          fix q assume q: "port \<le> q \<and> q \<le> hi"
          show "q \<in> held"
          proof (cases "q = port")
            case True
            with \<open>port \<in> held\<close> show ?thesis by simp
          next
            case False
            with q have "port + 1 \<le> q \<and> q \<le> hi" by arith
            with a show ?thesis by blast
          qed
        qed
      next
        assume a: "\<forall>q. port \<le> q \<and> q \<le> hi \<longrightarrow> q \<in> held"
        show "\<forall>q. port + 1 \<le> q \<and> q \<le> hi \<longrightarrow> q \<in> held"
        proof (intro allI impI)
          fix q assume "port + 1 \<le> q \<and> q \<le> hi"
          then have "port \<le> q \<and> q \<le> hi" by arith
          with a show "q \<in> held" by blast
        qed
      qed
      with "1.IH" [OF le c2] unf show ?thesis by simp
    qed
  qed
qed

lemma allocatePort_Inr:
  assumes "allocatePort s = Inr (p, s')"
  shows "portRange_min s \<le> p \<and> p \<le> portRange_max s \<and> p \<notin> activePorts s \<and>
         (\<forall>q. portRange_min s \<le> q \<and> q < p \<longrightarrow> q \<in> activePorts s) \<and>
         s' = s\<lparr>activePorts := insert p (activePorts s)\<rparr>"
proof -
  from assms have sc: "scanPorts (activePorts s) (portRange_min s) (portRange_max s) = Some p"
    and s': "s' = s\<lparr>activePorts := insert p (activePorts s)\<rparr>"
    by (auto simp: allocatePort_def split: option.splits)
  from scanPorts_Some [OF sc] s' show ?thesis by simp
qed

lemma allocatePort_Inl:
  "(\<exists>e. allocatePort s = Inl e) \<longleftrightarrow>
     (\<forall>q. portRange_min s \<le> q \<and> q \<le> portRange_max s \<longrightarrow> q \<in> activePorts s)"
proof -
  have "(\<exists>e. allocatePort s = Inl e) \<longleftrightarrow>
          scanPorts (activePorts s) (portRange_min s) (portRange_max s) = None"
    by (auto simp: allocatePort_def split: option.splits)
  then show ?thesis by (simp add: scanPorts_None)
qed

lemma allocatePort_Inl_message:
  "allocatePort s = Inl e \<Longrightarrow> e = Error ''No available ports in range''"
  by (auto simp: allocatePort_def split: option.splits)

lemma allocatePort_first_free:
  assumes lo: "portRange_min s \<le> p" and hi: "p \<le> portRange_max s"
    and free: "p \<notin> activePorts s"
    and below: "\<forall>q. portRange_min s \<le> q \<and> q < p \<longrightarrow> q \<in> activePorts s"
  shows "allocatePort s = Inr (p, s\<lparr>activePorts := insert p (activePorts s)\<rparr>)"
proof (cases "allocatePort s")
  case (Inl e)
  then have "\<exists>e. allocatePort s = Inl e" by blast
  with lo hi have "p \<in> activePorts s" by (simp add: allocatePort_Inl)
  with free show ?thesis by simp
next
  case (Inr r)
  obtain p' s' where r: "r = (p', s')" by (cases r)
  from allocatePort_Inr [OF Inr [unfolded r]]
  have a: "portRange_min s \<le> p'" "p' \<le> portRange_max s" "p' \<notin> activePorts s"
    "\<forall>q. portRange_min s \<le> q \<and> q < p' \<longrightarrow> q \<in> activePorts s"
    "s' = s\<lparr>activePorts := insert p' (activePorts s)\<rparr>"
    by simp_all
  have "\<not> p' < p" using a(1) a(3) below by blast
  moreover have "\<not> p < p'" using lo free a(4) by blast
  ultimately have "p' = p" by arith
  with Inr r a(5) show ?thesis by simp
qed

text \<open>
  Claim C2. Whatever ports are held, a port returned by \<open>allocatePort\<close> lies in the
  configured range, was not held, and is held afterwards (nothing else of the allocator
  changes); \<open>allocatePort\<close> fails exactly when every port of the range is held, and then
  with the error \<open>No available ports in range\<close>. With the range narrowed to a single free
  port \<open>p\<close> the first call returns \<open>p\<close> and the second fails. A port of the range that
  \<open>releasePort\<close> frees is returned by the next \<open>allocatePort\<close> when no smaller port of the
  range is free. The range of a fresh allocator is 50000 to 60000.
\<close>

theorem allocatePort_spec:
  "(\<forall>p s'. allocatePort s = Inr (p, s') \<longrightarrow>
      portRange_min s \<le> p \<and> p \<le> portRange_max s \<and> p \<notin> activePorts s \<and>
      p \<in> activePorts s' \<and> s' = s\<lparr>activePorts := insert p (activePorts s)\<rparr>) \<and>
   ((\<exists>e. allocatePort s = Inl e) \<longleftrightarrow>
      (\<forall>q. portRange_min s \<le> q \<and> q \<le> portRange_max s \<longrightarrow> q \<in> activePorts s)) \<and>
   (\<forall>e. allocatePort s = Inl e \<longrightarrow> e = Error ''No available ports in range'') \<and>
   (\<forall>p. portRange_min s = p \<and> portRange_max s = p \<and> p \<notin> activePorts s \<longrightarrow>
      (\<exists>s'. allocatePort s = Inr (p, s') \<and>
            allocatePort s' = Inl (Error ''No available ports in range''))) \<and>
   (\<forall>p. portRange_min s \<le> p \<and> p \<le> portRange_max s \<and>
        (\<forall>q. portRange_min s \<le> q \<and> q < p \<longrightarrow> q \<in> activePorts s) \<longrightarrow>
      (\<exists>s'. allocatePort (releasePort s p) = Inr (p, s'))) \<and>
   portRange_min new_MCPProxy = 50000 \<and> portRange_max new_MCPProxy = 60000 \<and>
   activePorts new_MCPProxy = {}"
proof -
  have A: "\<forall>p s'. allocatePort s = Inr (p, s') \<longrightarrow>
      portRange_min s \<le> p \<and> p \<le> portRange_max s \<and> p \<notin> activePorts s \<and>
      p \<in> activePorts s' \<and> s' = s\<lparr>activePorts := insert p (activePorts s)\<rparr>"
  proof (intro allI impI)
    fix p s' assume a: "allocatePort s = Inr (p, s')"
    from allocatePort_Inr [OF a]
    show "portRange_min s \<le> p \<and> p \<le> portRange_max s \<and> p \<notin> activePorts s \<and>
      p \<in> activePorts s' \<and> s' = s\<lparr>activePorts := insert p (activePorts s)\<rparr>"
      by simp
  qed
  have B: "(\<exists>e. allocatePort s = Inl e) \<longleftrightarrow>
      (\<forall>q. portRange_min s \<le> q \<and> q \<le> portRange_max s \<longrightarrow> q \<in> activePorts s)"
    by (rule allocatePort_Inl)
  have C: "\<forall>e. allocatePort s = Inl e \<longrightarrow> e = Error ''No available ports in range''"
    using allocatePort_Inl_message by blast
  have D: "\<forall>p. portRange_min s = p \<and> portRange_max s = p \<and> p \<notin> activePorts s \<longrightarrow>
      (\<exists>s'. allocatePort s = Inr (p, s') \<and>
            allocatePort s' = Inl (Error ''No available ports in range''))"
  proof (intro allI impI)
    fix p assume a: "portRange_min s = p \<and> portRange_max s = p \<and> p \<notin> activePorts s"
    let ?s' = "s\<lparr>activePorts := insert p (activePorts s)\<rparr>"
    from a have first: "allocatePort s = Inr (p, ?s')"
      by (intro allocatePort_first_free) auto
    from a have "\<forall>q. portRange_min ?s' \<le> q \<and> q \<le> portRange_max ?s' \<longrightarrow> q \<in> activePorts ?s'"
      by auto
    then have "\<exists>e. allocatePort ?s' = Inl e" by (simp only: allocatePort_Inl)
    then obtain e where e: "allocatePort ?s' = Inl e" ..
    with allocatePort_Inl_message [OF e]
    have "allocatePort ?s' = Inl (Error ''No available ports in range'')" by simp
    with first
    show "\<exists>s'. allocatePort s = Inr (p, s') \<and>
            allocatePort s' = Inl (Error ''No available ports in range'')"
      by blast
  qed
  have E: "\<forall>p. portRange_min s \<le> p \<and> p \<le> portRange_max s \<and>
        (\<forall>q. portRange_min s \<le> q \<and> q < p \<longrightarrow> q \<in> activePorts s) \<longrightarrow>
      (\<exists>s'. allocatePort (releasePort s p) = Inr (p, s'))"
  proof (intro allI impI)
    fix p assume a: "portRange_min s \<le> p \<and> p \<le> portRange_max s \<and>
        (\<forall>q. portRange_min s \<le> q \<and> q < p \<longrightarrow> q \<in> activePorts s)"
    have "allocatePort (releasePort s p) =
          Inr (p, (releasePort s p)\<lparr>activePorts := insert p (activePorts (releasePort s p))\<rparr>)"
      using a by (intro allocatePort_first_free) (auto simp: releasePort_def)
    then show "\<exists>s'. allocatePort (releasePort s p) = Inr (p, s')" by blast
  qed
  have F: "portRange_min new_MCPProxy = 50000" "portRange_max new_MCPProxy = 60000"
    "activePorts new_MCPProxy = {}"
    by (simp_all add: new_MCPProxy_def)
  show ?thesis by (intro conjI A B C D E F)
qed

theorem allocatePort_spec_witness:
  "allocatePort \<lparr>activePorts = {50000, 50002}, portRange_min = 50000, portRange_max = 50002\<rparr>
     = Inr (50001, \<lparr>activePorts = {50001, 50000, 50002}, portRange_min = 50000,
                    portRange_max = 50002\<rparr>) \<and>
   (\<exists>e. allocatePort \<lparr>activePorts = {50000, 50001, 50002}, portRange_min = 50000,
                      portRange_max = 50002\<rparr> = Inl e) \<and>
   (\<exists>s'. allocatePort \<lparr>activePorts = {}, portRange_min = 50007, portRange_max = 50007\<rparr>
            = Inr (50007, s') \<and>
          allocatePort s' = Inl (Error ''No available ports in range'')) \<and>
   (\<exists>s'. allocatePort (releasePort \<lparr>activePorts = {50000, 50001, 50002},
             portRange_min = 50000, portRange_max = 50002\<rparr> 50001) = Inr (50001, s'))"
proof (intro conjI)
  let ?s = "\<lparr>activePorts = {50000, 50002}, portRange_min = 50000, portRange_max = 50002\<rparr>"
  have "allocatePort ?s = Inr (50001, ?s\<lparr>activePorts := insert 50001 (activePorts ?s)\<rparr>)"
    by (simp add: allocatePort_def scanPorts.simps)
  then show "allocatePort ?s = Inr (50001, \<lparr>activePorts = {50001, 50000, 50002},
      portRange_min = 50000, portRange_max = 50002\<rparr>)"
    using allocatePort_spec [of ?s] by simp
next
  let ?f = "\<lparr>activePorts = {50000, 50001, 50002}, portRange_min = 50000,
             portRange_max = (50002::int)\<rparr>"
  have "\<forall>q. portRange_min ?f \<le> q \<and> q \<le> portRange_max ?f \<longrightarrow> q \<in> activePorts ?f"
    by auto
  with allocatePort_spec [of ?f] show "\<exists>e. allocatePort ?f = Inl e" by blast
next
  let ?o = "\<lparr>activePorts = {}, portRange_min = 50007, portRange_max = (50007::int)\<rparr>"
  have "portRange_min ?o = 50007 \<and> portRange_max ?o = 50007 \<and> 50007 \<notin> activePorts ?o"
    by simp
  with allocatePort_spec [of ?o]
  show "\<exists>s'. allocatePort ?o = Inr (50007, s') \<and>
          allocatePort s' = Inl (Error ''No available ports in range'')"
    by blast
next
  let ?f = "\<lparr>activePorts = {50000, 50001, 50002}, portRange_min = 50000,
             portRange_max = (50002::int)\<rparr>"
  have "portRange_min ?f \<le> 50001 \<and> 50001 \<le> portRange_max ?f \<and>
        (\<forall>q. portRange_min ?f \<le> q \<and> q < 50001 \<longrightarrow> q \<in> activePorts ?f)"
    by auto
  with allocatePort_spec [of ?f]
  show "\<exists>s'. allocatePort (releasePort ?f 50001) = Inr (50001, s')"
    by blast
qed

section \<open>Properties of parseMemory\<close>

lemma parseMemory_rejects_empty: "\<exists>e. parseMemory [] = Inl e"
  by (simp add: parseMemory_def memory_match_def)

lemma parseMemory_rejects_1KB: "\<exists>e. parseMemory ''1KB'' = Inl e"
  by (simp add: parseMemory_def memory_match_def is_digit_def)

lemma parseMemory_rejects_1_G: "\<exists>e. parseMemory ''1 G'' = Inl e"
  by (simp add: parseMemory_def memory_match_def is_digit_def)

lemma parseMemory_2G: "parseMemory ''2G'' = Inr 2147483648"
  by (simp add: parseMemory_def memory_match_def is_digit_def is_unit_def parseInt_def
      digit_value_def toUpperCase_def toUpperCase_char_def)

lemma parseMemory_512m: "parseMemory ''512m'' = Inr (512 * 2 ^ 20)"
  by (simp add: parseMemory_def memory_match_def is_digit_def is_unit_def parseInt_def
      digit_value_def toUpperCase_def toUpperCase_char_def)

text \<open>
  Claim C3. The claim wants the memory value \<open>0\<close> rejected. \<open>parseMemory\<close> accepts it: the
  string matches the pattern, and the result is the number 0.
\<close>

theorem parseMemory_zero_accepted: "parseMemory ''0'' = Inr 0"
  by (simp add: parseMemory_def memory_match_def is_digit_def parseInt_def
      digit_value_def toUpperCase_def)

section \<open>Reading the store: getSandbox and listSandboxes\<close>

lemma getSandbox_eq: "getSandbox sandboxId w = (Inr (stored_record w sandboxId), w)"
  by (simp add: getSandbox_def readSandbox_def io_catch_def io_bind_def io_return_def
      io_throw_def stored_record_def split: FileState.splits FileContent.splits)

lemma collectSandboxes_eq:
  "collectSandboxes entries sandboxes w =
     (Inr (sandboxes @ List.map_filter (stored_record w) entries), w)"
proof (induction entries arbitrary: sandboxes)
  case Nil
  show ?case by (simp add: io_return_def List.map_filter_simps)
next
  case (Cons entry entries)
  show ?case
    by (cases "stored_record w entry")
       (simp_all add: io_bind_def getSandbox_eq Cons.IH List.map_filter_simps)
qed

lemma mset_insert_sorted: "mset (insert_sorted cmp x ys) = add_mset x (mset ys)"
  by (induction ys) simp_all

lemma mset_js_sort_aux:
  "mset (foldl (\<lambda>sorted x. insert_sorted cmp x sorted) acc xs) = mset acc + mset xs"
  by (induction xs arbitrary: acc) (simp_all add: mset_insert_sorted)

lemma mset_js_sort: "mset (js_sort cmp xs) = mset xs"
  by (simp add: js_sort_def mset_js_sort_aux)

lemma stored_record_trace: "stored_record (w\<lparr>trace := t\<rparr>) = stored_record w"
  by (rule ext) (simp add: stored_record_def)

lemma listSandboxes_eq:
  "listSandboxes w =
     (if rejects w (trace w) (FsMkdir (sandboxesDir w)) then Inr []
      else (case sandboxesDirEntries w of
              None \<Rightarrow> Inr []
            | Some entries \<Rightarrow>
                Inr (js_sort compare_created (List.map_filter (stored_record w) entries))),
      w\<lparr>trace := trace w @ [FsMkdir (sandboxesDir w)]\<rparr>)"
  by (simp add: listSandboxes_def io_catch_def io_bind_def call_def readdir_sandboxesDir_def
      this_sandboxesDir_def io_throw_def io_return_def collectSandboxes_eq stored_record_trace
      split: option.splits)

text \<open>
  Claim C10. \<open>getSandbox\<close> never rejects and leaves the world as it is; it returns \<open>None\<close>
  (\<^verbatim>\<open>null\<close>) when the \<^verbatim>\<open>config.json\<close> of the directory is missing, unreadable or not valid
  JSON. \<open>listSandboxes\<close> never rejects either: it returns the records of exactly those
  listed directories whose \<^verbatim>\<open>config.json\<close> holds one, the others being left out, and the
  empty list when the sandboxes directory cannot be read.
\<close>

theorem getSandbox_listSandboxes_total:
  "(\<exists>r. getSandbox sandboxId w = (Inr r, w)) \<and>
   (configJson w sandboxId = Missing \<or> configJson w sandboxId = Unreadable \<or>
    configJson w sandboxId = Content Unparsable \<longrightarrow>
      getSandbox sandboxId w = (Inr None, w)) \<and>
   (\<exists>l w'. listSandboxes w = (Inr l, w') \<and>
      (sandboxesDirEntries w = None \<longrightarrow> l = []) \<and>
      (\<forall>entries. sandboxesDirEntries w = Some entries \<and>
           \<not> rejects w (trace w) (FsMkdir (sandboxesDir w)) \<longrightarrow>
         mset l = mset (List.map_filter (stored_record w) entries) \<and>
         (\<forall>entry \<in> set entries.
            configJson w entry = Missing \<or> configJson w entry = Unreadable \<or>
            configJson w entry = Content Unparsable \<longrightarrow> stored_record w entry = None)))"
proof -
  have A: "\<exists>r. getSandbox sandboxId w = (Inr r, w)"
    by (simp add: getSandbox_eq)
  have B: "configJson w sandboxId = Missing \<or> configJson w sandboxId = Unreadable \<or>
    configJson w sandboxId = Content Unparsable \<longrightarrow>
      getSandbox sandboxId w = (Inr None, w)"
    by (auto simp: getSandbox_eq stored_record_def)
  have C: "\<exists>l w'. listSandboxes w = (Inr l, w') \<and>
      (sandboxesDirEntries w = None \<longrightarrow> l = []) \<and>
      (\<forall>entries. sandboxesDirEntries w = Some entries \<and>
           \<not> rejects w (trace w) (FsMkdir (sandboxesDir w)) \<longrightarrow>
         mset l = mset (List.map_filter (stored_record w) entries) \<and>
         (\<forall>entry \<in> set entries.
            configJson w entry = Missing \<or> configJson w entry = Unreadable \<or>
            configJson w entry = Content Unparsable \<longrightarrow> stored_record w entry = None))"
    by (cases "sandboxesDirEntries w")
       (auto simp: listSandboxes_eq mset_js_sort stored_record_def)
  show ?thesis by (intro conjI A B C)
qed

theorem getSandbox_listSandboxes_total_witness:
  "getSandbox ''gone''
     (example_world ((\<lambda>i. Missing)(''bad'' := Content Unparsable,
        ''ok'' := Content (JsonRecord example_config))) (Some [''gone'', ''bad'', ''ok'']))
   = (Inr None,
      example_world ((\<lambda>i. Missing)(''bad'' := Content Unparsable,
        ''ok'' := Content (JsonRecord example_config))) (Some [''gone'', ''bad'', ''ok''])) \<and>
   fst (listSandboxes
     (example_world ((\<lambda>i. Missing)(''bad'' := Content Unparsable,
        ''ok'' := Content (JsonRecord example_config))) (Some [''gone'', ''bad'', ''ok''])))
   = Inr [example_config] \<and>
   fst (listSandboxes (example_world (\<lambda>i. Missing) None)) = Inr []"
proof -
  let ?w = "example_world ((\<lambda>i. Missing)(''bad'' := Content Unparsable,
        ''ok'' := Content (JsonRecord example_config))) (Some [''gone'', ''bad'', ''ok''])"
  have m: "configJson ?w ''gone'' = Missing"
    by (simp add: example_world_def)
  from getSandbox_listSandboxes_total [of "''gone''" ?w] m
  have g: "getSandbox ''gone'' ?w = (Inr None, ?w)" by blast
  have l: "fst (listSandboxes ?w) = Inr [example_config]"
    by (simp add: listSandboxes_eq example_world_def stored_record_def
        List.map_filter_simps js_sort_def)
  have e: "fst (listSandboxes (example_world (\<lambda>i. Missing) None)) = Inr []"
    by (simp add: listSandboxes_eq example_world_def)
  from g l e show ?thesis by simp
qed

section \<open>Rules for the calls of a run\<close>

lemma emits_new_calls:
  assumes "emits m w full Q"
  shows "prefix (new_calls m w) full"
    and "trace (snd (m w)) = trace w @ new_calls m w"
    and "fst (m w) = Inr x \<Longrightarrow> new_calls m w = full \<and> Q x (snd (m w))"
  using assms by (auto simp: emits_def new_calls_def)

lemma emits_return: "Q x w \<Longrightarrow> emits (io_return x) w [] Q"
  by (simp add: emits_def io_return_def)

lemma emits_throw: "emits (io_throw e) w [] Q"
  by (simp add: emits_def io_throw_def)

lemma emits_call: "Q () (w\<lparr>trace := trace w @ [e]\<rparr>) \<Longrightarrow> emits (call e x) w [e] Q"
  by (simp add: emits_def call_def)

lemma emits_weaken:
  "emits m w t Q \<Longrightarrow> (\<And>x w'. Q x w' \<Longrightarrow> Q' x w') \<Longrightarrow> emits m w t Q'"
  unfolding emits_def by (auto split: sum.splits)

lemma emits_bind:
  assumes m: "emits m w t1 Q1"
    and f: "\<And>x w1. Q1 x w1 \<Longrightarrow> trace w1 = trace w @ t1 \<Longrightarrow> emits (f x) w1 t2 Q2"
  shows "emits (io_bind m f) w (t1 @ t2) Q2"
proof -
  from m obtain r w' t where mw: "m w = (r, w')" and tr: "trace w' = trace w @ t"
    and pre: "prefix t t1"
    and ok: "case r of Inl e \<Rightarrow> True | Inr x \<Rightarrow> t = t1 \<and> Q1 x w'"
    unfolding emits_def by blast
  show ?thesis
  proof (cases r)
    case (Inl e)
    with mw have "io_bind m f w = (Inl e, w')" by (simp add: io_bind_def)
    moreover from pre have "prefix t (t1 @ t2)" by (rule prefix_prefix)
    ultimately show ?thesis using tr unfolding emits_def by auto
  next
    case (Inr x)
    with ok have t: "t = t1" and q: "Q1 x w'" by simp_all
    from f [OF q] tr t have "emits (f x) w' t2 Q2" by simp
    then obtain r2 w2 u where fw: "f x w' = (r2, w2)" and tr2: "trace w2 = trace w' @ u"
      and pre2: "prefix u t2"
      and ok2: "case r2 of Inl e \<Rightarrow> True | Inr y \<Rightarrow> u = t2 \<and> Q2 y w2"
      unfolding emits_def by blast
    from mw Inr fw have "io_bind m f w = (r2, w2)" by (simp add: io_bind_def)
    moreover from tr tr2 t have "trace w2 = trace w @ (t1 @ u)" by simp
    moreover from pre2 have "prefix (t1 @ u) (t1 @ t2)" by simp
    ultimately show ?thesis using ok2 unfolding emits_def by (auto split: sum.splits)
  qed
qed

lemma emits_bind_read:
  assumes m: "m w = (Inr x, w)" and f: "emits (f x) w t Q"
  shows "emits (io_bind m f) w t Q"
  using f by (simp add: emits_def io_bind_def m)

lemma emits_bind_call:
  assumes "emits (f ()) (w\<lparr>trace := trace w @ [e]\<rparr>) t Q"
  shows "emits (io_bind (call e x) f) w (e # t) Q"
proof -
  have "emits (io_bind (call e x) f) w ([e] @ t) Q"
  proof (rule emits_bind)
    show "emits (call e x) w [e] (\<lambda>u w1. w1 = w\<lparr>trace := trace w @ [e]\<rparr>)"
      by (rule emits_call) simp
  next
    fix u w1 assume "w1 = w\<lparr>trace := trace w @ [e]\<rparr>"
    with assms show "emits (f u) w1 t Q" by simp
  qed
  then show ?thesis by simp
qed

lemma io_bind_assoc: "io_bind (io_bind m f) g = io_bind m (\<lambda>x. io_bind (f x) g)"
  by (rule ext) (simp add: io_bind_def split: prod.splits sum.splits)

lemma emits_bind_throw: "emits (io_bind (io_throw e) f) w [] Q"
  by (simp add: emits_def io_bind_def io_throw_def)

lemma emits_saveSandboxConfig:
  assumes "Q () (w\<lparr>trace := trace w @ [FsWriteFile (configPath w (sid config)) (ConfigJson config)],
     configJson := (configJson w)(sid config := Content (JsonRecord (json_roundtrip config)))\<rparr>)"
  shows "emits (saveSandboxConfig config) w
           [FsWriteFile (configPath w (sid config)) (ConfigJson config)] Q"
  using assms
  by (simp add: emits_def saveSandboxConfig_def io_bind_def call_def this_sandboxesDir_def
      store_config_def configPath_def)

lemma emits_bind_call_acc:
  assumes "emits (f ()) (w\<lparr>trace := tr @ [e]\<rparr>) t Q"
  shows "emits (io_bind (call e x) f) (w\<lparr>trace := tr\<rparr>) (e # t) Q"
  using emits_bind_call [of f "w\<lparr>trace := tr\<rparr>" e t Q x] assms by simp

lemma emits_setupWorkspace_acc:
  assumes "emits (f ()) (w\<lparr>trace := tr @ [setupWorkspace_call config dir]\<rparr>) t Q"
  shows "emits (io_bind (setupWorkspace config dir) f) (w\<lparr>trace := tr\<rparr>)
           (setupWorkspace_call config dir # t) Q"
proof -
  have "setupWorkspace config dir = call (setupWorkspace_call config dir) FsError"
    by (simp add: setupWorkspace_def setupWorkspace_call_def split: option.splits)
  with assms show ?thesis by (simp add: emits_bind_call_acc)
qed

lemma sandboxesDir_trace: "sandboxesDir (w\<lparr>trace := tr\<rparr>) = sandboxesDir w"
  by (simp add: sandboxesDir_def)

lemma createSandbox_emits_acc:
  "emits (createSandbox config tmpl) (w\<lparr>trace := tr\<rparr>) (createSandbox_calls config tmpl w)
     (\<lambda>x w'. x = config\<lparr>containerId := Some (newContainerId w), status := status_stopped\<rparr> \<and>
        (\<exists>bytes. parseMemory (memory (resources config)) = Inr bytes) \<and>
        w' = w\<lparr>trace := tr @ createSandbox_calls config tmpl w,
               configJson := (configJson w)(sid config := Content (JsonRecord (json_roundtrip x)))\<rparr>)"
proof (cases "parseMemory (memory (resources config))")
  case (Inl e)
  show ?thesis
    unfolding createSandbox_def createSandbox_calls_def Let_def
    apply (rule emits_bind_read [where x = "sandboxesDir w"])
     apply (simp add: this_sandboxesDir_def sandboxesDir_trace)
    apply (simp only: append_Cons append_Nil)
    apply (rule emits_bind_call_acc)+
    apply (rule emits_setupWorkspace_acc)
    apply (rule emits_bind_call_acc)+
    apply (simp add: createContainer_def Inl emits_bind_throw)
    done
next
  case (Inr bytes)
  show ?thesis
    unfolding createSandbox_def createSandbox_calls_def Let_def
    apply (rule emits_bind_read [where x = "sandboxesDir w"])
     apply (simp add: this_sandboxesDir_def sandboxesDir_trace)
    apply (simp only: append_Cons append_Nil)
    apply (rule emits_bind_call_acc)+
    apply (rule emits_setupWorkspace_acc)
    apply (rule emits_bind_call_acc)+
    apply (simp only: createContainer_def Inr sum.case io_bind_assoc)
    apply (rule emits_bind_call_acc)
    apply (rule emits_bind_read [where x = "newContainerId w"])
     apply (simp add: container_id_def)
    apply (simp only: saveSandboxConfig_def io_bind_assoc)
    apply (rule emits_bind_read [where x = "sandboxesDir w"])
     apply (simp add: this_sandboxesDir_def sandboxesDir_def)
    apply (simp add: configPath_def)
    apply (rule emits_bind_call_acc)
    apply (simp add: emits_def io_bind_def store_config_def io_return_def Inr)
    done
qed


lemma startSandbox_emits:
  "emits (startSandbox sandboxId) w (startSandbox_calls sandboxId w)
     (\<lambda>u w'. \<exists>config cid port s.
        stored_record w sandboxId = Some config \<and> containerId config = Some cid \<and> cid \<noteq> [] \<and>
        allocatePort (mcpProxy w) = Inr (port, s) \<and>
        w' = w\<lparr>trace := trace w @ startSandbox_calls sandboxId w, mcpProxy := s,
               configJson := (configJson w)(sid config := Content (JsonRecord (json_roundtrip
                 (config\<lparr>status := status_running, mcpPort := Some port\<rparr>))))\<rparr>)"
proof (cases "stored_record w sandboxId")
  case None
  then show ?thesis
    by (simp add: emits_def startSandbox_def startSandbox_calls_def io_bind_def getSandbox_eq
        io_throw_def)
next
  case (Some config)
  show ?thesis
  proof (cases "containerId config")
    case None
    with Some show ?thesis
      by (simp add: emits_def startSandbox_def startSandbox_calls_def io_bind_def getSandbox_eq
          io_throw_def)
  next
    case cid: (Some cid)
    show ?thesis
    proof (cases "cid = []")
      case True
      with Some cid show ?thesis
        by (simp add: emits_def startSandbox_def startSandbox_calls_def io_bind_def getSandbox_eq
            io_throw_def)
    next
      case False
      show ?thesis
      proof (cases "allocatePort (mcpProxy w)")
        case (Inl e)
        with Some cid False show ?thesis
          by (simp add: emits_def startSandbox_def startSandbox_calls_def io_bind_def
              getSandbox_eq call_def mcpProxy_allocatePort_def)
      next
        case (Inr r)
        obtain port s where r: "r = (port, s)" by (cases r)
        with Some cid False Inr show ?thesis
          by (simp add: emits_def startSandbox_def startSandbox_calls_def io_bind_def
              getSandbox_eq call_def mcpProxy_allocatePort_def saveSandboxConfig_def
              this_sandboxesDir_def store_config_def configPath_def sandboxesDir_def)
      qed
    qed
  qed
qed

lemma stopSandbox_emits:
  "emits (stopSandbox sandboxId) w (stopSandbox_calls sandboxId w)
     (\<lambda>u w'. \<exists>config cid.
        stored_record w sandboxId = Some config \<and> containerId config = Some cid \<and> cid \<noteq> [] \<and>
        w' = w\<lparr>trace := trace w @ stopSandbox_calls sandboxId w,
               mcpProxy := (if truthy_number (mcpPort config)
                            then releasePort (mcpProxy w) (the (mcpPort config)) else mcpProxy w),
               configJson := (configJson w)(sid config := Content (JsonRecord (json_roundtrip
                 (config\<lparr>status := status_stopped, mcpPort := None\<rparr>))))\<rparr>)"
proof (cases "stored_record w sandboxId")
  case None
  then show ?thesis
    by (simp add: emits_def stopSandbox_def stopSandbox_calls_def io_bind_def getSandbox_eq
        io_throw_def)
next
  case (Some config)
  show ?thesis
  proof (cases "containerId config")
    case None
    with Some show ?thesis
      by (simp add: emits_def stopSandbox_def stopSandbox_calls_def io_bind_def getSandbox_eq
          io_throw_def)
  next
    case cid: (Some cid)
    show ?thesis
    proof (cases "cid = []")
      case True
      with Some cid show ?thesis
        by (simp add: emits_def stopSandbox_def stopSandbox_calls_def io_bind_def getSandbox_eq
            io_throw_def)
    next
      case False
      with Some cid show ?thesis
        by (cases "mcpPort config")
           (simp_all add: emits_def stopSandbox_def stopSandbox_calls_def io_bind_def
              getSandbox_eq call_def releaseIfHeld_def mcpProxy_releasePort_def
              saveSandboxConfig_def io_return_def truthy_number_def
              this_sandboxesDir_def store_config_def configPath_def sandboxesDir_def)
    qed
  qed
qed


section \<open>The records that the lifecycle operations persist\<close>

lemma persisted_append: "persisted (t @ u) = persisted t @ persisted u"
  by (simp add: persisted_def List.map_filter_def)

lemma persisted_prefix: "prefix t full \<Longrightarrow> set (persisted t) \<subseteq> set (persisted full)"
  by (auto simp: prefix_def persisted_append)

lemma persisted_startSandbox_calls:
  "c \<in> set (persisted (startSandbox_calls sandboxId w)) \<Longrightarrow>
     status c = status_running \<and> truthy_string (containerId c) \<and> mcpPort c \<noteq> None"
  by (auto simp: persisted_def startSandbox_calls_def List.map_filter_simps truthy_string_def
      split: option.splits if_splits sum.splits prod.splits)

lemma persisted_stopSandbox_calls:
  "c \<in> set (persisted (stopSandbox_calls sandboxId w)) \<Longrightarrow>
     status c = status_stopped \<and> mcpPort c = None"
  by (auto simp: persisted_def stopSandbox_calls_def List.map_filter_simps
      split: option.splits if_splits)

lemma written_record_setupWorkspace_call:
  "written_record (setupWorkspace_call config dir) = None"
  by (simp add: setupWorkspace_call_def split: option.splits)

lemma persisted_createSandbox_calls:
  "c \<in> set (persisted (createSandbox_calls config tmpl w)) \<Longrightarrow>
     c = config\<lparr>containerId := Some (newContainerId w), status := status_stopped\<rparr>"
  by (auto simp: persisted_def createSandbox_calls_def List.map_filter_simps Let_def
      written_record_setupWorkspace_call split: sum.splits)

lemma createSandbox_emits:
  "emits (createSandbox config tmpl) w (createSandbox_calls config tmpl w)
     (\<lambda>x w'. x = config\<lparr>containerId := Some (newContainerId w), status := status_stopped\<rparr> \<and>
        (\<exists>bytes. parseMemory (memory (resources config)) = Inr bytes) \<and>
        w' = w\<lparr>trace := trace w @ createSandbox_calls config tmpl w,
               configJson := (configJson w)(sid config := Content (JsonRecord (json_roundtrip x)))\<rparr>)"
  using createSandbox_emits_acc [where config = config and tmpl = tmpl and w = w and tr = "trace w"]
  by simp

text \<open>
  Claim C1, as amended. Every record that \<open>startSandbox\<close> writes has the status
  \<open>running\<close>, a container id that is not empty and an MCP port; every record that
  \<open>stopSandbox\<close> writes has the status \<open>stopped\<close> and no MCP port; the record that
  \<open>createSandbox\<close> writes has the status \<open>stopped\<close> and the MCP port of the record it was
  given, so it satisfies the invariants when that record carries no MCP port. When an
  operation returns, the record it wrote is the content of the \<^verbatim>\<open>config.json\<close> of its
  directory.
\<close>

theorem lifecycle_status_invariant:
  "(\<forall>c \<in> set (persisted (new_calls (startSandbox sandboxId) w)).
      status c = status_running \<and> status_invariant c) \<and>
   (\<forall>c \<in> set (persisted (new_calls (stopSandbox sandboxId) w)).
      status c = status_stopped \<and> status_invariant c) \<and>
   (\<forall>c \<in> set (persisted (new_calls (createSandbox config tmpl) w)).
      status c = status_stopped \<and> mcpPort c = mcpPort config \<and>
      (mcpPort config = None \<longrightarrow> status_invariant c)) \<and>
   (\<forall>u. fst (startSandbox sandboxId w) = Inr u \<longrightarrow>
      (\<exists>c. persisted (new_calls (startSandbox sandboxId) w) = [c] \<and>
           configJson (snd (startSandbox sandboxId w)) (sid c)
             = Content (JsonRecord (json_roundtrip c)))) \<and>
   (\<forall>u. fst (stopSandbox sandboxId w) = Inr u \<longrightarrow>
      (\<exists>c. persisted (new_calls (stopSandbox sandboxId) w) = [c] \<and>
           configJson (snd (stopSandbox sandboxId w)) (sid c)
             = Content (JsonRecord (json_roundtrip c)))) \<and>
   (\<forall>u. fst (createSandbox config tmpl w) = Inr u \<longrightarrow>
      (\<exists>c. persisted (new_calls (createSandbox config tmpl) w) = [c] \<and>
           configJson (snd (createSandbox config tmpl w)) (sid c)
             = Content (JsonRecord (json_roundtrip c))))"
proof -
  note st = emits_new_calls [OF startSandbox_emits [of sandboxId w]]
  note sp = emits_new_calls [OF stopSandbox_emits [of sandboxId w]]
  note cr = emits_new_calls [OF createSandbox_emits [of config tmpl w]]
  have A: "\<forall>c \<in> set (persisted (new_calls (startSandbox sandboxId) w)).
      status c = status_running \<and> status_invariant c"
  proof
    fix c assume "c \<in> set (persisted (new_calls (startSandbox sandboxId) w))"
    with persisted_prefix [OF st(1)]
    have "c \<in> set (persisted (startSandbox_calls sandboxId w))" by blast
    from persisted_startSandbox_calls [OF this]
    show "status c = status_running \<and> status_invariant c"
      by (simp add: status_invariant_def)
  qed
  have B: "\<forall>c \<in> set (persisted (new_calls (stopSandbox sandboxId) w)).
      status c = status_stopped \<and> status_invariant c"
  proof
    fix c assume "c \<in> set (persisted (new_calls (stopSandbox sandboxId) w))"
    with persisted_prefix [OF sp(1)]
    have "c \<in> set (persisted (stopSandbox_calls sandboxId w))" by blast
    from persisted_stopSandbox_calls [OF this]
    show "status c = status_stopped \<and> status_invariant c"
      by (simp add: status_invariant_def)
  qed
  have C: "\<forall>c \<in> set (persisted (new_calls (createSandbox config tmpl) w)).
      status c = status_stopped \<and> mcpPort c = mcpPort config \<and>
      (mcpPort config = None \<longrightarrow> status_invariant c)"
  proof
    fix c assume "c \<in> set (persisted (new_calls (createSandbox config tmpl) w))"
    with persisted_prefix [OF cr(1)]
    have "c \<in> set (persisted (createSandbox_calls config tmpl w))" by blast
    then have "c = config\<lparr>containerId := Some (newContainerId w), status := status_stopped\<rparr>"
      by (rule persisted_createSandbox_calls)
    then show "status c = status_stopped \<and> mcpPort c = mcpPort config \<and>
      (mcpPort config = None \<longrightarrow> status_invariant c)"
      by (simp add: status_invariant_def)
  qed
  have D: "\<forall>u. fst (startSandbox sandboxId w) = Inr u \<longrightarrow>
      (\<exists>c. persisted (new_calls (startSandbox sandboxId) w) = [c] \<and>
           configJson (snd (startSandbox sandboxId w)) (sid c)
             = Content (JsonRecord (json_roundtrip c)))"
  proof (intro allI impI)
    fix u assume ok: "fst (startSandbox sandboxId w) = Inr u"
    from st(3) [OF ok] show "\<exists>c. persisted (new_calls (startSandbox sandboxId) w) = [c] \<and>
           configJson (snd (startSandbox sandboxId w)) (sid c)
             = Content (JsonRecord (json_roundtrip c))"
      by (auto simp: startSandbox_calls_def persisted_def List.map_filter_simps)
  qed
  have E: "\<forall>u. fst (stopSandbox sandboxId w) = Inr u \<longrightarrow>
      (\<exists>c. persisted (new_calls (stopSandbox sandboxId) w) = [c] \<and>
           configJson (snd (stopSandbox sandboxId w)) (sid c)
             = Content (JsonRecord (json_roundtrip c)))"
  proof (intro allI impI)
    fix u assume ok: "fst (stopSandbox sandboxId w) = Inr u"
    from sp(3) [OF ok] show "\<exists>c. persisted (new_calls (stopSandbox sandboxId) w) = [c] \<and>
           configJson (snd (stopSandbox sandboxId w)) (sid c)
             = Content (JsonRecord (json_roundtrip c))"
      by (auto simp: stopSandbox_calls_def persisted_def List.map_filter_simps)
  qed
  have F: "\<forall>u. fst (createSandbox config tmpl w) = Inr u \<longrightarrow>
      (\<exists>c. persisted (new_calls (createSandbox config tmpl) w) = [c] \<and>
           configJson (snd (createSandbox config tmpl w)) (sid c)
             = Content (JsonRecord (json_roundtrip c)))"
  proof (intro allI impI)
    fix u assume ok: "fst (createSandbox config tmpl w) = Inr u"
    from cr(3) [OF ok] obtain bytes
      where nc: "new_calls (createSandbox config tmpl) w = createSandbox_calls config tmpl w"
      and pm: "parseMemory (memory (resources config)) = Inr bytes"
      and w': "snd (createSandbox config tmpl w) =
        w\<lparr>trace := trace w @ createSandbox_calls config tmpl w,
          configJson := (configJson w)(sid config := Content (JsonRecord (json_roundtrip
            (config\<lparr>containerId := Some (newContainerId w), status := status_stopped\<rparr>))))\<rparr>"
      by auto
    have "persisted (createSandbox_calls config tmpl w) =
            [config\<lparr>containerId := Some (newContainerId w), status := status_stopped\<rparr>]"
      by (simp add: createSandbox_calls_def Let_def persisted_def List.map_filter_simps
          written_record_setupWorkspace_call pm)
    with nc w' show "\<exists>c. persisted (new_calls (createSandbox config tmpl) w) = [c] \<and>
           configJson (snd (createSandbox config tmpl w)) (sid c)
             = Content (JsonRecord (json_roundtrip c))"
      by simp
  qed
  show ?thesis by (intro conjI A B C D E F)
qed


lemma createSandbox_accepted:
  assumes r: "rejects w = (\<lambda>done e. False)"
    and m: "parseMemory (memory (resources config)) = Inr bytes"
  shows "fst (createSandbox config tmpl w) =
           Inr (config\<lparr>containerId := Some (newContainerId w), status := status_stopped\<rparr>)"
  by (simp add: createSandbox_def io_bind_def call_def r m
        this_sandboxesDir_def setupWorkspace_def createContainer_def
        container_id_def saveSandboxConfig_def store_config_def io_return_def
        split: option.splits)

lemma startSandbox_accepted:
  assumes r: "rejects w = (\<lambda>done e. False)"
    and s: "stored_record w sandboxId = Some config"
    and c: "containerId config = Some cid" "cid \<noteq> []"
    and a: "allocatePort (mcpProxy w) = Inr (port, s')"
  shows "fst (startSandbox sandboxId w) = Inr ()"
  by (simp add: startSandbox_def io_bind_def call_def r s c a getSandbox_eq
      mcpProxy_allocatePort_def saveSandboxConfig_def this_sandboxesDir_def store_config_def)

lemma stopSandbox_accepted:
  assumes r: "rejects w = (\<lambda>done e. False)"
    and s: "stored_record w sandboxId = Some config"
    and c: "containerId config = Some cid" "cid \<noteq> []"
  shows "fst (stopSandbox sandboxId w) = Inr ()"
  by (simp add: stopSandbox_def io_bind_def call_def r s c getSandbox_eq
      releaseIfHeld_def mcpProxy_releasePort_def io_return_def
      saveSandboxConfig_def this_sandboxesDir_def store_config_def split: option.splits)


theorem lifecycle_status_invariant_witness:
  "persisted (new_calls (startSandbox ''sandbox-Ab3dE6gh'')
      (example_world ((\<lambda>i. Missing)(''sandbox-Ab3dE6gh'' := Content (JsonRecord
         (example_config\<lparr>containerId := Some ''c0ffee'', status := status_stopped\<rparr>))))
         (Some [''sandbox-Ab3dE6gh''])))
     = [example_config\<lparr>containerId := Some ''c0ffee'', status := status_running,
          mcpPort := Some 50000\<rparr>] \<and>
   status_invariant (example_config\<lparr>containerId := Some ''c0ffee'', status := status_running,
          mcpPort := Some 50000\<rparr>) \<and>
   persisted (new_calls (stopSandbox ''sandbox-Ab3dE6gh'')
      (example_world ((\<lambda>i. Missing)(''sandbox-Ab3dE6gh'' := Content (JsonRecord
         (example_config\<lparr>containerId := Some ''c0ffee'', status := status_running,
            mcpPort := Some 50000\<rparr>))))
         (Some [''sandbox-Ab3dE6gh''])))
     = [example_config\<lparr>containerId := Some ''c0ffee'', status := status_stopped,
          mcpPort := None\<rparr>] \<and>
   status_invariant (example_config\<lparr>containerId := Some ''c0ffee'', status := status_stopped,
          mcpPort := None\<rparr>) \<and>
   persisted (new_calls (createSandbox example_config example_template)
      (example_world (\<lambda>i. Missing) (Some [])))
     = [example_config\<lparr>containerId := Some ''c0ffee'', status := status_stopped\<rparr>] \<and>
   status_invariant (example_config\<lparr>containerId := Some ''c0ffee'', status := status_stopped\<rparr>)"
proof -
  let ?i = "''sandbox-Ab3dE6gh''"
  let ?stopped = "example_config\<lparr>containerId := Some ''c0ffee'', status := status_stopped\<rparr>"
  let ?running = "example_config\<lparr>containerId := Some ''c0ffee'', status := status_running,
          mcpPort := Some 50000\<rparr>"
  let ?w1 = "example_world ((\<lambda>i. Missing)(?i := Content (JsonRecord ?stopped))) (Some [?i])"
  let ?w2 = "example_world ((\<lambda>i. Missing)(?i := Content (JsonRecord ?running))) (Some [?i])"
  let ?w0 = "example_world (\<lambda>i. Missing) (Some [])"
  have r: "rejects ?w1 = (\<lambda>done e. False)" "rejects ?w2 = (\<lambda>done e. False)"
    "rejects ?w0 = (\<lambda>done e. False)"
    by (simp_all add: example_world_def)
  have s1: "stored_record ?w1 ?i = Some ?stopped" and s2: "stored_record ?w2 ?i = Some ?running"
    by (simp_all add: stored_record_def example_world_def)
  have a: "allocatePort (mcpProxy ?w1)
             = Inr (50000, new_MCPProxy\<lparr>activePorts := insert 50000 {}\<rparr>)"
    by (simp add: example_world_def allocatePort_def new_MCPProxy_def scanPorts.simps)
  have m: "parseMemory (memory (resources example_config)) = Inr 2147483648"
    by (simp add: example_config_def parseMemory_2G)
  have i: "sid example_config = ?i" by (simp add: example_config_def)
  have ok1: "fst (startSandbox ?i ?w1) = Inr ()"
    by (rule startSandbox_accepted [where cid = "''c0ffee''", OF r(1) s1 _ _ a]) simp_all
  have ok2: "fst (stopSandbox ?i ?w2) = Inr ()"
    by (rule stopSandbox_accepted [where cid = "''c0ffee''", OF r(2) s2]) simp_all
  have ok0: "fst (createSandbox example_config example_template ?w0) =
           Inr (example_config\<lparr>containerId := Some (newContainerId ?w0), status := status_stopped\<rparr>)"
    by (rule createSandbox_accepted [OF r(3) m])
  from emits_new_calls(3) [OF startSandbox_emits ok1]
  have p1: "persisted (new_calls (startSandbox ?i) ?w1) = [?running]"
    by (simp add: startSandbox_calls_def s1 a persisted_def List.map_filter_simps)
  from emits_new_calls(3) [OF stopSandbox_emits ok2]
  have p2: "persisted (new_calls (stopSandbox ?i) ?w2)
              = [example_config\<lparr>containerId := Some ''c0ffee'', status := status_stopped,
                   mcpPort := None\<rparr>]"
    by (simp add: stopSandbox_calls_def s2 persisted_def List.map_filter_simps)
  from emits_new_calls(3) [OF createSandbox_emits ok0]
  have p0: "persisted (new_calls (createSandbox example_config example_template) ?w0)
              = [?stopped]"
    by (simp add: createSandbox_calls_def Let_def persisted_def List.map_filter_simps
        written_record_setupWorkspace_call m example_world_def)
  have n: "mcpPort example_config = None" by (simp add: example_config_def)
  from lifecycle_status_invariant [of ?i ?w1 example_config example_template] p1
  have i1: "status_invariant ?running" by simp
  from lifecycle_status_invariant [of ?i ?w2 example_config example_template] p2
  have i2: "status_invariant (example_config\<lparr>containerId := Some ''c0ffee'',
     status := status_stopped, mcpPort := None\<rparr>)" by simp
  from lifecycle_status_invariant [of ?i ?w0 example_config example_template] p0 n
  have i0: "status_invariant ?stopped" by simp
  from p1 i1 p2 i2 p0 i0 show ?thesis by simp
qed


text \<open>
  Claim C1 as stated fails for \<open>createSandbox\<close>: given a record that carries an MCP port,
  it writes the record with the status \<open>stopped\<close> and that port.
\<close>

theorem createSandbox_keeps_mcpPort_counterexample:
  "persisted (new_calls (createSandbox (example_config\<lparr>mcpPort := Some 50000\<rparr>) example_template)
      (example_world (\<lambda>i. Missing) (Some [])))
     = [example_config\<lparr>mcpPort := Some 50000, containerId := Some ''c0ffee'',
          status := status_stopped\<rparr>] \<and>
   \<not> status_invariant (example_config\<lparr>mcpPort := Some 50000, containerId := Some ''c0ffee'',
          status := status_stopped\<rparr>)"
proof -
  let ?w = "example_world (\<lambda>i. Missing) (Some [])"
  let ?c = "example_config\<lparr>mcpPort := Some 50000\<rparr>"
  have r: "rejects ?w = (\<lambda>done e. False)" and n: "newContainerId ?w = ''c0ffee''"
    by (simp_all add: example_world_def)
  have m': "parseMemory (memory (resources example_config)) = Inr 2147483648"
    by (simp add: example_config_def parseMemory_2G)
  then have m: "parseMemory (memory (resources ?c)) = Inr 2147483648"
    by simp
  from emits_new_calls(3) [OF createSandbox_emits createSandbox_accepted [OF r m]]
  have "new_calls (createSandbox ?c example_template) ?w
          = createSandbox_calls ?c example_template ?w"
    by simp
  then have "persisted (new_calls (createSandbox ?c example_template) ?w)
          = [?c\<lparr>containerId := Some ''c0ffee'', status := status_stopped\<rparr>]"
    by (simp add: createSandbox_calls_def Let_def persisted_def List.map_filter_simps
        written_record_setupWorkspace_call m' n)
  then show ?thesis by (simp add: status_invariant_def)
qed


section \<open>How the record file is written\<close>

lemma new_calls_saveSandboxConfig:
  "new_calls (saveSandboxConfig config) w
     = [FsWriteFile (configPath w (sid config)) (ConfigJson config)]"
  by (simp add: new_calls_def saveSandboxConfig_def io_bind_def call_def this_sandboxesDir_def
      store_config_def configPath_def)

lemma list_all_prefix: "prefix t full \<Longrightarrow> list_all P full \<Longrightarrow> list_all P t"
  by (auto simp: prefix_def)

lemma no_rename_createSandbox_calls:
  "list_all (\<lambda>e. \<not> is_rename e) (createSandbox_calls config tmpl w)"
  by (simp add: createSandbox_calls_def Let_def setupWorkspace_call_def
      split: sum.splits option.splits)

lemma no_rename_startSandbox_calls:
  "list_all (\<lambda>e. \<not> is_rename e) (startSandbox_calls sandboxId w)"
  by (simp add: startSandbox_calls_def split: sum.splits option.splits prod.splits)

lemma no_rename_stopSandbox_calls:
  "list_all (\<lambda>e. \<not> is_rename e) (stopSandbox_calls sandboxId w)"
  by (simp add: stopSandbox_calls_def split: option.splits)

text \<open>
  Claim C6, as amended. \<open>saveSandboxConfig\<close> makes one call: \<^verbatim>\<open>fs.writeFile\<close> of the record
  onto the \<^verbatim>\<open>config.json\<close> itself. No temporary file is written and nothing is renamed; none
  of \<open>createSandbox\<close>, \<open>startSandbox\<close> and \<open>stopSandbox\<close> calls \<^verbatim>\<open>fs.rename\<close>.
\<close>

theorem saveSandboxConfig_writes_in_place:
  "new_calls (saveSandboxConfig config) w
     = [FsWriteFile (configPath w (sid config)) (ConfigJson config)] \<and>
   list_all (\<lambda>e. \<not> is_rename e) (new_calls (createSandbox config tmpl) w) \<and>
   list_all (\<lambda>e. \<not> is_rename e) (new_calls (startSandbox sandboxId) w) \<and>
   list_all (\<lambda>e. \<not> is_rename e) (new_calls (stopSandbox sandboxId) w)"
  using new_calls_saveSandboxConfig [of config w]
    list_all_prefix [OF emits_new_calls(1) [OF createSandbox_emits] no_rename_createSandbox_calls,
      of config tmpl w]
    list_all_prefix [OF emits_new_calls(1) [OF startSandbox_emits] no_rename_startSandbox_calls,
      of sandboxId w]
    list_all_prefix [OF emits_new_calls(1) [OF stopSandbox_emits] no_rename_stopSandbox_calls,
      of sandboxId w]
  by simp

text \<open>
  Claim C6 as stated fails: the calls of a write of the record are not a write to a
  temporary file followed by a rename; the one call is a write onto \<^verbatim>\<open>config.json\<close>.
\<close>

theorem saveSandboxConfig_not_atomic_counterexample:
  "new_calls (saveSandboxConfig example_config) (example_world (\<lambda>i. Missing) (Some []))
     = [FsWriteFile ''/home/u/.dcsandbox/sandboxes/sandbox-Ab3dE6gh/config.json''
          (ConfigJson example_config)] \<and>
   \<not> write_temp_then_rename
       (new_calls (saveSandboxConfig example_config) (example_world (\<lambda>i. Missing) (Some [])))
       ''/home/u/.dcsandbox/sandboxes/sandbox-Ab3dE6gh/config.json''"
  by (simp add: new_calls_saveSandboxConfig configPath_def sandboxesDir_def path_join_def
      example_world_def example_config_def)


section \<open>The detection that detectProject returns\<close>

lemma foldl_better_first_best:
  "\<exists>before after. first # others = before @ foldl better first others # after \<and>
     (\<forall>d \<in> set before. confidence d < confidence (foldl better first others)) \<and>
     (\<forall>d \<in> set after. confidence d \<le> confidence (foldl better first others))"
proof (induction others arbitrary: first)
  case Nil
  have "[first] = [] @ first # []" by simp
  then show ?case by force
next
  case (Cons x xs)
  let ?r = "foldl better first (x # xs)"
  show ?case
  proof (cases "confidence x > confidence first")
    case True
    then have r: "?r = foldl better x xs" by (simp add: better_def)
    from Cons.IH [of x] obtain before after
      where sp: "x # xs = before @ foldl better x xs # after"
        and lt: "\<forall>d \<in> set before. confidence d < confidence (foldl better x xs)"
        and le: "\<forall>d \<in> set after. confidence d \<le> confidence (foldl better x xs)"
      by blast
    have "x \<in> set (before @ foldl better x xs # after)" using sp by (metis list.set_intros(1))
    then have "confidence x \<le> confidence (foldl better x xs)" using lt le by auto
    with True have "confidence first < confidence (foldl better x xs)" by simp
    with lt have lt': "\<forall>d \<in> set (first # before). confidence d < confidence (foldl better x xs)"
      by simp
    from sp have "first # x # xs = (first # before) @ foldl better x xs # after" by simp
    with lt' le r show ?thesis by metis
  next
    case False
    then have r: "?r = foldl better first xs" by (simp add: better_def)
    from Cons.IH [of first] obtain before after
      where sp: "first # xs = before @ foldl better first xs # after"
        and lt: "\<forall>d \<in> set before. confidence d < confidence (foldl better first xs)"
        and le: "\<forall>d \<in> set after. confidence d \<le> confidence (foldl better first xs)"
      by blast
    show ?thesis
    proof (cases before)
      case Nil
      with sp have f: "foldl better first xs = first" and a: "after = xs" by auto
      have "first # x # xs = [] @ first # (x # xs)" by simp
      moreover have "\<forall>d \<in> set (x # xs). confidence d \<le> confidence first"
        using le a f False by auto
      ultimately show ?thesis unfolding r f by force
    next
      case (Cons b bs)
      with sp have b: "b = first" and xs: "xs = bs @ foldl better first xs # after" by auto
      from lt Cons b have fl: "confidence first < confidence (foldl better first xs)" by simp
      with False have "confidence x < confidence (foldl better first xs)" by simp
      with lt Cons b
      have lt': "\<forall>d \<in> set (first # x # bs). confidence d < confidence (foldl better first xs)"
        by simp
      from xs have "first # x # xs = (first # x # bs) @ foldl better first xs # after" by simp
      with lt' le r show ?thesis by metis
    qed
  qed
qed

lemma detection_results_positive: "d \<in> set (detection_results p) \<Longrightarrow> 0 < confidence d"
  by (auto simp: detection_results_def)


text \<open>
  Claim C8, as amended. \<open>detectProject\<close> runs the eight detectors in the order
  javascript, python, go, rust, java, ruby, php, dotnet (whose language is \<open>csharp\<close>) and
  keeps the detections whose score is positive, a score being the sum that the detector
  accumulates in doubles. When there is none it returns the detection \<open>unknown\<close> with the
  template \<open>base\<close> and confidence 0. Otherwise it returns one of the detections kept, as
  the detector made it: its confidence is that score, not clamped; every detection before
  it in the order has a strictly smaller score and every detection after it a score that
  is not greater. The confidence returned is never negative.
\<close>

theorem detectProject_first_best:
  "(detection_results p = [] \<longrightarrow> detectProject p = unknown_detection) \<and>
   (detection_results p \<noteq> [] \<longrightarrow>
      (\<exists>before after. detection_results p = before @ detectProject p # after \<and>
         (\<forall>d \<in> set before. confidence d < confidence (detectProject p)) \<and>
         (\<forall>d \<in> set after. confidence d \<le> confidence (detectProject p)))) \<and>
   0 \<le> confidence (detectProject p) \<and>
   detection_results p =
     filter (\<lambda>result. confidence result > 0)
       [detectNodeJS p, detectPython p, detectGo p, detectRust p, detectJava p, detectRuby p,
        detectPHP p, detectDotNet p] \<and>
   map language [detectNodeJS p, detectPython p, detectGo p, detectRust p, detectJava p,
        detectRuby p, detectPHP p, detectDotNet p]
     = [''javascript'', ''python'', ''go'', ''rust'', ''java'', ''ruby'', ''php'', ''csharp'']"
proof -
  have A: "detection_results p = [] \<longrightarrow> detectProject p = unknown_detection"
    by (simp add: detectProject_def unknown_detection_def)
  have B: "detection_results p \<noteq> [] \<longrightarrow>
      (\<exists>before after. detection_results p = before @ detectProject p # after \<and>
         (\<forall>d \<in> set before. confidence d < confidence (detectProject p)) \<and>
         (\<forall>d \<in> set after. confidence d \<le> confidence (detectProject p)))"
  proof
    assume "detection_results p \<noteq> []"
    then obtain first others where r: "detection_results p = first # others"
      by (cases "detection_results p") auto
    then have d: "detectProject p = foldl better first others"
      by (simp add: detectProject_def)
    from foldl_better_first_best [of first others] r d
    show "\<exists>before after. detection_results p = before @ detectProject p # after \<and>
         (\<forall>d \<in> set before. confidence d < confidence (detectProject p)) \<and>
         (\<forall>d \<in> set after. confidence d \<le> confidence (detectProject p))"
      by simp
  qed
  have C: "0 \<le> confidence (detectProject p)"
  proof (cases "detection_results p = []")
    case True
    with A show ?thesis by (simp add: unknown_detection_def)
  next
    case False
    with B obtain before after
      where "detection_results p = before @ detectProject p # after" by blast
    then have "detectProject p \<in> set (detection_results p)" by simp
    from detection_results_positive [OF this] show ?thesis by simp
  qed
  have D: "detection_results p =
     filter (\<lambda>result. confidence result > 0)
       [detectNodeJS p, detectPython p, detectGo p, detectRust p, detectJava p, detectRuby p,
        detectPHP p, detectDotNet p]"
    by (simp add: detection_results_def detectors_def)
  have E: "map language [detectNodeJS p, detectPython p, detectGo p, detectRust p, detectJava p,
        detectRuby p, detectPHP p, detectDotNet p]
     = [''javascript'', ''python'', ''go'', ''rust'', ''java'', ''ruby'', ''php'', ''csharp'']"
    by (simp add: detectNodeJS_def detectPython_def detectGo_def detectRust_def detectJava_def
        detectRuby_def detectPHP_def detectDotNet_def Let_def)
  show ?thesis by (intro conjI A B C D E)
qed

lemma detection_results_go_rust:
  "detection_results go_rust_project = [detectGo go_rust_project, detectRust go_rust_project]"
  by code_simp

lemma detectProject_go_rust: "detectProject go_rust_project = detectGo go_rust_project"
  by code_simp

lemma confidence_go_rust:
  "confidence (detectGo go_rust_project) = double_of (7 / 10)"
  "confidence (detectRust go_rust_project) = double_of (7 / 10)"
  by code_simp+

text \<open>
  The sums are those of the doubles: 0.1 + 0.1 + 0.05 + 0.05 is the double 0.3, and 0.2 + 0.1
  is the next double above it, so that go is not tied with javascript but ahead of it.
\<close>

lemma confidence_js_go:
  "confidence (detectNodeJS js_go_project) = double_of (3 / 10)"
  "confidence (detectGo js_go_project) = 1351079888211149 / 4503599627370496"
  "confidence (detectNodeJS js_go_project) < confidence (detectGo js_go_project)"
  by code_simp+

lemma detection_results_js_go:
  "detection_results js_go_project = [detectNodeJS js_go_project, detectGo js_go_project]"
  by code_simp

lemma detectProject_js_go: "detectProject js_go_project = detectGo js_go_project"
  by code_simp

theorem detectProject_first_best_witness:
  "detection_results go_rust_project \<noteq> [] \<and>
   detectProject go_rust_project = detectGo go_rust_project \<and>
   confidence (detectRust go_rust_project) \<le> confidence (detectProject go_rust_project) \<and>
   (\<exists>before after. detection_results go_rust_project
        = before @ detectProject go_rust_project # after \<and>
      (\<forall>d \<in> set before. confidence d < confidence (detectProject go_rust_project)) \<and>
      (\<forall>d \<in> set after. confidence d \<le> confidence (detectProject go_rust_project))) \<and>
   detection_results \<lparr>tree = None, packageJson = PackageUnusable\<rparr> = [] \<and>
   detectProject \<lparr>tree = None, packageJson = PackageUnusable\<rparr> = unknown_detection \<and>
   detection_results js_go_project = [detectNodeJS js_go_project, detectGo js_go_project] \<and>
   confidence (detectNodeJS js_go_project) < confidence (detectGo js_go_project) \<and>
   detectProject js_go_project = detectGo js_go_project"
proof -
  have ne: "detection_results go_rust_project \<noteq> []"
    by (simp add: detection_results_go_rust)
  have e: "detection_results \<lparr>tree = None, packageJson = PackageUnusable\<rparr> = []"
    by code_simp
  from detectProject_first_best [of go_rust_project] ne
  have s: "\<exists>before after. detection_results go_rust_project
        = before @ detectProject go_rust_project # after \<and>
      (\<forall>d \<in> set before. confidence d < confidence (detectProject go_rust_project)) \<and>
      (\<forall>d \<in> set after. confidence d \<le> confidence (detectProject go_rust_project))"
    by blast
  from detectProject_first_best [of "\<lparr>tree = None, packageJson = PackageUnusable\<rparr>"] e
  have u: "detectProject \<lparr>tree = None, packageJson = PackageUnusable\<rparr> = unknown_detection"
    by blast
  note j = detectProject_js_go
  from ne s e u j show ?thesis
    by (simp add: detectProject_go_rust confidence_go_rust detection_results_js_go
        confidence_js_go(3))
qed

text \<open>
  Claim C8 as stated fails: the confidence is not clamped to 1. A project with a
  \<^verbatim>\<open>package.json\<close> that depends on react, a \<^verbatim>\<open>package-lock.json\<close> and a \<^verbatim>\<open>.js\<close> file gets
  0.8 + 0.1 + 0.05 + 0.1, which in doubles is the double 1.05.
\<close>

theorem detectProject_not_clamped_counterexample:
  "confidence (detectProject react_project) = 4728779608739021 / 4503599627370496 \<and>
   confidence (detectProject react_project) = double_of (21 / 20) \<and>
   \<not> confidence (detectProject react_project) \<le> 1"
proof -
  have "confidence (detectProject react_project) = 4728779608739021 / 4503599627370496"
    by code_simp
  moreover have "double_of (21 / 20) = 4728779608739021 / 4503599627370496"
    by code_simp
  ultimately show ?thesis by simp
qed


section \<open>The calls of a sequence of operations\<close>

lemma grows_new_calls: "grows m \<Longrightarrow> trace (snd (m w)) = trace w @ new_calls m w"
  by (auto simp: grows_def new_calls_def dest: spec [of _ w])

lemma grows_bind:
  assumes m: "grows m" and f: "\<And>x. grows (f x)"
  shows "grows (io_bind m f)"
  unfolding grows_def
proof
  fix w
  obtain r w1 where mw: "m w = (r, w1)" by (cases "m w")
  from m mw obtain t where t: "trace w1 = trace w @ t" by (auto simp: grows_def dest: spec [of _ w])
  show "\<exists>u. trace (snd (io_bind m f w)) = trace w @ u"
  proof (cases r)
    case (Inl e)
    with mw t show ?thesis by (simp add: io_bind_def)
  next
    case (Inr x)
    from f [of x] obtain u where "trace (snd (f x w1)) = trace w1 @ u"
      by (auto simp: grows_def dest: spec [of _ w1])
    with Inr mw t show ?thesis by (simp add: io_bind_def)
  qed
qed

lemma grows_emits: "(\<And>w. \<exists>full Q. emits m w full Q) \<Longrightarrow> grows m"
  unfolding grows_def emits_def by (metis snd_conv)

lemma grows_only_calls:
  assumes "only_calls P m"
  shows "grows m"
  unfolding grows_def
proof
  fix w
  from assms obtain t where "snd (m w) = w\<lparr>trace := trace w @ t\<rparr>"
    unfolding only_calls_def by blast
  then have "trace (snd (m w)) = trace w @ t" by simp
  then show "\<exists>t. trace (snd (m w)) = trace w @ t" by blast
qed

lemma new_calls_bind:
  assumes m: "grows m" and f: "\<And>x. grows (f x)"
  shows "new_calls (io_bind m f) w =
           new_calls m w @ (case fst (m w) of Inl e \<Rightarrow> [] | Inr x \<Rightarrow> new_calls (f x) (snd (m w)))"
proof -
  obtain r w1 where mw: "m w = (r, w1)" by (cases "m w")
  from grows_new_calls [OF m, of w] mw have t: "trace w1 = trace w @ new_calls m w" by simp
  show ?thesis
  proof (cases r)
    case (Inl e)
    with mw show ?thesis by (simp add: io_bind_def new_calls_def)
  next
    case (Inr x)
    from grows_new_calls [OF f, of x w1]
    have "trace (snd (f x w1)) = trace w @ new_calls m w @ new_calls (f x) w1"
      using t by simp
    with Inr mw show ?thesis by (simp add: io_bind_def new_calls_def [of "io_bind m f"])
  qed
qed

lemma only_calls_new_calls:
  assumes "only_calls P m"
  shows "snd (m w) = w\<lparr>trace := trace w @ new_calls m w\<rparr>" and "list_all P (new_calls m w)"
proof -
  from assms obtain t where t: "snd (m w) = w\<lparr>trace := trace w @ t\<rparr>" "list_all P t"
    unfolding only_calls_def by blast
  then have "new_calls m w = t" by (simp add: new_calls_def)
  with t show "snd (m w) = w\<lparr>trace := trace w @ new_calls m w\<rparr>" "list_all P (new_calls m w)"
    by simp_all
qed

lemma only_calls_same: "(\<And>w. snd (m w) = w) \<Longrightarrow> only_calls P m"
  unfolding only_calls_def
proof
  fix w assume "\<And>w. snd (m w) = w"
  then have "snd (m w) = w\<lparr>trace := trace w @ []\<rparr> \<and> list_all P []" by simp
  then show "\<exists>t. snd (m w) = w\<lparr>trace := trace w @ t\<rparr> \<and> list_all P t" by blast
qed

lemma only_calls_return: "only_calls P (io_return x)"
  by (rule only_calls_same) (simp add: io_return_def)

lemma only_calls_throw: "only_calls P (io_throw e)"
  by (rule only_calls_same) (simp add: io_throw_def)

lemma only_calls_call: "P e \<Longrightarrow> only_calls P (call e x)"
  unfolding only_calls_def
proof
  fix w assume "P e"
  then have "snd (call e x w) = w\<lparr>trace := trace w @ [e]\<rparr> \<and> list_all P [e]"
    by (simp add: call_def)
  then show "\<exists>t. snd (call e x w) = w\<lparr>trace := trace w @ t\<rparr> \<and> list_all P t" by blast
qed

lemma only_calls_bind:
  assumes m: "only_calls P m" and f: "\<And>x. only_calls P (f x)"
  shows "only_calls P (io_bind m f)"
  unfolding only_calls_def
proof
  fix w
  obtain r w1 where mw: "m w = (r, w1)" by (cases "m w")
  from m have "\<exists>t. snd (m w) = w\<lparr>trace := trace w @ t\<rparr> \<and> list_all P t"
    unfolding only_calls_def by blast
  with mw obtain t where t: "w1 = w\<lparr>trace := trace w @ t\<rparr>" "list_all P t"
    by auto
  show "\<exists>u. snd (io_bind m f w) = w\<lparr>trace := trace w @ u\<rparr> \<and> list_all P u"
  proof (cases r)
    case (Inl e)
    with mw t show ?thesis by (auto simp: io_bind_def)
  next
    case (Inr x)
    from f [of x] obtain u where u: "snd (f x w1) = w1\<lparr>trace := trace w1 @ u\<rparr>" "list_all P u"
      unfolding only_calls_def by blast
    from u t have "snd (f x w1) = w\<lparr>trace := trace w @ (t @ u)\<rparr> \<and> list_all P (t @ u)"
      by simp
    with Inr mw show ?thesis
      by (simp add: io_bind_def) (rule exI [of _ "t @ u"], simp)
  qed
qed

lemma only_calls_catch:
  assumes m: "only_calls P m" and h: "\<And>e. only_calls P (h e)"
  shows "only_calls P (io_catch m h)"
  unfolding only_calls_def
proof
  fix w
  obtain r w1 where mw: "m w = (r, w1)" by (cases "m w")
  from m have "\<exists>t. snd (m w) = w\<lparr>trace := trace w @ t\<rparr> \<and> list_all P t"
    unfolding only_calls_def by blast
  with mw obtain t where t: "w1 = w\<lparr>trace := trace w @ t\<rparr>" "list_all P t"
    by auto
  show "\<exists>u. snd (io_catch m h w) = w\<lparr>trace := trace w @ u\<rparr> \<and> list_all P u"
  proof (cases r)
    case (Inr x)
    with mw t show ?thesis by (auto simp: io_catch_def)
  next
    case (Inl e)
    from h [of e] obtain u where u: "snd (h e w1) = w1\<lparr>trace := trace w1 @ u\<rparr>" "list_all P u"
      unfolding only_calls_def by blast
    from u t have "snd (h e w1) = w\<lparr>trace := trace w @ (t @ u)\<rparr> \<and> list_all P (t @ u)"
      by simp
    with Inl mw show ?thesis
      by (simp add: io_catch_def) (rule exI [of _ "t @ u"], simp)
  qed
qed

lemma only_calls_getSandbox: "only_calls P (getSandbox i)"
  by (rule only_calls_same) (simp add: getSandbox_eq)

lemma only_calls_setupMCP: "only_calls no_record (setupMCP i)"
  unfolding setupMCP_def
  by (auto intro!: only_calls_bind only_calls_getSandbox only_calls_throw only_calls_call
      simp: no_record_def split: option.splits)

lemma only_calls_execCommands: "only_calls no_record (execCommands cid commands)"
  by (induction commands)
     (auto intro!: only_calls_return only_calls_bind only_calls_call simp: no_record_def)

lemma only_calls_runPostCreateCommands: "only_calls no_record (runPostCreateCommands i commands)"
  unfolding runPostCreateCommands_def
  by (auto intro!: only_calls_bind only_calls_getSandbox only_calls_throw
      only_calls_execCommands split: option.splits)

lemma only_calls_postCreateCommands: "only_calls no_record (postCreateCommands i tmpl)"
  unfolding postCreateCommands_def
  by (auto intro!: only_calls_return only_calls_runPostCreateCommands split: option.splits)

lemma only_calls_getSandboxInfo: "only_calls P (getSandboxInfo i)"
  unfolding getSandboxInfo_def by (rule only_calls_getSandbox)

lemma only_calls_this_cacheDir: "only_calls P this_cacheDir"
  by (rule only_calls_same) (simp add: this_cacheDir_def)

lemma only_calls_access_gitDir: "only_calls P access_gitDir"
  by (rule only_calls_same) (simp add: access_gitDir_def)

lemma only_calls_detectProject_at: "only_calls P (detectProject_at d)"
  by (rule only_calls_same) (simp add: detectProject_at_def)

lemma only_calls_getTemplate: "only_calls P (getTemplate n)"
  by (rule only_calls_same) (simp add: getTemplate_def split: option.splits)

lemma only_calls_this_world: "only_calls P this_world"
  by (rule only_calls_same) (simp add: this_world_def)

lemma only_calls_cloneRepository: "only_calls no_record (cloneRepository u b i)"
  unfolding cloneRepository_def
  by (intro only_calls_bind only_calls_catch only_calls_call only_calls_return
      only_calls_throw only_calls_this_cacheDir only_calls_access_gitDir)
     (simp_all add: no_record_def)

lemma only_calls_cloneAndDetect: "only_calls no_record (cloneAndDetect options i)"
  unfolding cloneAndDetect_def
  by (auto intro!: only_calls_return only_calls_bind only_calls_cloneRepository
      only_calls_detectProject_at split: option.splits)

lemma only_calls_prepareSandbox: "only_calls no_record (prepareSandbox options)"
  unfolding prepareSandbox_def
  by (auto intro!: only_calls_bind only_calls_cloneAndDetect only_calls_return only_calls_throw
      only_calls_this_world only_calls_getTemplate split: option.splits prod.splits)


section \<open>The calls of createCommand\<close>

lemma persisted_no_record: "list_all no_record t \<Longrightarrow> persisted t = []"
  by (induction t) (simp_all add: persisted_def List.map_filter_simps no_record_def)

lemma before_first_write_append:
  "list_all no_record a \<Longrightarrow>
     before_first_write (a @ FsWriteFile p (ConfigJson c) # rest) = a"
  by (induction a) (simp_all add: before_first_write_def no_record_def)

lemma no_record_setupWorkspace_call: "no_record (setupWorkspace_call config dir)"
  by (simp add: no_record_def written_record_setupWorkspace_call)

lemma createSandbox_setup_calls_no_record:
  "list_all no_record (createSandbox_setup_calls config tmpl w)"
  by (simp add: createSandbox_setup_calls_def Let_def no_record_setupWorkspace_call
      split: sum.splits) (simp add: no_record_def)

lemma createSandbox_calls_split:
  "createSandbox_calls config tmpl w =
     createSandbox_setup_calls config tmpl w @
       (case parseMemory (memory (resources config)) of
          Inl e \<Rightarrow> []
        | Inr bytes \<Rightarrow>
            [FsWriteFile (configPath w (sid config))
               (ConfigJson (config\<lparr>containerId := Some (newContainerId w),
                  status := status_stopped\<rparr>))])"
  by (simp add: createSandbox_calls_def createSandbox_setup_calls_def Let_def
      split: sum.splits)

lemma createSandbox_setup_calls_build:
  "parseMemory (memory (resources config)) = Inr bytes \<Longrightarrow>
     list_ex is_build (createSandbox_setup_calls config tmpl w) \<and>
     list_ex is_createContainer (createSandbox_setup_calls config tmpl w)"
  by (simp add: createSandbox_setup_calls_def Let_def)

lemma cloneRepository_success:
  "cloneRepository u b i w = (Inr d, w1) \<Longrightarrow>
     list_ex is_clone (new_calls (cloneRepository u b i) w)"
  by (auto simp: cloneRepository_def io_bind_def io_catch_def call_def this_cacheDir_def
      access_gitDir_def io_return_def io_throw_def new_calls_def split: if_splits)


lemma cloneAndDetect_result:
  assumes run: "cloneAndDetect options i w = (Inr (clone, tn), w1)"
  shows "tn = resolved_template options w"
    and "truthy_string (opt_git options) \<Longrightarrow>
           list_ex is_clone (new_calls (cloneAndDetect options i) w)"
proof -
  have both: "tn = resolved_template options w \<and>
    (truthy_string (opt_git options) \<longrightarrow>
       list_ex is_clone (new_calls (cloneAndDetect options i) w))"
  proof (cases "truthy_string (opt_git options)")
    case False
    with run show ?thesis
      by (auto simp: cloneAndDetect_def truthy_string_def resolved_template_def io_return_def
          split: option.splits if_splits)
  next
    case True
    then obtain gitUrl where g: "opt_git options = Some gitUrl" "gitUrl \<noteq> []"
      by (auto simp: truthy_string_def split: option.splits)
    let ?clone = "cloneRepository gitUrl (string_or (opt_branch options) ''main'') i"
    obtain r w' where c: "?clone w = (r, w')" by (cases "?clone w")
    from run g c obtain d where r: "r = Inr d"
      by (cases r) (auto simp: cloneAndDetect_def io_bind_def)
    have "snd (?clone w) = w\<lparr>trace := trace w @ new_calls ?clone w\<rparr>"
      by (rule only_calls_new_calls(1) [OF only_calls_cloneRepository])
    with c have w': "w' = w\<lparr>trace := trace w @ new_calls ?clone w\<rparr>" by simp
    from cloneRepository_success [OF c [unfolded r]]
    have cl: "list_ex is_clone (new_calls ?clone w)" .
    from w' have tr: "trace w' = trace w @ new_calls ?clone w"
      and cp: "clonedProject w' = clonedProject w" by (simp_all)
    have w1: "w1 = w'" and tn: "tn = resolved_template options w"
      using run g c r True cp
      by (auto simp: cloneAndDetect_def io_bind_def detectProject_at_def io_return_def
          resolved_template_def split: if_splits)
    have "new_calls (cloneAndDetect options i) w = new_calls ?clone w"
      using run w1 tr by (simp add: new_calls_def)
    with cl tn show ?thesis by simp
  qed
  from both show "tn = resolved_template options w" by simp
  from both show "truthy_string (opt_git options) \<Longrightarrow>
           list_ex is_clone (new_calls (cloneAndDetect options i) w)" by simp
qed

lemma prepareSandbox_result:
  assumes run: "prepareSandbox options w = (Inr (cfg, tmpl), w1)"
  shows "template cfg = resolved_template options w"
    and "status cfg = status_creating"
    and "truthy_string (opt_git options) \<Longrightarrow>
           list_ex is_clone (new_calls (prepareSandbox options) w)"
proof -
  let ?i = "''sandbox-'' @ nanoid8 w"
  obtain r w' where c: "cloneAndDetect options ?i w = (r, w')"
    by (cases "cloneAndDetect options ?i w")
  from run c obtain clone tn where r: "r = Inr (clone, tn)"
    by (cases r) (auto simp: prepareSandbox_def io_bind_def this_world_def)
  from run c r have w1: "w1 = w'"
    and cfg: "\<exists>t. cfg = sandboxConfig_of options w clone tn t"
    by (auto simp: prepareSandbox_def io_bind_def this_world_def getTemplate_def io_throw_def
        io_return_def split: option.splits)
  from cloneAndDetect_result(1) [OF c [unfolded r]] cfg
  show "template cfg = resolved_template options w"
    by (auto simp: sandboxConfig_of_def)
  from cfg show "status cfg = status_creating" by (auto simp: sandboxConfig_of_def)
  have "new_calls (prepareSandbox options) w = new_calls (cloneAndDetect options ?i) w"
    using run c w1 by (simp add: new_calls_def)
  with cloneAndDetect_result(2) [OF c [unfolded r]]
  show "truthy_string (opt_git options) \<Longrightarrow>
           list_ex is_clone (new_calls (prepareSandbox options) w)" by simp
qed


lemma persisted_prefix_startSandbox_calls:
  assumes p: "prefix ts (startSandbox_calls i w)" and s: "stored_record w i = Some c"
  shows "persisted ts = [] \<or>
         (\<exists>port. persisted ts = [c\<lparr>status := status_running, mcpPort := Some port\<rparr>])"
  using p s
  by (auto simp: startSandbox_calls_def prefix_Cons persisted_def List.map_filter_simps
      split: option.splits if_splits sum.splits prod.splits)

lemma only_calls_afterStart: "only_calls no_record (afterStart tmpl sb)"
  unfolding afterStart_def
  by (auto intro!: only_calls_bind only_calls_setupMCP only_calls_postCreateCommands
      only_calls_getSandboxInfo only_calls_throw only_calls_return split: option.splits)

lemma grows_startSandbox: "grows (startSandbox i)"
  by (rule grows_emits) (blast intro: startSandbox_emits)

lemma grows_createSandbox: "grows (createSandbox config tmpl)"
  by (rule grows_emits) (blast intro: createSandbox_emits)

lemma grows_afterCreate: "grows (afterCreate tmpl sb)"
  unfolding afterCreate_def
  by (intro grows_bind grows_startSandbox grows_only_calls [OF only_calls_afterStart])

lemma createCommand_stages:
  "createCommand options =
     io_bind (prepareSandbox options)
       (\<lambda>(cfg, tmpl). io_bind (createSandbox cfg tmpl) (afterCreate tmpl))"
proof -
  have "afterCreate tmpl =
     (\<lambda>sandbox. io_bind (startSandbox (sid sandbox)) (\<lambda>_.
        io_bind (setupMCP (sid sandbox)) (\<lambda>_.
        io_bind (postCreateCommands (sid sandbox) tmpl) (\<lambda>_.
        io_bind (getSandboxInfo (sid sandbox)) (\<lambda>sandboxInfo.
          case sandboxInfo of
            None \<Rightarrow> io_throw (Error ''Failed to get sandbox information after creation'')
          | Some info \<Rightarrow> io_return ())))))" for tmpl
    by (rule ext) (simp add: afterCreate_def afterStart_def)
  then show ?thesis by (simp add: createCommand_def)
qed

lemma persisted_afterCreate:
  assumes s: "stored_record w i = Some c" and i: "sid sb = i"
  shows "persisted (new_calls (afterCreate tmpl sb) w) = [] \<or>
         (\<exists>port. persisted (new_calls (afterCreate tmpl sb) w)
            = [c\<lparr>status := status_running, mcpPort := Some port\<rparr>])"
proof -
  let ?ts = "new_calls (startSandbox i) w"
  have "new_calls (io_bind (startSandbox i) (\<lambda>_. afterStart tmpl sb)) w =
          ?ts @ (case fst (startSandbox i w) of Inl e \<Rightarrow> []
                 | Inr u \<Rightarrow> new_calls (afterStart tmpl sb) (snd (startSandbox i w)))"
    by (rule new_calls_bind) (rule grows_startSandbox, rule grows_only_calls [OF only_calls_afterStart])
  then have t: "new_calls (afterCreate tmpl sb) w =
          ?ts @ (case fst (startSandbox i w) of Inl e \<Rightarrow> []
                 | Inr u \<Rightarrow> new_calls (afterStart tmpl sb) (snd (startSandbox i w)))"
    by (simp add: afterCreate_def i)
  have n: "list_all no_record (new_calls (afterStart tmpl sb) w')" for w'
    by (rule only_calls_new_calls(2) [OF only_calls_afterStart])
  have "persisted (new_calls (afterCreate tmpl sb) w) = persisted ?ts"
    unfolding t
    by (cases "fst (startSandbox i w)") (simp_all add: persisted_append persisted_no_record [OF n])
  moreover have "persisted ?ts = [] \<or>
         (\<exists>port. persisted ?ts = [c\<lparr>status := status_running, mcpPort := Some port\<rparr>])"
    using emits_new_calls(1) [OF startSandbox_emits [of i w]] s
    by (rule persisted_prefix_startSandbox_calls)
  ultimately show ?thesis by simp
qed


lemma prefix_createSandbox_calls:
  assumes pre: "prefix t (createSandbox_calls cfg tmpl w)" and p: "persisted t \<noteq> []"
  shows "t = createSandbox_setup_calls cfg tmpl w @
               [FsWriteFile (configPath w (sid cfg))
                 (ConfigJson (cfg\<lparr>containerId := Some (newContainerId w),
                    status := status_stopped\<rparr>))] \<and>
         (\<exists>b. parseMemory (memory (resources cfg)) = Inr b)"
proof (cases "parseMemory (memory (resources cfg))")
  case (Inl e)
  with pre have "prefix t (createSandbox_setup_calls cfg tmpl w)"
    by (simp add: createSandbox_calls_split)
  then have "list_all no_record t"
    by (rule list_all_prefix) (rule createSandbox_setup_calls_no_record)
  with p show ?thesis by (simp add: persisted_no_record)
next
  case (Inr b)
  let ?pre = "createSandbox_setup_calls cfg tmpl w"
  let ?wr = "FsWriteFile (configPath w (sid cfg))
                 (ConfigJson (cfg\<lparr>containerId := Some (newContainerId w),
                    status := status_stopped\<rparr>))"
  from pre Inr have "prefix t (?pre @ [?wr])" by (simp add: createSandbox_calls_split)
  then have "t = ?pre @ [?wr] \<or> prefix t ?pre" by (simp add: prefix_snoc)
  moreover have "\<not> prefix t ?pre"
  proof
    assume "prefix t ?pre"
    then have "list_all no_record t"
      by (rule list_all_prefix) (rule createSandbox_setup_calls_no_record)
    with p show False by (simp add: persisted_no_record)
  qed
  ultimately show ?thesis using Inr by blast
qed

lemma createSandbox_then_afterCreate:
  fixes cfg tmpl w
  defines "cfg' \<equiv> cfg\<lparr>containerId := Some (newContainerId w), status := status_stopped\<rparr>"
  defines "u \<equiv> new_calls (io_bind (createSandbox cfg tmpl) (afterCreate tmpl)) w"
  shows "persisted u = [] \<or>
     (\<exists>rest. u = createSandbox_setup_calls cfg tmpl w @
                   FsWriteFile (configPath w (sid cfg)) (ConfigJson cfg') # rest \<and>
        (\<exists>b. parseMemory (memory (resources cfg)) = Inr b) \<and>
        (persisted rest = [] \<or>
         (\<exists>port. persisted rest =
            [(json_roundtrip cfg')\<lparr>status := status_running, mcpPort := Some port\<rparr>])))"
proof -
  let ?pre = "createSandbox_setup_calls cfg tmpl w"
  let ?wr = "FsWriteFile (configPath w (sid cfg)) (ConfigJson cfg')"
  let ?t1 = "new_calls (createSandbox cfg tmpl) w"
  note em = emits_new_calls [OF createSandbox_emits [of cfg tmpl w]]
  have "new_calls (io_bind (createSandbox cfg tmpl) (afterCreate tmpl)) w =
      ?t1 @ (case fst (createSandbox cfg tmpl w) of Inl e \<Rightarrow> []
             | Inr sb \<Rightarrow> new_calls (afterCreate tmpl sb) (snd (createSandbox cfg tmpl w)))"
    by (rule new_calls_bind) (rule grows_createSandbox, rule grows_afterCreate)
  then have u: "u = ?t1 @ (case fst (createSandbox cfg tmpl w) of Inl e \<Rightarrow> []
             | Inr sb \<Rightarrow> new_calls (afterCreate tmpl sb) (snd (createSandbox cfg tmpl w)))"
    by (simp add: u_def)
  show ?thesis
  proof (cases "fst (createSandbox cfg tmpl w)")
    case (Inl e)
    with u have ut: "u = ?t1" by simp
    show ?thesis
    proof (cases "persisted ?t1 = []")
      case True
      with ut show ?thesis by simp
    next
      case False
      from prefix_createSandbox_calls [OF em(1) False]
      have "u = ?pre @ ?wr # []" and "\<exists>b. parseMemory (memory (resources cfg)) = Inr b"
        by (simp_all add: ut cfg'_def)
      moreover have "persisted ([] :: effect list) = []"
        by (simp add: persisted_def List.map_filter_simps)
      ultimately show ?thesis by blast
    qed
  next
    case (Inr sb)
    from em(3) [OF Inr] obtain b
      where sb: "sb = cfg'" and b: "parseMemory (memory (resources cfg)) = Inr b"
      and f: "?t1 = createSandbox_calls cfg tmpl w"
      and w2: "snd (createSandbox cfg tmpl w) = w\<lparr>trace := trace w @ createSandbox_calls cfg tmpl w,
             configJson := (configJson w)(sid cfg := Content (JsonRecord (json_roundtrip sb)))\<rparr>"
      by (auto simp: cfg'_def)
    let ?w2 = "snd (createSandbox cfg tmpl w)"
    from f b have f': "?t1 = ?pre @ [?wr]"
      by (simp add: createSandbox_calls_split cfg'_def)
    have i: "sid sb = sid cfg" by (simp add: sb cfg'_def)
    have st: "stored_record ?w2 (sid cfg) = Some (json_roundtrip sb)"
      by (simp add: w2 stored_record_def)
    let ?rest = "new_calls (afterCreate tmpl sb) ?w2"
    from persisted_afterCreate [OF st i, of tmpl]
    have rest: "persisted ?rest = [] \<or>
         (\<exists>port. persisted ?rest =
            [(json_roundtrip cfg')\<lparr>status := status_running, mcpPort := Some port\<rparr>])"
      by (simp add: sb)
    from u Inr f' have "u = ?pre @ ?wr # ?rest" by simp
    with rest b show ?thesis by blast
  qed
qed


lemma createCommand_shape:
  "persisted (new_calls (createCommand options) w) = [] \<or>
   (\<exists>t0 setup rest c p.
      new_calls (createCommand options) w = t0 @ setup @ FsWriteFile p (ConfigJson c) # rest \<and>
      list_all no_record t0 \<and> list_all no_record setup \<and>
      list_ex is_build setup \<and> list_ex is_createContainer setup \<and>
      (truthy_string (opt_git options) \<longrightarrow> list_ex is_clone t0) \<and>
      template c = resolved_template options w \<and> status c = status_stopped \<and>
      (persisted rest = [] \<or>
       (\<exists>port. persisted rest =
          [(json_roundtrip c)\<lparr>status := status_running, mcpPort := Some port\<rparr>])))"
proof -
  let ?k = "\<lambda>(cfg, tmpl). io_bind (createSandbox cfg tmpl) (afterCreate tmpl)"
  let ?t0 = "new_calls (prepareSandbox options) w"
  have gk: "grows (?k x)" for x
    by (cases x) (simp add: grows_bind grows_createSandbox grows_afterCreate)
  have n0: "list_all no_record ?t0"
    by (rule only_calls_new_calls(2) [OF only_calls_prepareSandbox])
  have "new_calls (io_bind (prepareSandbox options) ?k) w =
      ?t0 @ (case fst (prepareSandbox options w) of Inl e \<Rightarrow> []
             | Inr x \<Rightarrow> new_calls (?k x) (snd (prepareSandbox options w)))"
    by (rule new_calls_bind) (rule grows_only_calls [OF only_calls_prepareSandbox], rule gk)
  then have t: "new_calls (createCommand options) w =
      ?t0 @ (case fst (prepareSandbox options w) of Inl e \<Rightarrow> []
             | Inr x \<Rightarrow> new_calls (?k x) (snd (prepareSandbox options w)))"
    by (simp only: createCommand_stages)
  show ?thesis
  proof (cases "fst (prepareSandbox options w)")
    case (Inl e)
    with t n0 show ?thesis by (simp add: persisted_no_record)
  next
    case (Inr x)
    obtain cfg tmpl where x: "x = (cfg, tmpl)" by (cases x)
    let ?w1 = "snd (prepareSandbox options w)"
    have run: "prepareSandbox options w = (Inr (cfg, tmpl), ?w1)"
      using Inr x by (simp add: prod_eq_iff)
    note pr = prepareSandbox_result [OF run]
    let ?u = "new_calls (io_bind (createSandbox cfg tmpl) (afterCreate tmpl)) ?w1"
    let ?c = "cfg\<lparr>containerId := Some (newContainerId ?w1), status := status_stopped\<rparr>"
    from t Inr x have tu: "new_calls (createCommand options) w = ?t0 @ ?u" by simp
    from createSandbox_then_afterCreate [of cfg tmpl ?w1]
    show ?thesis
    proof
      assume "persisted ?u = []"
      with tu n0 show ?thesis by (simp add: persisted_append persisted_no_record)
    next
      assume "\<exists>rest. ?u = createSandbox_setup_calls cfg tmpl ?w1 @
                   FsWriteFile (configPath ?w1 (sid cfg)) (ConfigJson ?c) # rest \<and>
        (\<exists>b. parseMemory (memory (resources cfg)) = Inr b) \<and>
        (persisted rest = [] \<or>
         (\<exists>port. persisted rest =
            [(json_roundtrip ?c)\<lparr>status := status_running, mcpPort := Some port\<rparr>]))"
      then obtain rest b
        where u: "?u = createSandbox_setup_calls cfg tmpl ?w1 @
                   FsWriteFile (configPath ?w1 (sid cfg)) (ConfigJson ?c) # rest"
          and b: "parseMemory (memory (resources cfg)) = Inr b"
          and r: "persisted rest = [] \<or>
         (\<exists>port. persisted rest =
            [(json_roundtrip ?c)\<lparr>status := status_running, mcpPort := Some port\<rparr>])"
        by blast
      have tc: "template ?c = resolved_template options w" "status ?c = status_stopped"
        using pr(1) by simp_all
      have "new_calls (createCommand options) w =
              ?t0 @ createSandbox_setup_calls cfg tmpl ?w1 @
                FsWriteFile (configPath ?w1 (sid cfg)) (ConfigJson ?c) # rest"
        using tu u by simp
      then show ?thesis
        using n0 createSandbox_setup_calls_no_record [of cfg tmpl ?w1]
          createSandbox_setup_calls_build [OF b, of tmpl ?w1] pr(3) tc r
        by blast
    qed
  qed
qed


section \<open>The create command: order of persistence and choice of template\<close>

lemma detectProject_go_project:
  "confidence (detectProject go_project) = double_of (7 / 10)"
  "det_template (detectProject go_project) = ''go''"
  by code_simp+

lemma cloneAndDetect_example:
  "fst (cloneAndDetect example_options ''sandbox-Ab3dE6gh''
          (example_world (\<lambda>i. Missing) (Some [])))
     = Inr (Some ''/home/u/.dcsandbox/git-cache/sandbox-Ab3dE6gh'', ''base'')"
  by (simp add: cloneAndDetect_def example_options_def cloneRepository_def io_bind_def
      io_catch_def call_def this_cacheDir_def access_gitDir_def io_return_def
      example_world_def wants_detection_def detectProject_at_def pick_template_def
      detectProject_go_project string_or_def path_join_def)

lemma prepareSandbox_example:
  "\<exists>cfg w1. prepareSandbox example_options (example_world (\<lambda>i. Missing) (Some []))
      = (Inr (cfg, example_template), w1) \<and> rejects w1 = (\<lambda>done e. False) \<and>
     memory (resources cfg) = ''2G''"
  by (simp add: prepareSandbox_def this_world_def cloneAndDetect_def example_options_def
      cloneRepository_def io_bind_def
      io_catch_def call_def this_cacheDir_def access_gitDir_def io_return_def
      example_world_def wants_detection_def detectProject_at_def pick_template_def
      detectProject_go_project string_or_def getTemplate_def sandboxConfig_of_def)


lemma new_calls_createCommand:
  "new_calls (createCommand options) w =
     new_calls (prepareSandbox options) w @
       (case fst (prepareSandbox options w) of
          Inl e \<Rightarrow> []
        | Inr x \<Rightarrow>
            new_calls (case x of (cfg, tmpl) \<Rightarrow>
                io_bind (createSandbox cfg tmpl) (afterCreate tmpl))
              (snd (prepareSandbox options w)))"
proof -
  let ?k = "\<lambda>(cfg, tmpl). io_bind (createSandbox cfg tmpl) (afterCreate tmpl)"
  have gk: "grows (?k x)" for x
    by (cases x) (simp add: grows_bind grows_createSandbox grows_afterCreate)
  have "new_calls (io_bind (prepareSandbox options) ?k) w =
      new_calls (prepareSandbox options) w @
        (case fst (prepareSandbox options w) of Inl e \<Rightarrow> []
             | Inr x \<Rightarrow> new_calls (?k x) (snd (prepareSandbox options w)))"
    by (rule new_calls_bind) (rule grows_only_calls [OF only_calls_prepareSandbox], rule gk)
  then show ?thesis
    by (simp only: createCommand_stages)
qed

lemma createCommand_example_persists:
  "persisted (new_calls (createCommand example_options)
      (example_world (\<lambda>i. Missing) (Some []))) \<noteq> []"
proof -
  let ?w = "example_world (\<lambda>i. Missing) (Some [])"
  from prepareSandbox_example obtain cfg w1
    where p: "prepareSandbox example_options ?w = (Inr (cfg, example_template), w1)"
      and r: "rejects w1 = (\<lambda>done e. False)" and m: "memory (resources cfg) = ''2G''"
    by blast
  have pm: "parseMemory (memory (resources cfg)) = Inr 2147483648"
    by (simp add: m parseMemory_2G)
  let ?u = "new_calls (io_bind (createSandbox cfg example_template) (afterCreate example_template)) w1"
  have "new_calls (io_bind (createSandbox cfg example_template) (afterCreate example_template)) w1 =
      new_calls (createSandbox cfg example_template) w1 @
        (case fst (createSandbox cfg example_template w1) of Inl e \<Rightarrow> []
         | Inr sb \<Rightarrow> new_calls (afterCreate example_template sb)
                      (snd (createSandbox cfg example_template w1)))"
    by (rule new_calls_bind) (rule grows_createSandbox, rule grows_afterCreate)
  moreover from emits_new_calls(3) [OF createSandbox_emits createSandbox_accepted [OF r pm]]
  have "new_calls (createSandbox cfg example_template) w1
          = createSandbox_calls cfg example_template w1"
    by simp
  moreover have "persisted (createSandbox_calls cfg example_template w1) \<noteq> []"
  proof -
    have "persisted [FsWriteFile p (ConfigJson c)] = [c]" for p c
      by (simp add: persisted_def List.map_filter_simps)
    then show ?thesis
      by (simp add: createSandbox_calls_split pm persisted_append)
  qed
  ultimately have "persisted ?u \<noteq> []" by (simp add: persisted_append)
  moreover have "new_calls (createCommand example_options) ?w =
      new_calls (prepareSandbox example_options) ?w @ ?u"
    by (simp add: new_calls_createCommand p)
  ultimately show ?thesis by (simp add: persisted_append)
qed

lemma persisted_createCommand:
  "prefix (map status (persisted (new_calls (createCommand options) w)))
     [status_stopped, status_running] \<and>
   (\<forall>c \<in> set (persisted (new_calls (createCommand options) w)).
      template c = resolved_template options w) \<and>
   (persisted (new_calls (createCommand options) w) \<noteq> [] \<longrightarrow>
      list_ex is_build (before_first_write (new_calls (createCommand options) w)) \<and>
      list_ex is_createContainer (before_first_write (new_calls (createCommand options) w)) \<and>
      (truthy_string (opt_git options) \<longrightarrow>
         list_ex is_clone (before_first_write (new_calls (createCommand options) w))))"
proof -
  let ?t = "new_calls (createCommand options) w"
  from createCommand_shape [of options w] show ?thesis
  proof
    assume "persisted ?t = []"
    then show ?thesis by simp
  next
    assume "\<exists>t0 setup rest c p.
      ?t = t0 @ setup @ FsWriteFile p (ConfigJson c) # rest \<and>
      list_all no_record t0 \<and> list_all no_record setup \<and>
      list_ex is_build setup \<and> list_ex is_createContainer setup \<and>
      (truthy_string (opt_git options) \<longrightarrow> list_ex is_clone t0) \<and>
      template c = resolved_template options w \<and> status c = status_stopped \<and>
      (persisted rest = [] \<or>
       (\<exists>port. persisted rest =
          [(json_roundtrip c)\<lparr>status := status_running, mcpPort := Some port\<rparr>]))"
    then obtain t0 pre rest c p
      where t: "?t = t0 @ pre @ FsWriteFile p (ConfigJson c) # rest"
        and n: "list_all no_record t0" "list_all no_record pre"
        and b: "list_ex is_build pre" "list_ex is_createContainer pre"
        and g: "truthy_string (opt_git options) \<longrightarrow> list_ex is_clone t0"
        and c: "template c = resolved_template options w" "status c = status_stopped"
        and r: "persisted rest = [] \<or>
       (\<exists>port. persisted rest =
          [(json_roundtrip c)\<lparr>status := status_running, mcpPort := Some port\<rparr>])"
      by blast
    have per: "persisted ?t = c # persisted rest"
      using n by (simp add: t persisted_append persisted_no_record)
         (simp add: persisted_def List.map_filter_simps)
    from n have "list_all no_record (t0 @ pre)" by simp
    from before_first_write_append [OF this, of p c rest]
    have bf: "before_first_write ?t = t0 @ pre" by (simp add: t)
    have A: "prefix (map status (persisted ?t)) [status_stopped, status_running]"
      using r c by (auto simp: per)
    have B: "\<forall>c \<in> set (persisted ?t). template c = resolved_template options w"
      using r c by (auto simp: per json_roundtrip_def)
    have C: "list_ex is_build (before_first_write ?t) \<and>
      list_ex is_createContainer (before_first_write ?t) \<and>
      (truthy_string (opt_git options) \<longrightarrow> list_ex is_clone (before_first_write ?t))"
      using b g by (auto simp: bf list_ex_iff)
    from A B C show ?thesis by blast
  qed
qed


text \<open>
  0.8 - 0.2 is the double above 0.6, and adding 0.1 gives the double above 0.7: the detection
  of the project with the \<^verbatim>\<open>package.json\<close> that cannot be parsed is above the threshold.
\<close>

lemma detectProject_broken_package:
  "confidence (detectProject broken_package_project) = 6305039478318695 / 9007199254740992"
  "double_of (7 / 10) < confidence (detectProject broken_package_project)"
  "det_template (detectProject broken_package_project) = ''node''"
  by code_simp+

lemma cloneAndDetect_broken_package:
  "fst (cloneAndDetect example_options ''sandbox-Ab3dE6gh'' broken_package_world)
     = Inr (Some ''/home/u/.dcsandbox/git-cache/sandbox-Ab3dE6gh'', ''node'')"
  by (simp add: cloneAndDetect_def example_options_def cloneRepository_def io_bind_def
      io_catch_def call_def this_cacheDir_def access_gitDir_def io_return_def
      broken_package_world_def
      example_world_def wants_detection_def detectProject_at_def pick_template_def
      detectProject_broken_package(2,3) string_or_def path_join_def)

lemma prepareSandbox_broken_package:
  "\<exists>cfg w1. prepareSandbox example_options broken_package_world
      = (Inr (cfg, example_template), w1) \<and> rejects w1 = (\<lambda>done e. False) \<and>
     memory (resources cfg) = ''2G''"
  by (simp add: prepareSandbox_def this_world_def cloneAndDetect_def example_options_def
      cloneRepository_def io_bind_def broken_package_world_def
      io_catch_def call_def this_cacheDir_def access_gitDir_def io_return_def
      example_world_def wants_detection_def detectProject_at_def pick_template_def
      detectProject_broken_package(2,3) string_or_def getTemplate_def sandboxConfig_of_def)

lemma createCommand_persists:
  assumes p: "prepareSandbox options w = (Inr (cfg, tmpl), w1)"
    and r: "rejects w1 = (\<lambda>done e. False)"
    and pm: "parseMemory (memory (resources cfg)) = Inr bytes"
  shows "persisted (new_calls (createCommand options) w) \<noteq> []"
proof -
  let ?u = "new_calls (io_bind (createSandbox cfg tmpl) (afterCreate tmpl)) w1"
  have "new_calls (io_bind (createSandbox cfg tmpl) (afterCreate tmpl)) w1 =
      new_calls (createSandbox cfg tmpl) w1 @
        (case fst (createSandbox cfg tmpl w1) of Inl e \<Rightarrow> []
         | Inr sb \<Rightarrow> new_calls (afterCreate tmpl sb) (snd (createSandbox cfg tmpl w1)))"
    by (rule new_calls_bind) (rule grows_createSandbox, rule grows_afterCreate)
  moreover from emits_new_calls(3) [OF createSandbox_emits createSandbox_accepted [OF r pm]]
  have "new_calls (createSandbox cfg tmpl) w1 = createSandbox_calls cfg tmpl w1"
    by simp
  moreover have "persisted (createSandbox_calls cfg tmpl w1) \<noteq> []"
  proof -
    have "persisted [FsWriteFile p (ConfigJson c)] = [c]" for p c
      by (simp add: persisted_def List.map_filter_simps)
    then show ?thesis
      by (simp add: createSandbox_calls_split pm persisted_append)
  qed
  ultimately have "persisted ?u \<noteq> []" by (simp add: persisted_append)
  moreover have "new_calls (createCommand options) w =
      new_calls (prepareSandbox options) w @ ?u"
    by (simp add: new_calls_createCommand p)
  ultimately show ?thesis by (simp add: persisted_append)
qed

lemma createCommand_broken_package_persists:
  "persisted (new_calls (createCommand example_options) broken_package_world) \<noteq> []"
proof -
  from prepareSandbox_broken_package obtain cfg w1
    where p: "prepareSandbox example_options broken_package_world
        = (Inr (cfg, example_template), w1)"
      and r: "rejects w1 = (\<lambda>done e. False)" and m: "memory (resources cfg) = ''2G''"
    by blast
  have pm: "parseMemory (memory (resources cfg)) = Inr 2147483648"
    by (simp add: m parseMemory_2G)
  from createCommand_persists [OF p r pm] show ?thesis .
qed

lemma truthy_git_example_options: "truthy_string (opt_git example_options)"
  by (simp add: truthy_string_def example_options_def)

lemma wants_detection_example_options: "wants_detection example_options"
  by (simp add: wants_detection_def example_options_def)

lemma resolved_template_detected:
  "truthy_string (opt_git options) \<Longrightarrow> wants_detection options \<Longrightarrow>
     resolved_template options w =
       (if double_of (7 / 10) < confidence (detectProject (clonedProject w))
        then det_template (detectProject (clonedProject w))
        else string_or (opt_template options) ''base'')"
  by (simp add: resolved_template_def pick_template_def)

text \<open>
  With a template option and auto-detect, a detection that is not accepted leaves the
  template option in place, where the message of line 40 says \<^verbatim>\<open>using base template\<close>.
\<close>

lemma rejected_detection_keeps_template_option:
  assumes "truthy_string (opt_git options)" and "opt_autoDetect options = Some True"
    and "opt_template options = Some t" and "t \<noteq> []"
    and "confidence (detectProject (clonedProject w)) \<le> double_of (7 / 10)"
  shows "resolved_template options w = t"
  using assms
  by (simp add: resolved_template_def pick_template_def wants_detection_def string_or_def
      truthy_string_def)

lemma not_creating_persisted_first:
  "list_ex side_effect (before_first_write t) \<Longrightarrow> \<not> creating_persisted_first t"
proof -
  have "list_ex side_effect (takeWhile no_record t) \<Longrightarrow>
      persisted (takeWhile (\<lambda>e. \<not> side_effect e) t) = []"
  proof (induction t)
    case Nil
    then show ?case by simp
  next
    case (Cons e t)
    show ?case
    proof (cases "side_effect e")
      case True
      then show ?thesis by (simp add: persisted_def List.map_filter_simps)
    next
      case False
      with Cons.prems have n: "no_record e" and l: "list_ex side_effect (takeWhile no_record t)"
        by (auto split: if_splits)
      from n have "written_record e = None" by (simp add: no_record_def)
      with False Cons.IH [OF l] show ?thesis
        by (simp add: persisted_def List.map_filter_simps)
    qed
  qed
  then show "list_ex side_effect (before_first_write t) \<Longrightarrow> \<not> creating_persisted_first t"
    by (simp add: creating_persisted_first_def before_first_write_def)
qed


text \<open>
  Claim C5, as the code has it. \<^verbatim>\<open>createCommand\<close> never writes a record with the status
  \<open>creating\<close>: the statuses of the records it writes, in the order of the writes, are a
  prefix of \<open>stopped\<close>, \<open>running\<close>. And when it writes a record at all, the calls before
  the first write include the build of the image and the creation of the container, and
  the clone of the repository when a git URL was given.
\<close>

theorem createCommand_persists_after_side_effects:
  "prefix (map status (persisted (new_calls (createCommand options) w)))
     [status_stopped, status_running] \<and>
   (\<forall>c \<in> set (persisted (new_calls (createCommand options) w)).
      status c \<noteq> status_creating) \<and>
   (persisted (new_calls (createCommand options) w) \<noteq> [] \<longrightarrow>
      list_ex is_build (before_first_write (new_calls (createCommand options) w)) \<and>
      list_ex is_createContainer (before_first_write (new_calls (createCommand options) w)) \<and>
      (truthy_string (opt_git options) \<longrightarrow>
         list_ex is_clone (before_first_write (new_calls (createCommand options) w))))"
proof -
  let ?t = "new_calls (createCommand options) w"
  from persisted_createCommand [of options w]
  have A: "prefix (map status (persisted ?t)) [status_stopped, status_running]"
    and C: "persisted ?t \<noteq> [] \<longrightarrow>
      list_ex is_build (before_first_write ?t) \<and>
      list_ex is_createContainer (before_first_write ?t) \<and>
      (truthy_string (opt_git options) \<longrightarrow> list_ex is_clone (before_first_write ?t))"
    by simp_all
  from A have "set (map status (persisted ?t)) \<subseteq> {status_stopped, status_running}"
    using set_mono_prefix by fastforce
  then have B: "\<forall>c \<in> set (persisted ?t). status c \<noteq> status_creating"
    by auto
  from A B C show ?thesis by (intro conjI)
qed

theorem createCommand_persists_after_side_effects_witness:
  "persisted (new_calls (createCommand example_options)
      (example_world (\<lambda>i. Missing) (Some []))) \<noteq> [] \<and>
   truthy_string (opt_git example_options) \<and>
   status (hd (persisted (new_calls (createCommand example_options)
      (example_world (\<lambda>i. Missing) (Some []))))) = status_stopped \<and>
   list_ex is_build (before_first_write (new_calls (createCommand example_options)
      (example_world (\<lambda>i. Missing) (Some [])))) \<and>
   list_ex is_createContainer (before_first_write (new_calls (createCommand example_options)
      (example_world (\<lambda>i. Missing) (Some [])))) \<and>
   list_ex is_clone (before_first_write (new_calls (createCommand example_options)
      (example_world (\<lambda>i. Missing) (Some []))))"
proof -
  let ?t = "new_calls (createCommand example_options) (example_world (\<lambda>i. Missing) (Some []))"
  note ne = createCommand_example_persists
  note th = createCommand_persists_after_side_effects
    [of example_options "example_world (\<lambda>i. Missing) (Some [])"]
  from th have "prefix (map status (persisted ?t)) [status_stopped, status_running]"
    by (rule conjunct1)
  with ne have h: "status (hd (persisted ?t)) = status_stopped"
    by (cases "persisted ?t") (auto simp: prefix_Cons)
  from th ne truthy_git_example_options h show ?thesis by simp
qed

text \<open>
  Claim C5 as stated fails: in the run of \<^verbatim>\<open>createCommand\<close> on a git URL, calls that act
  outside the sandbox directory come before the first write of the record, no record
  written has the status \<open>creating\<close>, and so the order that the claim asks for does not hold.
\<close>

theorem createCommand_creating_not_persisted_first_counterexample:
  "list_ex side_effect (before_first_write (new_calls (createCommand example_options)
      (example_world (\<lambda>i. Missing) (Some [])))) \<and>
   persisted (new_calls (createCommand example_options)
      (example_world (\<lambda>i. Missing) (Some []))) \<noteq> [] \<and>
   list_all (\<lambda>c. status c \<noteq> status_creating)
     (persisted (new_calls (createCommand example_options)
        (example_world (\<lambda>i. Missing) (Some [])))) \<and>
   \<not> creating_persisted_first (new_calls (createCommand example_options)
      (example_world (\<lambda>i. Missing) (Some [])))"
proof -
  let ?t = "new_calls (createCommand example_options) (example_world (\<lambda>i. Missing) (Some []))"
  note ne = createCommand_example_persists
  from persisted_createCommand [of example_options "example_world (\<lambda>i. Missing) (Some [])"] ne
  have b: "list_ex is_build (before_first_write ?t)"
    and A: "prefix (map status (persisted ?t)) [status_stopped, status_running]"
    by simp_all
  from b have s: "list_ex side_effect (before_first_write ?t)"
    by (auto simp: list_ex_iff side_effect_def)
  from A have "set (map status (persisted ?t)) \<subseteq> {status_stopped, status_running}"
    using set_mono_prefix by fastforce
  then have n: "list_all (\<lambda>c. status c \<noteq> status_creating) (persisted ?t)"
    by (auto simp: list_all_iff)
  from s ne n not_creating_persisted_first [OF s] show ?thesis by (intro conjI)
qed


text \<open>
  Claim C7, as the code has it. \<^verbatim>\<open>createCommand\<close> runs on a git URL, with auto-detect or
  without a template option. When the confidence of the detection is greater than the
  double 0.7, the template it goes on with is the detected one, and every record it writes
  names it. When the confidence is at most 0.7, and no template option was given, the
  template is \<open>base\<close>, and every record it writes names \<open>base\<close>.
\<close>

theorem createCommand_template_threshold:
  assumes "truthy_string (opt_git options)" and "wants_detection options"
  shows "(double_of (7 / 10) < confidence (detectProject (clonedProject w)) \<longrightarrow>
            (\<forall>cloneDir tmpl.
                fst (cloneAndDetect options sandboxId w) = Inr (cloneDir, tmpl) \<longrightarrow>
                tmpl = det_template (detectProject (clonedProject w))) \<and>
            (\<forall>c \<in> set (persisted (new_calls (createCommand options) w)).
                template c = det_template (detectProject (clonedProject w)))) \<and>
         (confidence (detectProject (clonedProject w)) \<le> double_of (7 / 10) \<and>
          \<not> truthy_string (opt_template options) \<longrightarrow>
            (\<forall>cloneDir tmpl.
                fst (cloneAndDetect options sandboxId w) = Inr (cloneDir, tmpl) \<longrightarrow>
                tmpl = ''base'') \<and>
            (\<forall>c \<in> set (persisted (new_calls (createCommand options) w)).
                template c = ''base''))"
proof -
  have cd: "tmpl = resolved_template options w"
    if "fst (cloneAndDetect options sandboxId w) = Inr (cloneDir, tmpl)" for cloneDir tmpl
  proof -
    from that have "cloneAndDetect options sandboxId w
        = (Inr (cloneDir, tmpl), snd (cloneAndDetect options sandboxId w))"
      by (cases "cloneAndDetect options sandboxId w") simp
    from cloneAndDetect_result(1) [OF this] show ?thesis .
  qed
  from persisted_createCommand [of options w]
  have pc: "\<forall>c \<in> set (persisted (new_calls (createCommand options) w)).
      template c = resolved_template options w"
    by simp
  have A: "resolved_template options w = det_template (detectProject (clonedProject w))"
    if "double_of (7 / 10) < confidence (detectProject (clonedProject w))"
    using that by (simp add: resolved_template_detected [OF assms])
  have B: "resolved_template options w = ''base''"
    if "confidence (detectProject (clonedProject w)) \<le> double_of (7 / 10)"
      and "\<not> truthy_string (opt_template options)"
    using that
    by (simp add: resolved_template_detected [OF assms] string_or_def truthy_string_def
        split: option.splits)
  from cd pc A B show ?thesis by metis
qed

theorem createCommand_template_threshold_witness:
  "truthy_string (opt_git example_options) \<and> wants_detection example_options \<and>
   \<not> truthy_string (opt_template example_options) \<and>
   double_of (7 / 10) < confidence (detectProject (clonedProject broken_package_world)) \<and>
   fst (cloneAndDetect example_options ''sandbox-Ab3dE6gh'' broken_package_world)
     = Inr (Some ''/home/u/.dcsandbox/git-cache/sandbox-Ab3dE6gh'', ''node'') \<and>
   persisted (new_calls (createCommand example_options) broken_package_world) \<noteq> [] \<and>
   template (hd (persisted (new_calls (createCommand example_options) broken_package_world)))
     = ''node'' \<and>
   confidence (detectProject (clonedProject (example_world (\<lambda>i. Missing) (Some []))))
     \<le> double_of (7 / 10) \<and>
   persisted (new_calls (createCommand example_options)
      (example_world (\<lambda>i. Missing) (Some []))) \<noteq> [] \<and>
   template (hd (persisted (new_calls (createCommand example_options)
      (example_world (\<lambda>i. Missing) (Some []))))) = ''base''"
proof -
  let ?w = "example_world (\<lambda>i. Missing) (Some [])"
  have c: "clonedProject broken_package_world = broken_package_project"
    by (simp add: broken_package_world_def)
  have c': "clonedProject ?w = go_project"
    by (simp add: example_world_def)
  have nt: "\<not> truthy_string (opt_template example_options)"
    by (simp add: truthy_string_def example_options_def)
  note th = createCommand_template_threshold
    [OF truthy_git_example_options wants_detection_example_options,
      of broken_package_world "''sandbox-Ab3dE6gh''"]
  note th' = createCommand_template_threshold
    [OF truthy_git_example_options wants_detection_example_options,
      of ?w "''sandbox-Ab3dE6gh''"]
  note ne = createCommand_broken_package_persists
  note ne' = createCommand_example_persists
  from ne have "hd (persisted (new_calls (createCommand example_options) broken_package_world))
      \<in> set (persisted (new_calls (createCommand example_options) broken_package_world))"
    by simp
  with th have n: "template
      (hd (persisted (new_calls (createCommand example_options) broken_package_world)))
      = ''node''"
    by (simp add: c detectProject_broken_package(2,3))
  from ne' have "hd (persisted (new_calls (createCommand example_options) ?w))
      \<in> set (persisted (new_calls (createCommand example_options) ?w))"
    by simp
  with th' nt have b: "template (hd (persisted (new_calls (createCommand example_options) ?w)))
      = ''base''"
    by (simp add: c' detectProject_go_project)
  from n b ne ne' nt truthy_git_example_options wants_detection_example_options
    cloneAndDetect_broken_package
  show ?thesis by (simp add: c c' detectProject_broken_package(2) detectProject_go_project)
qed

text \<open>
  Claim C7 as stated fails at the confidence 0.7 itself: a repository with one \<^verbatim>\<open>.go\<close> file
  is detected as go with the confidence 0.7, and \<^verbatim>\<open>createCommand\<close> goes on with \<open>base\<close>.
\<close>

theorem createCommand_confidence_0_7_rejected_counterexample:
  "confidence (detectProject (clonedProject (example_world (\<lambda>i. Missing) (Some []))))
     = double_of (7 / 10) \<and>
   double_of (7 / 10) = 3152519739159347 / 4503599627370496 \<and>
   det_template (detectProject (clonedProject (example_world (\<lambda>i. Missing) (Some [])))) = ''go'' \<and>
   truthy_string (opt_git example_options) \<and> wants_detection example_options \<and>
   fst (cloneAndDetect example_options ''sandbox-Ab3dE6gh''
          (example_world (\<lambda>i. Missing) (Some [])))
     = Inr (Some ''/home/u/.dcsandbox/git-cache/sandbox-Ab3dE6gh'', ''base'') \<and>
   persisted (new_calls (createCommand example_options)
      (example_world (\<lambda>i. Missing) (Some []))) \<noteq> [] \<and>
   list_all (\<lambda>c. template c = ''base'')
     (persisted (new_calls (createCommand example_options)
        (example_world (\<lambda>i. Missing) (Some []))))"
proof -
  let ?w = "example_world (\<lambda>i. Missing) (Some [])"
  have c: "clonedProject ?w = go_project"
    by (simp add: example_world_def)
  have v: "double_of (7 / 10) = 3152519739159347 / 4503599627370496"
    by code_simp
  have r: "resolved_template example_options ?w = ''base''"
  proof -
    have "opt_template example_options = None" by (simp add: example_options_def)
    then show ?thesis
      by (simp add: resolved_template_detected [OF truthy_git_example_options
            wants_detection_example_options] c detectProject_go_project string_or_def)
  qed
  from persisted_createCommand [of example_options ?w]
  have l: "list_all (\<lambda>c. template c = ''base'')
     (persisted (new_calls (createCommand example_options) ?w))"
    by (simp add: r list_all_iff)
  have d: "confidence (detectProject (clonedProject ?w)) = double_of (7 / 10)"
    "det_template (detectProject (clonedProject ?w)) = ''go''"
    by (simp_all add: c detectProject_go_project)
  from d v l createCommand_example_persists truthy_git_example_options
    wants_detection_example_options cloneAndDetect_example
  show ?thesis by (intro conjI)
qed


section \<open>The answers of the MCP proxy\<close>

lemma handleMCPMessage_cases:
  "(\<exists>e. handleMCPMessage sandboxId message ws = (Inl e, ws)) \<or>
   (\<exists>b. handleMCPMessage sandboxId message ws =
      (Inr (), ws\<lparr>sent := sent ws @ [Response b (request_id message)]\<rparr>))"
proof (cases message)
  case (JObj kvs)
  then show ?thesis
    by (auto simp: handleMCPMessage_def request_id_def ws_send_def forwardToMCPServer_def
        split: sum.splits)
qed (auto simp: handleMCPMessage_def request_id_def ws_send_def forwardToMCPServer_def)

lemma handleMCPMessage_throws:
  "isl (fst (handleMCPMessage sandboxId message ws)) = handler_throws sandboxId message"
proof (cases message)
  case (JObj kvs)
  then show ?thesis
    by (auto simp: handler_throws_def handleMCPMessage_def ws_send_def forwardToMCPServer_def
        split: sum.splits)
qed (auto simp: handler_throws_def handleMCPMessage_def ws_send_def forwardToMCPServer_def)

lemma on_message_throws:
  "handler_throws sandboxId message \<Longrightarrow>
     on_message sandboxId (Parsed message) ws = ws\<lparr>sent := sent ws @ [parse_error_response]\<rparr>"
  using handleMCPMessage_cases [of sandboxId message ws]
    handleMCPMessage_throws [of sandboxId message ws]
  by (auto simp: on_message_def ws_send_def)

lemma on_message_answers:
  "\<not> handler_throws sandboxId message \<Longrightarrow>
     \<exists>b. on_message sandboxId (Parsed message) ws =
       ws\<lparr>sent := sent ws @ [Response b (request_id message)]\<rparr>"
  using handleMCPMessage_cases [of sandboxId message ws]
    handleMCPMessage_throws [of sandboxId message ws]
  by (auto simp: on_message_def ws_send_def)

lemma on_message_keeps_open: "ws_closed (on_message sandboxId data ws) = ws_closed ws"
proof (cases data)
  case Malformed
  then show ?thesis by (simp add: on_message_def ws_send_def)
next
  case (Parsed message)
  show ?thesis
  proof (cases "handler_throws sandboxId message")
    case True
    then show ?thesis by (simp add: Parsed on_message_throws)
  next
    case False
    from on_message_answers [OF this, of ws] show ?thesis by (auto simp: Parsed)
  qed
qed

lemma unsupported_uri_throws: "handler_throws sandboxId unsupported_uri_request"
  by (simp add: handler_throws_def unsupported_uri_request_def request_def
      handleMCPMessage_def readResource_def)

text \<open>
  The path beside it: a method that the \<^verbatim>\<open>switch\<close> does not name is answered by
  \<^verbatim>\<open>forwardToMCPServer\<close> with \<open>-32601\<close> and the \<^verbatim>\<open>id\<close> of the request.
\<close>

lemma unknown_method_answered_with_method_not_found:
  assumes "map_of kvs ''method'' = Some (JStr method)"
    and "method \<notin> {''initialize'', ''tools/list'', ''tools/call'', ''resources/list'',
           ''resources/read''}"
  shows "on_message sandboxId (Parsed (JObj kvs)) ws =
     ws\<lparr>sent := sent ws @
       [Response (RpcError (- 32601) ''Method not found'') (map_of kvs ''id'')]\<rparr>"
  using assms
  by (simp add: on_message_def handleMCPMessage_def forwardToMCPServer_def ws_send_def)

text \<open>
  Claim C4. The claim wants the answer with the \<^verbatim>\<open>id\<close> \<^verbatim>\<open>null\<close> and the code \<open>-32700\<close> kept to
  the frames that fail to parse. The handler of a message event sends one frame for every
  frame it gets, and that frame is the parse error whenever \<^verbatim>\<open>handleMCPMessage\<close> throws, on
  whatever frame; only otherwise it carries the \<^verbatim>\<open>id\<close> of the request. The request
  \<^verbatim>\<open>resources/read\<close> of a URI that does not begin with \<^verbatim>\<open>file://\<close>, with the \<^verbatim>\<open>id\<close> 7, is a parsed
  frame on which it throws.
\<close>

theorem parsed_frame_answered_with_parse_error:
  "(\<exists>r. on_message sandboxId data ws = ws\<lparr>sent := sent ws @ [r]\<rparr> \<and>
        (case data of
           Malformed \<Rightarrow> r = parse_error_response
         | Parsed message \<Rightarrow>
             if handler_throws sandboxId message then r = parse_error_response
             else \<exists>b. r = Response b (request_id message))) \<and>
   request_id unsupported_uri_request = Some (JNum ''7'') \<and>
   on_message sandboxId (Parsed unsupported_uri_request) ws =
     ws\<lparr>sent := sent ws @ [Response (RpcError (- 32700) ''Parse error'') (Some JNull)]\<rparr>"
proof -
  have A: "\<exists>r. on_message sandboxId data ws = ws\<lparr>sent := sent ws @ [r]\<rparr> \<and>
        (case data of
           Malformed \<Rightarrow> r = parse_error_response
         | Parsed message \<Rightarrow>
             if handler_throws sandboxId message then r = parse_error_response
             else \<exists>b. r = Response b (request_id message))"
  proof (cases data)
    case Malformed
    then show ?thesis by (simp add: on_message_def ws_send_def)
  next
    case (Parsed message)
    show ?thesis
    proof (cases "handler_throws sandboxId message")
      case True
      then show ?thesis by (simp add: Parsed on_message_throws)
    next
      case False
      from on_message_answers [OF this, of ws] show ?thesis
        by (auto simp: Parsed False)
    qed
  qed
  have B: "request_id unsupported_uri_request = Some (JNum ''7'')"
    by (simp add: request_id_def unsupported_uri_request_def request_def)
  have C: "on_message sandboxId (Parsed unsupported_uri_request) ws =
     ws\<lparr>sent := sent ws @ [Response (RpcError (- 32700) ''Parse error'') (Some JNull)]\<rparr>"
    by (simp add: on_message_throws unsupported_uri_throws parse_error_response_def)
  from A B C show ?thesis by (intro conjI)
qed

theorem parsed_frame_answered_with_parse_error_witness:
  "request_id unsupported_uri_request = Some (JNum ''7'') \<and>
   on_message ''sandbox-Ab3dE6gh'' (Parsed unsupported_uri_request)
       \<lparr>sent = [], ws_closed = False\<rparr>
     = \<lparr>sent = [Response (RpcError (- 32700) ''Parse error'') (Some JNull)],
        ws_closed = False\<rparr>"
  using parsed_frame_answered_with_parse_error
    [of "''sandbox-Ab3dE6gh''" "Parsed unsupported_uri_request"
      "\<lparr>sent = [], ws_closed = False\<rparr>"]
  by simp

text \<open>
  Claim C9. The claim wants a \<^verbatim>\<open>tools/call\<close> of an unknown tool answered with \<open>-32601\<close> and
  the \<^verbatim>\<open>id\<close> of the request. \<^verbatim>\<open>callTool\<close> throws on such a name, and the handler of the message
  event answers with the parse error \<open>-32700\<close> and the \<^verbatim>\<open>id\<close> \<^verbatim>\<open>null\<close>. The socket is not closed.
\<close>

theorem unknown_tool_answered_with_parse_error:
  assumes "map_of kvs ''method'' = Some (JStr ''tools/call'')"
    and "map_of kvs ''params'' = Some (JObj params)"
    and "map_of params ''name'' = Some (JStr toolName)"
    and "toolName \<notin> {''filesystem_read'', ''filesystem_write'', ''shell_execute''}"
  shows "on_message sandboxId (Parsed (JObj kvs)) ws =
           ws\<lparr>sent := sent ws @
             [Response (RpcError (- 32700) ''Parse error'') (Some JNull)]\<rparr> \<and>
         ws_closed (on_message sandboxId (Parsed (JObj kvs)) ws) = ws_closed ws"
proof -
  from assms have "callTool sandboxId (Some (JStr toolName)) (map_of params ''arguments'')
      = Inl (Error (''Unknown tool: '' @ toolName))"
    by (simp add: callTool_def template_value_def)
  with assms have "handleMCPMessage sandboxId (JObj kvs) ws
      = (Inl (Error (''Unknown tool: '' @ toolName)), ws)"
    by (simp add: handleMCPMessage_def)
  then show ?thesis
    by (simp add: on_message_def ws_send_def parse_error_response_def)
qed

theorem unknown_tool_answered_with_parse_error_witness:
  "request_id unknown_tool_request = Some (JNum ''1'') \<and>
   on_message ''sandbox-Ab3dE6gh'' (Parsed unknown_tool_request) \<lparr>sent = [], ws_closed = False\<rparr>
     = \<lparr>sent = [Response (RpcError (- 32700) ''Parse error'') (Some JNull)],
        ws_closed = False\<rparr>"
proof -
  have "on_message ''sandbox-Ab3dE6gh''
      (Parsed (JObj [(''jsonrpc'', JStr ''2.0''), (''id'', JNum ''1''),
         (''method'', JStr ''tools/call''), (''params'', JObj [(''name'', JStr ''foo'')])]))
      \<lparr>sent = [], ws_closed = False\<rparr>
    = \<lparr>sent = [Response (RpcError (- 32700) ''Parse error'') (Some JNull)],
        ws_closed = False\<rparr>"
    using unknown_tool_answered_with_parse_error
      [where kvs = "[(''jsonrpc'', JStr ''2.0''), (''id'', JNum ''1''),
         (''method'', JStr ''tools/call''), (''params'', JObj [(''name'', JStr ''foo'')])]"
        and params = "[(''name'', JStr ''foo'')]" and toolName = "''foo''"
        and sandboxId = "''sandbox-Ab3dE6gh''" and ws = "\<lparr>sent = [], ws_closed = False\<rparr>"]
    by simp
  then show ?thesis
    by (simp add: unknown_tool_request_def request_def request_id_def)
qed


end
